theory Spec2Isabelle
  imports Complex_Main "HOL-Library.Word" "HOL-Library.Monad_Syntax"
begin

section \<open>Machine types and checked array access\<close>

text \<open>
  The C++ types of the source on the LP64 targets the project builds for:
  \<^verbatim>\<open>size_t\<close> is an unsigned 64-bit word (arithmetic wraps), \<^verbatim>\<open>int\<close> is a signed
  32-bit word. A \<^verbatim>\<open>double\<close> is left abstract wherever only \<open>+\<close> and \<open>*\<close> are applied
  to it (a type variable), and is a \<open>real\<close> where the source compares or rounds it.
\<close>

type_synonym size_t = "64 word"
type_synonym c_int = "32 word"

text \<open>The value of a \<^verbatim>\<open>size_t\<close> returned through a function of result type \<^verbatim>\<open>int\<close>.\<close>

definition size_t_to_int :: "size_t \<Rightarrow> int" where
  "size_t_to_int n = sint (ucast n :: c_int)"

definition INT_MAX :: nat where
  "INT_MAX = 2147483647"

text \<open>
  Raw pointers carry no bounds. A read or write outside the array is undefined
  behaviour in the source; the model makes it the value \<open>None\<close>.
\<close>

definition rd :: "'a list \<Rightarrow> nat \<Rightarrow> 'a option" where
  "rd xs i = (if i < length xs then Some (xs ! i) else None)"

definition wr :: "'a list \<Rightarrow> nat \<Rightarrow> 'a \<Rightarrow> 'a list option" where
  "wr xs i v = (if i < length xs then Some (xs[i := v]) else None)"

section \<open>IntrinsicsParameterization\<close>

record 'a IntrinsicsParameterization =
  distortionSize :: size_t
  globalSize :: size_t
  localSize :: size_t
  focalRatio :: 'a
  lockFocal :: bool
  lockFocalRatio :: bool
  lockCenter :: bool
  lockDistortion :: bool

text \<open>The constructor (lines 28-60).\<close>

definition IntrinsicsParameterization_init ::
  "size_t \<Rightarrow> 'a \<Rightarrow> bool \<Rightarrow> bool \<Rightarrow> bool \<Rightarrow> bool \<Rightarrow> 'a IntrinsicsParameterization" where
  "IntrinsicsParameterization_init parametersSize ratio lFocal lFocalRatio lCenter lDistortion =
     (let dSize = parametersSize - 4;
          l0 = (0 :: size_t);
          l1 = (if \<not> lFocal then (if lFocalRatio then l0 + 1 else l0 + 2) else l0);
          l2 = (if \<not> lCenter then l1 + 2 else l1);
          l3 = (if \<not> lDistortion then l2 + dSize else l2)
      in \<lparr> distortionSize = dSize, globalSize = parametersSize, localSize = l3,
           focalRatio = ratio, lockFocal = lFocal, lockFocalRatio = lFocalRatio,
           lockCenter = lCenter, lockDistortion = lDistortion \<rparr>)"

definition GlobalSize :: "'a IntrinsicsParameterization \<Rightarrow> int" where
  "GlobalSize p = size_t_to_int (globalSize p)"

definition LocalSize :: "'a IntrinsicsParameterization \<Rightarrow> int" where
  "LocalSize p = size_t_to_int (localSize p)"

text \<open>
  The first loop of \<^verbatim>\<open>Plus\<close> (lines 67-70): \<^verbatim>\<open>for (int i = 0; i < _globalSize; i++)
  x_plus_delta[i] = x[i];\<close>. The counter is an \<^verbatim>\<open>int\<close>: incrementing it past
  \<open>INT_MAX\<close> is undefined.
\<close>

function copy_loop :: "size_t \<Rightarrow> 'a list \<Rightarrow> 'a list \<Rightarrow> nat \<Rightarrow> 'a list option" where
  "copy_loop n x out i =
     (if i < unat n then
        (if i < length x \<and> i < length out \<and> i < INT_MAX
         then copy_loop n x (out[i := x ! i]) (Suc i)
         else None)
      else Some out)"
  by pat_completeness auto
termination
  by (relation "measure (\<lambda>(n, x, out, i). unat n - i)") auto

declare copy_loop.simps [simp del]

text \<open>
  The distortion loop (lines 101-105): \<^verbatim>\<open>for (int i = 0; i < _distortionSize; i++)
  { x_plus_delta[4 + i] = x[4 + i] + delta[posDelta]; ++posDelta; }\<close>.
\<close>

function distortion_loop ::
  "size_t \<Rightarrow> 'a::plus list \<Rightarrow> 'a list \<Rightarrow> 'a list \<Rightarrow> size_t \<Rightarrow> nat \<Rightarrow> ('a list \<times> size_t) option" where
  "distortion_loop n x delta out posDelta i =
     (if i < unat n then
        (if 4 + i < length x \<and> 4 + i < length out \<and> unat posDelta < length delta
            \<and> 4 + i \<le> INT_MAX
         then distortion_loop n x delta (out[4 + i := x ! (4 + i) + delta ! unat posDelta])
                (posDelta + 1) (Suc i)
         else None)
      else Some (out, posDelta))"
  by pat_completeness auto
termination
  by (relation "measure (\<lambda>(n, x, delta, out, posDelta, i). unat n - i)") auto

declare distortion_loop.simps [simp del]

text \<open>
  \<^verbatim>\<open>Plus\<close> (lines 65-109). The third argument is the caller's output array
  \<^verbatim>\<open>x_plus_delta\<close> as it is on entry; the result is that array on return (the
  function itself always returns \<^verbatim>\<open>true\<close>).
\<close>

definition Plus ::
  "'a::{plus,times} IntrinsicsParameterization \<Rightarrow> 'a list \<Rightarrow> 'a list \<Rightarrow> 'a list \<Rightarrow> 'a list option" where
  "Plus p x delta x_plus_delta =
     do {
       out0 \<leftarrow> copy_loop (globalSize p) x x_plus_delta 0;
       (out1, pos1) \<leftarrow>
         (if \<not> lockFocal p then
            (if lockFocalRatio p then
               do {
                 x0 \<leftarrow> rd x 0; d0 \<leftarrow> rd delta 0;
                 t \<leftarrow> wr out0 0 (x0 + d0);
                 x1 \<leftarrow> rd x 1;
                 t' \<leftarrow> wr t 1 (x1 + focalRatio p * d0);
                 Some (t', (1 :: size_t))
               }
             else
               do {
                 x0 \<leftarrow> rd x 0; d0 \<leftarrow> rd delta 0;
                 t \<leftarrow> wr out0 0 (x0 + d0);
                 x1 \<leftarrow> rd x 1; d1 \<leftarrow> rd delta 1;
                 t' \<leftarrow> wr t 1 (x1 + d1);
                 Some (t', (2 :: size_t))
               })
          else Some (out0, (0 :: size_t)));
       (out2, pos2) \<leftarrow>
         (if \<not> lockCenter p then
            do {
              x2 \<leftarrow> rd x 2; d2 \<leftarrow> rd delta (unat pos1);
              t \<leftarrow> wr out1 2 (x2 + d2);
              x3 \<leftarrow> rd x 3; d3 \<leftarrow> rd delta (unat (pos1 + 1));
              t' \<leftarrow> wr t 3 (x3 + d3);
              Some (t', pos1 + 2)
            }
          else Some (out1, pos1));
       (out3, pos3) \<leftarrow>
         (if \<not> lockDistortion p
          then distortion_loop (distortionSize p) x delta out2 pos2 0
          else Some (out2, pos2));
       Some out3
     }"

text \<open>
  Closed forms, used to state and prove the properties of \<^verbatim>\<open>Plus\<close>: the number of
  local coordinates each group takes, and the array each stage leaves.
\<close>

definition focal_out :: "'a::{plus,times} \<Rightarrow> bool \<Rightarrow> bool \<Rightarrow> 'a list \<Rightarrow> 'a list \<Rightarrow> 'a list" where
  "focal_out r lF lR x delta =
     (if lF then x
      else if lR then x[0 := x ! 0 + delta ! 0, 1 := x ! 1 + r * delta ! 0]
      else x[0 := x ! 0 + delta ! 0, 1 := x ! 1 + delta ! 1])"

definition center_out :: "bool \<Rightarrow> nat \<Rightarrow> 'a::plus list \<Rightarrow> 'a list \<Rightarrow> 'a list \<Rightarrow> 'a list" where
  "center_out lC fc x delta out =
     (if lC then out else out[2 := x ! 2 + delta ! fc, 3 := x ! 3 + delta ! (fc + 1)])"

definition disto_out :: "bool \<Rightarrow> nat \<Rightarrow> 'a::plus list \<Rightarrow> 'a list \<Rightarrow> 'a list \<Rightarrow> 'a list" where
  "disto_out lD pos x delta out =
     (if lD then out else take 4 out @ map (\<lambda>j. x ! (4 + j) + delta ! (pos + j)) [0..<length x - 4])"

definition focal_dim :: "bool \<Rightarrow> bool \<Rightarrow> nat" where
  "focal_dim lF lR = (if lF then 0 else if lR then 1 else 2)"

definition center_dim :: "bool \<Rightarrow> nat" where
  "center_dim lC = (if lC then 0 else 2)"

definition distortion_dim :: "bool \<Rightarrow> size_t \<Rightarrow> nat" where
  "distortion_dim lD G = (if lD then 0 else unat G - 4)"

section \<open>Vectors, matrices and the helpers the cost functions call\<close>

text \<open>
  An Eigen vector is a list, a matrix the list of its rows. The products below use only
  \<open>0\<close>, \<open>+\<close> and \<open>*\<close> of the scalar type, and no law of them.
\<close>

type_synonym 'a vec = "'a list"
type_synonym 'a mat = "'a list list"

definition dot :: "'a::{zero,plus,times} vec \<Rightarrow> 'a vec \<Rightarrow> 'a" where
  "dot u v = foldl (+) 0 (map2 (*) u v)"

definition mmul :: "'a::{zero,plus,times} mat \<Rightarrow> 'a mat \<Rightarrow> 'a mat" where
  "mmul A B = map (\<lambda>r. map (dot r) (transpose B)) A"

definition mtranspose :: "'a mat \<Rightarrow> 'a mat" where
  "mtranspose A = transpose A"

definition madd :: "'a::plus mat \<Rightarrow> 'a mat \<Rightarrow> 'a mat" where
  "madd A B = map2 (map2 (+)) A B"

definition hconcat :: "'a mat list \<Rightarrow> 'a mat" where
  "hconcat Ms = map concat (transpose Ms)"

definition Identity3 :: "'a::{zero,one} mat" where
  "Identity3 = [[1, 0, 0], [0, 1, 0], [0, 0, 1]]"

text \<open>The local array \<^verbatim>\<open>const double identity[] = {1, 0, 0, 0, 1, 0, 0, 0, 1}\<close>.\<close>

definition identity_block :: "'a::{zero,one} list" where
  "identity_block = [1, 0, 0, 0, 1, 0, 0, 0, 1]"

text \<open>
  \<^verbatim>\<open>Eigen::Map<const Eigen::Matrix<double, 3, 3, Eigen::RowMajor>>\<close> over a parameter
  block: the nine doubles at the pointer, row by row. A block with fewer than nine is
  read out of bounds.
\<close>

definition rows3 :: "'a list \<Rightarrow> 'a mat" where
  "rows3 p = [[p ! 0, p ! 1, p ! 2], [p ! 3, p ! 4, p ! 5], [p ! 6, p ! 7, p ! 8]]"

definition Map3 :: "'a list \<Rightarrow> 'a mat option" where
  "Map3 p = (if 9 \<le> length p then Some (rows3 p) else None)"

text \<open>
  The functions of \<^verbatim>\<open>SO3\<close> and the chain-rule helpers \<^verbatim>\<open>getJacobian_*\<close> are called by
  this file and defined elsewhere in the project. They are parameters of the model.
\<close>

record 'a lie_ops =
  logm :: "'a mat \<Rightarrow> 'a vec"
  dlogmdr :: "'a mat \<Rightarrow> 'a mat"
  getJacobian_AB_wrt_A :: "'a mat \<Rightarrow> 'a mat \<Rightarrow> 'a mat"
  getJacobian_AB_wrt_B :: "'a mat \<Rightarrow> 'a mat \<Rightarrow> 'a mat"
  getJacobian_At_wrt_A :: "'a mat"

text \<open>
  The \<^verbatim>\<open>jacobians\<close> argument of \<^verbatim>\<open>Evaluate\<close> is a null pointer or an array with one
  entry per parameter block, each null or a buffer. The model takes \<open>None\<close> or the
  list that says which entries are buffers, and returns for each entry the matrix
  written to it (\<open>None\<close>: nothing was written). An entry past the end of the array is
  an out-of-bounds access.
\<close>

definition set_jac ::
  "bool list \<Rightarrow> nat \<Rightarrow> 'a mat \<Rightarrow> 'a mat option list \<Rightarrow> 'a mat option list option" where
  "set_jac req i M js =
     (if i < length req \<and> i < length js
      then Some (if req ! i then js[i := Some M] else js)
      else None)"

definition mprod :: "'a::{zero,plus,times} mat list \<Rightarrow> 'a mat" where
  "mprod Ms = (case Ms of [] \<Rightarrow> [] | M # rest \<Rightarrow> foldl mmul M rest)"

section \<open>Camera models\<close>

type_synonym IndexT = nat

datatype camera_type = EquiDistantCamera | PinholeCamera | OtherCamera

text \<open>
  Modelled from the spec: the classes \<^verbatim>\<open>camera::Pinhole\<close> and \<^verbatim>\<open>camera::EquiDistant\<close>
  are not among the sources. The state of a camera object is what this file reads and
  writes through its accessors: image size, lock, scale, offset, distortion
  parameters, initial scale and ratio lock. The spec's data model gives the parameter
  vector as \<open>[focalX, focalY, centerX, centerY, distortion...]\<close>.
\<close>

record 'a Intrinsic =
  cam_type :: camera_type
  cam_w :: nat
  cam_h :: nat
  cam_locked :: bool
  cam_scale :: "'a \<times> 'a"
  cam_offset :: "'a \<times> 'a"
  cam_distortion :: "'a list"
  cam_initialScale :: "'a \<times> 'a"
  cam_ratioLocked :: bool

definition getParams :: "'a Intrinsic \<Rightarrow> 'a list" where
  "getParams c = [fst (cam_scale c), snd (cam_scale c), fst (cam_offset c), snd (cam_offset c)]
                 @ cam_distortion c"

definition getDistortionParams :: "'a Intrinsic \<Rightarrow> 'a list" where
  "getDistortionParams c = cam_distortion c"

definition setScale :: "'a \<times> 'a \<Rightarrow> 'a Intrinsic \<Rightarrow> 'a Intrinsic" where
  "setScale s c = c\<lparr>cam_scale := s\<rparr>"

definition setOffset :: "'a \<times> 'a \<Rightarrow> 'a Intrinsic \<Rightarrow> 'a Intrinsic" where
  "setOffset s c = c\<lparr>cam_offset := s\<rparr>"

definition setDistortionParams :: "'a list \<Rightarrow> 'a Intrinsic \<Rightarrow> 'a Intrinsic" where
  "setDistortionParams d c = c\<lparr>cam_distortion := d\<rparr>"

text \<open>
  The projection functions of the camera models and their derivatives are parameters:
  each takes the camera object it is called on. A pose is its rotation and centre.
\<close>

type_synonym 'a Pose3 = "'a mat \<times> 'a vec"

record 'a camera_ops =
  ima2cam :: "'a Intrinsic \<Rightarrow> 'a vec \<Rightarrow> 'a vec"
  removeDistortion :: "'a Intrinsic \<Rightarrow> 'a vec \<Rightarrow> 'a vec"
  toUnitSphere :: "'a Intrinsic \<Rightarrow> 'a vec \<Rightarrow> 'a vec"
  project :: "'a Intrinsic \<Rightarrow> 'a Pose3 \<Rightarrow> 'a vec \<Rightarrow> bool \<Rightarrow> 'a vec"
  getDerivativeProjectWrtRotation :: "'a Intrinsic \<Rightarrow> 'a Pose3 \<Rightarrow> 'a vec \<Rightarrow> 'a mat"
  getDerivativeProjectWrtScale :: "'a Intrinsic \<Rightarrow> 'a Pose3 \<Rightarrow> 'a vec \<Rightarrow> 'a mat"
  getDerivativeProjectWrtPoint :: "'a Intrinsic \<Rightarrow> 'a Pose3 \<Rightarrow> 'a vec \<Rightarrow> 'a mat"
  getDerivativeProjectWrtPrincipalPoint :: "'a Intrinsic \<Rightarrow> 'a Pose3 \<Rightarrow> 'a vec \<Rightarrow> 'a mat"
  getDerivativeProjectWrtDisto :: "'a Intrinsic \<Rightarrow> 'a Pose3 \<Rightarrow> 'a vec \<Rightarrow> 'a mat"
  getDerivativetoUnitSphereWrtScale :: "'a Intrinsic \<Rightarrow> 'a vec \<Rightarrow> 'a mat"
  getDerivativetoUnitSphereWrtPoint :: "'a Intrinsic \<Rightarrow> 'a vec \<Rightarrow> 'a mat"
  getDerivativeRemoveDistoWrtPt :: "'a Intrinsic \<Rightarrow> 'a vec \<Rightarrow> 'a mat"
  getDerivativeRemoveDistoWrtDisto :: "'a Intrinsic \<Rightarrow> 'a vec \<Rightarrow> 'a mat"
  getDerivativeIma2CamWrtPrincipalPoint :: "'a Intrinsic \<Rightarrow> 'a mat"
  getDerivativeIma2CamWrtScale :: "'a Intrinsic \<Rightarrow> 'a vec \<Rightarrow> 'a mat"

definition homogeneous :: "'a::one vec \<Rightarrow> 'a vec" where
  "homogeneous v = v @ [1]"

definition Jhomogenous :: "'a::{zero,one} mat" where
  "Jhomogenous = [[1, 0, 0], [0, 1, 0], [0, 0, 1], [0, 0, 0]]"

section \<open>Cost functions\<close>

text \<open>
  The three classes derived from \<^verbatim>\<open>ceres::CostFunction\<close>, with their members. The
  reprojection costs hold a shared pointer to the camera object of the scene; the
  model holds the key of that object, and \<^verbatim>\<open>Evaluate\<close> takes and returns the object.
\<close>

datatype 'a CostFunction =
    CostRotationPrior (two_R_one: "'a mat")
      (withRig_one: bool) (withRig_two: bool) (withSameRig: bool)
  | CostEquiDistant (fi: "'a vec") (fj: "'a vec") (intrinsic: IndexT)
      (withRig_one: bool) (withRig_two: bool) (withSameRig: bool)
  | CostPinHole (fi: "'a vec") (fj: "'a vec") (intrinsic: IndexT)
      (withRig_one: bool) (withRig_two: bool) (withSameRig: bool)

text \<open>
  The constructors' calls of \<^verbatim>\<open>mutable_parameter_block_sizes()->push_back\<close>: the sizes
  of the parameter blocks the cost function declares, in order. The second argument is
  \<^verbatim>\<open>intrinsic->getParams().size()\<close> at construction.
\<close>

definition rig_block_sizes :: "bool \<Rightarrow> bool \<Rightarrow> bool \<Rightarrow> nat list" where
  "rig_block_sizes withRig1 withRig2 sameRig =
     (if withRig1 then [9] else []) @ (if withRig2 \<and> \<not> sameRig then [9] else [])"

fun parameter_block_sizes :: "'a CostFunction \<Rightarrow> nat \<Rightarrow> nat list" where
  "parameter_block_sizes (CostRotationPrior R w1 w2 ws) n = [9, 9] @ rig_block_sizes w1 w2 ws"
| "parameter_block_sizes (CostEquiDistant a b k w1 w2 ws) n = [9, 9, n] @ rig_block_sizes w1 w2 ws"
| "parameter_block_sizes (CostPinHole a b k w1 w2 ws) n = [9, 9, n] @ rig_block_sizes w1 w2 ws"

fun num_residuals :: "'a CostFunction \<Rightarrow> nat" where
  "num_residuals (CostRotationPrior R w1 w2 ws) = 3"
| "num_residuals (CostEquiDistant a b k w1 w2 ws) = 2"
| "num_residuals (CostPinHole a b k w1 w2 ws) = 2"

text \<open>
  \<^verbatim>\<open>CostRotationPrior::Evaluate\<close> (lines 199-263), in two parts. The second part is
  the code after \<^verbatim>\<open>if (jacobians == nullptr) return true;\<close> (lines 227-260): it
  writes the jacobian of each requested block. Every product is written as in the
  source, and \<open>mprod\<close> multiplies from the left as Eigen does.
\<close>

definition CostRotationPrior_jacobians ::
  "'a::{zero,one,plus,times} lie_ops \<Rightarrow> 'a mat \<Rightarrow> bool \<Rightarrow> bool \<Rightarrow> bool \<Rightarrow>
   'a mat \<Rightarrow> 'a mat \<Rightarrow> 'a mat \<Rightarrow> 'a mat \<Rightarrow> bool list \<Rightarrow> 'a mat option list option" where
  "CostRotationPrior_jacobians L R21 w1 w2 ws oneRo twoRo coneRone ctwoRtwo req =
     (let coneRo = mmul coneRone oneRo;
          ctwoRo = mmul ctwoRtwo twoRo;
          ctwo_R_cone_est = mmul ctwoRo (mtranspose coneRo);
          error_R = mmul ctwo_R_cone_est (mtranspose R21)
      in
      do {
        j0 \<leftarrow> set_jac req 0
               (mprod [dlogmdr L error_R,
                       getJacobian_AB_wrt_A L ctwo_R_cone_est (mtranspose R21),
                       getJacobian_AB_wrt_B L ctwoRo (mtranspose coneRo),
                       getJacobian_At_wrt_A L,
                       getJacobian_AB_wrt_B L coneRone oneRo,
                       getJacobian_AB_wrt_A L Identity3 oneRo])
               (replicate (length req) None);
        j1 \<leftarrow> set_jac req 1
               (mprod [dlogmdr L error_R,
                       getJacobian_AB_wrt_A L ctwo_R_cone_est (mtranspose R21),
                       getJacobian_AB_wrt_A L ctwoRo (mtranspose coneRo),
                       getJacobian_AB_wrt_B L ctwoRtwo twoRo,
                       getJacobian_AB_wrt_A L Identity3 twoRo])
               j0;
        j2 \<leftarrow> (if w1 then
                 set_jac req 2
                   (let J = mprod [dlogmdr L error_R,
                                   getJacobian_AB_wrt_A L ctwo_R_cone_est (mtranspose R21),
                                   getJacobian_AB_wrt_B L ctwoRo (mtranspose coneRo),
                                   getJacobian_At_wrt_A L,
                                   getJacobian_AB_wrt_A L coneRone oneRo,
                                   getJacobian_AB_wrt_A L Identity3 coneRone]
                    in if ws
                       then madd J
                             (mprod [dlogmdr L error_R,
                                     getJacobian_AB_wrt_A L ctwo_R_cone_est (mtranspose R21),
                                     getJacobian_AB_wrt_A L ctwoRo (mtranspose coneRo),
                                     getJacobian_AB_wrt_A L ctwoRtwo twoRo,
                                     getJacobian_AB_wrt_A L Identity3 ctwoRtwo])
                       else J)
                   j1
               else Some j1);
        j3 \<leftarrow> (if w2 \<and> \<not> ws then
                 set_jac req 3
                   (mprod [dlogmdr L error_R,
                           getJacobian_AB_wrt_A L ctwo_R_cone_est (mtranspose R21),
                           getJacobian_AB_wrt_A L ctwoRo (mtranspose coneRo),
                           getJacobian_AB_wrt_A L ctwoRtwo twoRo,
                           getJacobian_AB_wrt_A L Identity3 ctwoRtwo])
                   j2
               else Some j2);
        Some j3
      })"

text \<open>
  The first part (lines 201-225) reads the parameter blocks and writes the residuals.
  \<open>parameters\<close> is the array of parameter blocks the solver passes.
\<close>

definition CostRotationPrior_Evaluate ::
  "'a::{zero,one,plus,times} lie_ops \<Rightarrow> 'a mat \<Rightarrow> bool \<Rightarrow> bool \<Rightarrow> bool \<Rightarrow>
   'a list list \<Rightarrow> bool list option \<Rightarrow> ('a vec \<times> 'a mat option list) option" where
  "CostRotationPrior_Evaluate L R21 w1 w2 ws parameters jacobians =
     do {
       parameter_rotation_one \<leftarrow> rd parameters 0;
       parameter_rotation_two \<leftarrow> rd parameters 1;
       parameter_rotation_rig_one \<leftarrow> (if w1 then rd parameters 2 else Some identity_block);
       parameter_rotation_rig_two \<leftarrow>
         (if w2 then (if ws then rd parameters 2 else rd parameters 3) else Some identity_block);
       oneRo \<leftarrow> Map3 parameter_rotation_one;
       twoRo \<leftarrow> Map3 parameter_rotation_two;
       coneRone \<leftarrow> Map3 parameter_rotation_rig_one;
       ctwoRtwo \<leftarrow> Map3 parameter_rotation_rig_two;
       let coneRo = mmul coneRone oneRo;
           ctwoRo = mmul ctwoRtwo twoRo;
           ctwo_R_cone_est = mmul ctwoRo (mtranspose coneRo);
           error_R = mmul ctwo_R_cone_est (mtranspose R21);
           error_r = logm L error_R;
           residuals = [error_r ! 0, error_r ! 1, error_r ! 2]
       in
       (case jacobians of
          None \<Rightarrow> Some (residuals, [])
        | Some req \<Rightarrow>
            do {
              js \<leftarrow> CostRotationPrior_jacobians L R21 w1 w2 ws oneRo twoRo coneRone ctwoRtwo req;
              Some (residuals, js)
            })
     }"

text \<open>
  \<^verbatim>\<open>CostEquiDistant::Evaluate\<close> (lines 293-389), in two parts. The second part is the
  code after \<^verbatim>\<open>if (jacobians == nullptr) return true;\<close> (lines 334-386); \<open>c'\<close> is
  the camera object as the first part leaves it.
\<close>

definition CostEquiDistant_jacobians ::
  "'a::{zero,one,plus,minus,times} lie_ops \<Rightarrow> 'a camera_ops \<Rightarrow> 'a Intrinsic \<Rightarrow>
   'a vec \<Rightarrow> bool \<Rightarrow> bool \<Rightarrow> bool \<Rightarrow> 'a mat \<Rightarrow> 'a mat \<Rightarrow> 'a mat \<Rightarrow> 'a mat \<Rightarrow>
   bool list \<Rightarrow> 'a mat option list option" where
  "CostEquiDistant_jacobians L K c' pt_i w1 w2 ws iRo jRo ciRi cjRj req =
     (let ciRo = mmul ciRi iRo;
          cjRo = mmul cjRj jRo;
          R = mmul cjRo (mtranspose ciRo);
          T = (R, [0, 0, 0]);
          pt_i_cam = ima2cam K c' pt_i;
          pt_i_undist = removeDistortion K c' pt_i_cam;
          pt_i_sphere = homogeneous (toUnitSphere K c' pt_i_undist);
          dRot = getDerivativeProjectWrtRotation K c' T pt_i_sphere;
          dPoint = getDerivativeProjectWrtPoint K c' T pt_i_sphere;
          Jscale = madd (getDerivativeProjectWrtScale K c' T pt_i_sphere)
                     (mprod [dPoint, Jhomogenous,
                             getDerivativetoUnitSphereWrtScale K c' pt_i_undist]);
          Jpp = madd (getDerivativeProjectWrtPrincipalPoint K c' T pt_i_sphere)
                  (mprod [dPoint, Jhomogenous,
                          getDerivativetoUnitSphereWrtPoint K c' pt_i_undist,
                          getDerivativeRemoveDistoWrtPt K c' pt_i_cam,
                          getDerivativeIma2CamWrtPrincipalPoint K c']);
          Jdisto = madd (getDerivativeProjectWrtDisto K c' T pt_i_sphere)
                     (mprod [dPoint, Jhomogenous,
                             getDerivativetoUnitSphereWrtPoint K c' pt_i_undist,
                             getDerivativeRemoveDistoWrtDisto K c' pt_i_cam])
      in
       do {
         j0 \<leftarrow> set_jac req 0
                (mprod [dRot,
                        getJacobian_AB_wrt_B L cjRo (mtranspose ciRo),
                        getJacobian_At_wrt_A L,
                        getJacobian_AB_wrt_B L ciRi iRo,
                        getJacobian_AB_wrt_A L Identity3 iRo])
                (replicate (length req) None);
         j1 \<leftarrow> set_jac req 1
                (mprod [dRot,
                        getJacobian_AB_wrt_A L cjRo (mtranspose ciRo),
                        getJacobian_AB_wrt_B L cjRj jRo,
                        getJacobian_AB_wrt_A L Identity3 jRo])
                j0;
         j2 \<leftarrow> set_jac req 2 (hconcat [Jscale, Jpp, Jdisto]) j1;
         j3 \<leftarrow> (if w1 then
                  set_jac req 3
                    (let J = mprod [dRot,
                                    getJacobian_AB_wrt_B L cjRo (mtranspose ciRo),
                                    getJacobian_At_wrt_A L,
                                    getJacobian_AB_wrt_A L ciRi iRo,
                                    getJacobian_AB_wrt_A L Identity3 ciRi]
                     in if ws
                        then madd J
                              (mprod [dRot,
                                      getJacobian_AB_wrt_A L cjRo (mtranspose ciRo),
                                      getJacobian_AB_wrt_A L cjRj jRo,
                                      getJacobian_AB_wrt_A L Identity3 cjRj])
                        else J)
                    j2
                else Some j2);
         j4 \<leftarrow> (if w2 \<and> \<not> ws then
                  set_jac req (if \<not> w1 then 3 else 4)
                    (mprod [dRot,
                            getJacobian_AB_wrt_A L cjRo (mtranspose ciRo),
                            getJacobian_AB_wrt_A L cjRj jRo,
                            getJacobian_AB_wrt_A L Identity3 cjRj])
                    j3
                else Some j3);
         Some j4
       })"

text \<open>
  The first part (lines 295-332). The camera object \<open>c\<close> is the one the member
  \<^verbatim>\<open>_intrinsic\<close> points to; the function overwrites its scale, offset and distortion
  parameters before it projects, and the object is returned as it is left.
\<close>

definition CostEquiDistant_Evaluate ::
  "'a::{zero,one,plus,minus,times} lie_ops \<Rightarrow> 'a camera_ops \<Rightarrow>
   'a vec \<Rightarrow> 'a vec \<Rightarrow> bool \<Rightarrow> bool \<Rightarrow> bool \<Rightarrow> 'a Intrinsic \<Rightarrow>
   'a list list \<Rightarrow> bool list option \<Rightarrow> ('a Intrinsic \<times> 'a vec \<times> 'a mat option list) option" where
  "CostEquiDistant_Evaluate L K pt_i pt_j w1 w2 ws c parameters jacobians =
     do {
       parameter_rotation_i \<leftarrow> rd parameters 0;
       parameter_rotation_j \<leftarrow> rd parameters 1;
       parameter_intrinsics \<leftarrow> rd parameters 2;
       parameter_rig_i \<leftarrow> (if w1 then rd parameters 3 else Some identity_block);
       parameter_rig_j \<leftarrow>
         (if w2 then (if ws then rd parameters 3 else rd parameters 4) else Some identity_block);
       iRo \<leftarrow> Map3 parameter_rotation_i;
       jRo \<leftarrow> Map3 parameter_rotation_j;
       ciRi \<leftarrow> Map3 parameter_rig_i;
       cjRj \<leftarrow> Map3 parameter_rig_j;
       k0 \<leftarrow> rd parameter_intrinsics 0; k1 \<leftarrow> rd parameter_intrinsics 1;
       k2 \<leftarrow> rd parameter_intrinsics 2; k3 \<leftarrow> rd parameter_intrinsics 3;
       k4 \<leftarrow> rd parameter_intrinsics 4; k5 \<leftarrow> rd parameter_intrinsics 5;
       k6 \<leftarrow> rd parameter_intrinsics 6;
       let c' = setDistortionParams [k4, k5, k6] (setOffset (k2, k3) (setScale (k0, k1) c));
           ciRo = mmul ciRi iRo;
           cjRo = mmul cjRj jRo;
           R = mmul cjRo (mtranspose ciRo);
           T = (R, [0, 0, 0]);
           pt_i_cam = ima2cam K c' pt_i;
           pt_i_undist = removeDistortion K c' pt_i_cam;
           pt_i_sphere = homogeneous (toUnitSphere K c' pt_i_undist);
           pt_j_est = project K c' T pt_i_sphere True;
           residuals = [pt_j_est ! 0 - pt_j ! 0, pt_j_est ! 1 - pt_j ! 1]
       in
       (case jacobians of
          None \<Rightarrow> Some (c', residuals, [])
        | Some req \<Rightarrow>
            do {
              js \<leftarrow> CostEquiDistant_jacobians L K c' pt_i w1 w2 ws iRo jRo ciRi cjRj req;
              Some (c', residuals, js)
            })
     }"

text \<open>
  The loop of \<^verbatim>\<open>CostPinHole::Evaluate\<close> that collects the distortion parameters
  (lines 445-447): \<^verbatim>\<open>for (size_t index = offset; index < params_size; index++)
  distortion_params.push_back(parameter_intrinsics[index]);\<close>.
\<close>

function collect_distortion :: "'a list \<Rightarrow> nat \<Rightarrow> nat \<Rightarrow> 'a list \<Rightarrow> 'a list option" where
  "collect_distortion p index params_size acc =
     (if index < params_size then
        (case rd p index of
           None \<Rightarrow> None
         | Some v \<Rightarrow> collect_distortion p (Suc index) params_size (acc @ [v]))
      else Some acc)"
  by pat_completeness auto
termination
  by (relation "measure (\<lambda>(p, index, params_size, acc). params_size - index)") auto

declare collect_distortion.simps [simp del]

text \<open>
  \<^verbatim>\<open>CostPinHole::Evaluate\<close> (lines 421-527), in two parts as above; the second part
  is lines 471-524.
\<close>

definition CostPinHole_jacobians ::
  "'a::{zero,one,plus,minus,times} lie_ops \<Rightarrow> 'a camera_ops \<Rightarrow> 'a Intrinsic \<Rightarrow>
   'a vec \<Rightarrow> bool \<Rightarrow> bool \<Rightarrow> bool \<Rightarrow> 'a mat \<Rightarrow> 'a mat \<Rightarrow> 'a mat \<Rightarrow> 'a mat \<Rightarrow>
   bool list \<Rightarrow> 'a mat option list option" where
  "CostPinHole_jacobians L K c' pt_i w1 w2 ws iRo jRo ciRi cjRj req =
     (let ciRo = mmul ciRi iRo;
          cjRo = mmul cjRj jRo;
          R = mmul cjRo (mtranspose ciRo);
          T = (R, [0, 0, 0]);
          pt_i_cam = ima2cam K c' pt_i;
          pt_i_undist = removeDistortion K c' pt_i_cam;
          pt_i_sphere = homogeneous (toUnitSphere K c' pt_i_undist);
          dRot = getDerivativeProjectWrtRotation K c' T pt_i_sphere;
          dPoint = getDerivativeProjectWrtPoint K c' T pt_i_sphere;
          Jscale = madd (getDerivativeProjectWrtScale K c' T pt_i_sphere)
                     (mprod [dPoint, Jhomogenous,
                             getDerivativetoUnitSphereWrtPoint K c' pt_i_undist,
                             getDerivativeRemoveDistoWrtPt K c' pt_i_cam,
                             getDerivativeIma2CamWrtScale K c' pt_i]);
          Jpp = madd (getDerivativeProjectWrtPrincipalPoint K c' T pt_i_sphere)
                  (mprod [dPoint, Jhomogenous,
                          getDerivativetoUnitSphereWrtPoint K c' pt_i_undist,
                          getDerivativeRemoveDistoWrtPt K c' pt_i_cam,
                          getDerivativeIma2CamWrtPrincipalPoint K c']);
          Jdisto = madd (getDerivativeProjectWrtDisto K c' T pt_i_sphere)
                     (mprod [dPoint, Jhomogenous,
                             getDerivativetoUnitSphereWrtPoint K c' pt_i_undist,
                             getDerivativeRemoveDistoWrtDisto K c' pt_i_cam])
      in
       do {
         j0 \<leftarrow> set_jac req 0
                (mprod [dRot,
                        getJacobian_AB_wrt_B L cjRo (mtranspose ciRo),
                        getJacobian_At_wrt_A L,
                        getJacobian_AB_wrt_B L ciRi iRo,
                        getJacobian_AB_wrt_A L Identity3 iRo])
                (replicate (length req) None);
         j1 \<leftarrow> set_jac req 1
                (mprod [dRot,
                        getJacobian_AB_wrt_A L cjRo (mtranspose ciRo),
                        getJacobian_AB_wrt_B L cjRj jRo,
                        getJacobian_AB_wrt_A L Identity3 jRo])
                j0;
         j2 \<leftarrow> set_jac req 2 (hconcat [Jscale, Jpp, Jdisto]) j1;
         j3 \<leftarrow> (if w1 then
                  set_jac req 3
                    (let J = mprod [dRot,
                                    getJacobian_AB_wrt_B L cjRo (mtranspose ciRo),
                                    getJacobian_At_wrt_A L,
                                    getJacobian_AB_wrt_A L ciRi iRo,
                                    getJacobian_AB_wrt_A L Identity3 ciRi]
                     in if ws
                        then madd J
                              (mprod [dRot,
                                      getJacobian_AB_wrt_A L cjRo (mtranspose ciRo),
                                      getJacobian_AB_wrt_A L cjRj jRo,
                                      getJacobian_AB_wrt_A L Identity3 cjRj])
                        else J)
                    j2
                else Some j2);
         j4 \<leftarrow> (if w2 \<and> \<not> ws then
                  set_jac req (if \<not> w1 then 3 else 4)
                    (mprod [dRot,
                            getJacobian_AB_wrt_A L cjRo (mtranspose ciRo),
                            getJacobian_AB_wrt_A L cjRj jRo,
                            getJacobian_AB_wrt_A L Identity3 cjRj])
                    j3
                else Some j3);
         Some j4
       })"

definition CostPinHole_Evaluate ::
  "'a::{zero,one,plus,minus,times} lie_ops \<Rightarrow> 'a camera_ops \<Rightarrow>
   'a vec \<Rightarrow> 'a vec \<Rightarrow> bool \<Rightarrow> bool \<Rightarrow> bool \<Rightarrow> 'a Intrinsic \<Rightarrow>
   'a list list \<Rightarrow> bool list option \<Rightarrow> ('a Intrinsic \<times> 'a vec \<times> 'a mat option list) option" where
  "CostPinHole_Evaluate L K pt_i pt_j w1 w2 ws c parameters jacobians =
     do {
       parameter_rotation_i \<leftarrow> rd parameters 0;
       parameter_rotation_j \<leftarrow> rd parameters 1;
       parameter_intrinsics \<leftarrow> rd parameters 2;
       parameter_rig_i \<leftarrow> (if w1 then rd parameters 3 else Some identity_block);
       parameter_rig_j \<leftarrow>
         (if w2 then (if ws then rd parameters 3 else rd parameters 4) else Some identity_block);
       iRo \<leftarrow> Map3 parameter_rotation_i;
       jRo \<leftarrow> Map3 parameter_rotation_j;
       ciRi \<leftarrow> Map3 parameter_rig_i;
       cjRj \<leftarrow> Map3 parameter_rig_j;
       k0 \<leftarrow> rd parameter_intrinsics 0; k1 \<leftarrow> rd parameter_intrinsics 1;
       k2 \<leftarrow> rd parameter_intrinsics 2; k3 \<leftarrow> rd parameter_intrinsics 3;
       let c1 = setOffset (k2, k3) (setScale (k0, k1) c);
           params_size = length (getParams c1);
           disto_size = length (getDistortionParams c1);
           offset = params_size - disto_size
       in
       do {
         distortion_params \<leftarrow> collect_distortion parameter_intrinsics offset params_size [];
         let c' = setDistortionParams distortion_params c1;
           ciRo = mmul ciRi iRo;
             cjRo = mmul cjRj jRo;
             R = mmul cjRo (mtranspose ciRo);
             T = (R, [0, 0, 0]);
             pt_i_cam = ima2cam K c' pt_i;
             pt_i_undist = removeDistortion K c' pt_i_cam;
             pt_i_sphere = homogeneous (toUnitSphere K c' pt_i_undist);
             pt_j_est = project K c' T pt_i_sphere True;
             residuals = [pt_j_est ! 0 - pt_j ! 0, pt_j_est ! 1 - pt_j ! 1]
         in
         (case jacobians of
            None \<Rightarrow> Some (c', residuals, [])
          | Some req \<Rightarrow>
              do {
                js \<leftarrow> CostPinHole_jacobians L K c' pt_i w1 w2 ws iRo jRo ciRi cjRj req;
                Some (c', residuals, js)
              })
       }
     }"

text \<open>
  Reading the result of an evaluation: the matrix written to \<^verbatim>\<open>jacobians[i]\<close>, if the
  evaluation returned and wrote one; and the sum Eigen's \<^verbatim>\<open>+=\<close> forms of two such
  matrices.
\<close>

definition written :: "'a mat option list option \<Rightarrow> nat \<Rightarrow> 'a mat option" where
  "written r i = (case r of None \<Rightarrow> None | Some js \<Rightarrow> if i < length js then js ! i else None)"

definition prior_jacobian :: "('a vec \<times> 'a mat option list) option \<Rightarrow> nat \<Rightarrow> 'a mat option" where
  "prior_jacobian r i = written (map_option snd r) i"

definition reproj_jacobian ::
  "('a Intrinsic \<times> 'a vec \<times> 'a mat option list) option \<Rightarrow> nat \<Rightarrow> 'a mat option" where
  "reproj_jacobian r i = written (map_option (\<lambda>t. snd (snd t)) r) i"

definition madd_opt :: "'a::plus mat option \<Rightarrow> 'a mat option \<Rightarrow> 'a mat option" where
  "madd_opt a b =
     (case a of None \<Rightarrow> None
      | Some A \<Rightarrow> (case b of None \<Rightarrow> None | Some B \<Rightarrow> Some (madd A B)))"

definition prior_residuals :: "('a vec \<times> 'a mat option list) option \<Rightarrow> 'a vec option" where
  "prior_residuals r = (case r of None \<Rightarrow> None | Some (res, js) \<Rightarrow> Some res)"

text \<open>Concrete helper functions, for evaluating the cost functions on examples.\<close>

definition example_lie_ops :: "'a::{zero,numeral} lie_ops" where
  "example_lie_ops =
     \<lparr> logm = (\<lambda>M. [0, 0, 0]), dlogmdr = (\<lambda>M. [[1]]),
       getJacobian_AB_wrt_A = (\<lambda>A B. [[2]]), getJacobian_AB_wrt_B = (\<lambda>A B. [[3]]),
       getJacobian_At_wrt_A = [[5]] \<rparr>"

definition example_camera_ops :: "'a::{zero,numeral} camera_ops" where
  "example_camera_ops =
     \<lparr> ima2cam = (\<lambda>c v. v), removeDistortion = (\<lambda>c v. v), toUnitSphere = (\<lambda>c v. v @ [1]),
       project = (\<lambda>c T v b. [0, 0]),
       getDerivativeProjectWrtRotation = (\<lambda>c T v. [[7]]),
       getDerivativeProjectWrtScale = (\<lambda>c T v. [[1]]),
       getDerivativeProjectWrtPoint = (\<lambda>c T v. [[1]]),
       getDerivativeProjectWrtPrincipalPoint = (\<lambda>c T v. [[1]]),
       getDerivativeProjectWrtDisto = (\<lambda>c T v. [[1]]),
       getDerivativetoUnitSphereWrtScale = (\<lambda>c v. [[1]]),
       getDerivativetoUnitSphereWrtPoint = (\<lambda>c v. [[1]]),
       getDerivativeRemoveDistoWrtPt = (\<lambda>c v. [[1]]),
       getDerivativeRemoveDistoWrtDisto = (\<lambda>c v. [[1]]),
       getDerivativeIma2CamWrtPrincipalPoint = (\<lambda>c. [[1]]),
       getDerivativeIma2CamWrtScale = (\<lambda>c v. [[1]]) \<rparr>"

definition example_camera :: "camera_type \<Rightarrow> 'a::{zero,numeral} list \<Rightarrow> 'a Intrinsic" where
  "example_camera t d =
     \<lparr> cam_type = t, cam_w = 640, cam_h = 480, cam_locked = False,
       cam_scale = (100, 100), cam_offset = (0, 0), cam_distortion = d,
       cam_initialScale = (100, 100), cam_ratioLocked = True \<rparr>"

section \<open>Statistics\<close>

datatype EParameter = POSE | INTRINSIC

datatype EParameterState = REFINED | CONSTANT | IGNORED

text \<open>
  The members of \<^verbatim>\<open>BundleAdjustmentPanoramaCeres::Statistics\<close> that this file reads and
  writes. \<^verbatim>\<open>parametersStates\<close> is a map of maps read with \<^verbatim>\<open>operator[]\<close>, which gives 0
  for a missing key: a function to counts. \<^verbatim>\<open>nbCamerasPerDistance\<close> is a
  \<^verbatim>\<open>std::map<int, std::size_t>\<close> that is iterated: a list of its entries.
\<close>

record Statistics =
  stat_time :: real
  nbSuccessfullIterations :: nat
  nbUnsuccessfullIterations :: nat
  nbResidualBlocks :: nat
  RMSEinitial :: real
  RMSEfinal :: real
  parametersStates :: "EParameter \<Rightarrow> EParameterState \<Rightarrow> nat"
  nbCamerasPerDistance :: "(int \<times> nat) list"

text \<open>\<^verbatim>\<open>Statistics::addState\<close>: one more parameter of the kind in the state.\<close>

definition addState :: "EParameter \<Rightarrow> EParameterState \<Rightarrow> Statistics \<Rightarrow> Statistics" where
  "addState p s st =
     st\<lparr>parametersStates := (parametersStates st)(p := (parametersStates st p)(s := Suc (parametersStates st p s)))\<rparr>"

text \<open>What \<^verbatim>\<open>operator<<\<close> writes for a \<^verbatim>\<open>std::size_t\<close>: its decimal digits.\<close>

definition digit_char :: "nat \<Rightarrow> char" where
  "digit_char d = char_of (48 + d)"

function show_size_t :: "nat \<Rightarrow> string" where
  "show_size_t n = (if n < 10 then [digit_char n] else show_size_t (n div 10) @ [digit_char (n mod 10)])"
  by pat_completeness auto
termination
  by (relation "measure id") auto

declare show_size_t.simps [simp del]

definition newline :: char where
  "newline = CHR 0x0A"

definition semicolon :: char where
  "semicolon = CHR '';''"

text \<open>The header that \<^verbatim>\<open>exportToFile\<close> writes (lines 599-605).\<close>

definition export_header :: string where
  "export_header =
     ''Time/BA(s);RefinedPose;ConstPose;IgnoredPose;'' @
     ''RefinedPts;ConstPts;IgnoredPts;'' @
     ''RefinedK;ConstK;IgnoredK;'' @
     ''ResidualBlocks;SuccessIteration;BadIteration;'' @
     ''InitRMSE;FinalRMSE;'' @
     ''d=-1;d=0;d=1;d=2;d=3;d=4;'' @
     ''d=5;d=6;d=7;d=8;d=9;d=10+;'' @ [newline]"

text \<open>
  The fields of the data line, in the order they are written (lines 608-637). The text
  \<^verbatim>\<open>operator<<\<close> writes for a \<^verbatim>\<open>double\<close> belongs to the C++ library: the parameter
  \<open>show_double\<close>.
\<close>

definition posesWithDistUpperThanTen :: "Statistics \<Rightarrow> nat" where
  "posesWithDistUpperThanTen st =
     foldl (\<lambda>acc it. if fst it \<ge> 10 then acc + snd it else acc) 0 (nbCamerasPerDistance st)"

definition distance_field :: "Statistics \<Rightarrow> int \<Rightarrow> string" where
  "distance_field st i =
     (case map_of (nbCamerasPerDistance st) i of
        Some n \<Rightarrow> show_size_t n
      | None \<Rightarrow> ''0'')"

definition export_fields :: "(real \<Rightarrow> string) \<Rightarrow> Statistics \<Rightarrow> string list" where
  "export_fields show_double st =
     [show_double (stat_time st),
      show_size_t (parametersStates st POSE REFINED),
      show_size_t (parametersStates st POSE CONSTANT),
      show_size_t (parametersStates st POSE IGNORED),
      show_size_t (parametersStates st INTRINSIC REFINED),
      show_size_t (parametersStates st INTRINSIC CONSTANT),
      show_size_t (parametersStates st INTRINSIC IGNORED),
      show_size_t (nbResidualBlocks st),
      show_size_t (nbSuccessfullIterations st),
      show_size_t (nbUnsuccessfullIterations st),
      show_double (RMSEinitial st),
      show_double (RMSEfinal st)]
     @ map (distance_field st) [-1, 0, 1, 2, 3, 4, 5, 6, 7, 8, 9]
     @ [show_size_t (posesWithDistUpperThanTen st)]"

definition export_line :: "(real \<Rightarrow> string) \<Rightarrow> Statistics \<Rightarrow> string" where
  "export_line show_double st =
     concat (map (\<lambda>f. f @ [semicolon]) (export_fields show_double st)) @ [newline]"

text \<open>
  \<^verbatim>\<open>Statistics::exportToFile\<close> (lines 583-641). The file is \<open>None\<close> when it does not
  exist, else its content; \<open>can_open\<close> says whether \<^verbatim>\<open>os.open\<close> in append mode
  succeeds (it creates a missing file). The result is the returned flag and the file
  afterwards. \<^verbatim>\<open>tellp\<close> after \<^verbatim>\<open>seekp(0, std::ios::end)\<close> is the length of the file.
\<close>

definition exportToFile ::
  "(real \<Rightarrow> string) \<Rightarrow> bool \<Rightarrow> Statistics \<Rightarrow> string option \<Rightarrow> bool \<times> string option" where
  "exportToFile show_double can_open st file =
     (if \<not> can_open then (False, file)
      else
        let content = (case file of None \<Rightarrow> [] | Some s \<Rightarrow> s);
            tellp = length content;
            os = (if tellp = 0 then content @ export_header else content)
        in (True, Some (os @ export_line show_double st)))"

text \<open>A sequence of calls on the same file, each of which succeeds in opening it.\<close>

fun export_all :: "(real \<Rightarrow> string) \<Rightarrow> Statistics list \<Rightarrow> string option \<Rightarrow> string option" where
  "export_all show_double [] file = file"
| "export_all show_double (st # sts) file =
     export_all show_double sts (snd (exportToFile show_double True st file))"

text \<open>A line: text without a line break, then the line break.\<close>

definition is_line :: "string \<Rightarrow> bool" where
  "is_line s = (s \<noteq> [] \<and> last s = newline \<and> newline \<notin> set (butlast s))"

definition file_content :: "string option \<Rightarrow> string" where
  "file_content file = (case file of None \<Rightarrow> [] | Some s \<Rightarrow> s)"

definition example_show_double :: "real \<Rightarrow> string" where
  "example_show_double x = show_size_t (nat \<lfloor>x\<rfloor>)"

definition example_statistics :: Statistics where
  "example_statistics =
     \<lparr> stat_time = 2, nbSuccessfullIterations = 12, nbUnsuccessfullIterations = 1,
       nbResidualBlocks = 40, RMSEinitial = 3, RMSEfinal = 1,
       parametersStates = (\<lambda>p s. 0), nbCamerasPerDistance = [] \<rparr>"

section \<open>The scene and the adjuster\<close>

text \<open>
  The scene data model (\<^verbatim>\<open>sfmData::SfMData\<close>) is declared outside the sources at hand;
  the records hold what this file reads and writes through its accessors. A hash map
  that the code iterates is the list of its entries in iteration order, with distinct
  keys; \<^verbatim>\<open>at(k)\<close> throws \<^verbatim>\<open>std::out_of_range\<close> for a missing key. A \<^verbatim>\<open>double\<close> of
  the scene is a \<open>real\<close>.
\<close>

record CameraPose =
  pose_transform :: "real Pose3"
  pose_locked :: bool

datatype ERigSubPoseStatus = SUBPOSE_UNINITIALIZED | SUBPOSE_REFINABLE | SUBPOSE_CONSTANT

record RigSubPose =
  subpose_status :: ERigSubPoseStatus
  subpose_pose :: "real Pose3"

record Rig =
  subPoses :: "RigSubPose list"

record View =
  view_poseId :: IndexT
  view_intrinsicId :: IndexT
  view_rigId :: IndexT
  view_subPoseId :: IndexT
  view_isPartOfRig :: bool
  view_isPoseIndependant :: bool

record Constraint2D =
  ViewFirst :: IndexT
  ObservationFirst :: "real vec"
  ViewSecond :: IndexT
  ObservationSecond :: "real vec"

record RotationPrior =
  prior_ViewFirst :: IndexT
  prior_ViewSecond :: IndexT
  second_R_first :: "real mat"

record SfMData =
  views :: "(IndexT \<times> View) list"
  poses :: "(IndexT \<times> CameraPose) list"
  rigs :: "(IndexT \<times> Rig) list"
  intrinsics :: "(IndexT \<times> real Intrinsic) list"
  constraints2D :: "Constraint2D list"
  rotationPriors :: "RotationPrior list"

text \<open>The bit flags of \<^verbatim>\<open>BundleAdjustment::ERefineOptions\<close>: the set of the flags set.\<close>

datatype ERefineOption =
    REFINE_ROTATION | REFINE_TRANSLATION | REFINE_STRUCTURE
  | REFINE_INTRINSICS_FOCAL | REFINE_INTRINSICS_OPTICALOFFSET_ALWAYS
  | REFINE_INTRINSICS_OPTICALOFFSET_IF_ENOUGH_DATA | REFINE_INTRINSICS_DISTORTION

type_synonym ERefineOptions = "ERefineOption set"

subsection \<open>The solver's problem\<close>

text \<open>
  A parameter block is known to the solver by the address of its first double. The
  blocks live in the adjuster's maps, one element per key, so an address is the key of
  its element; \<open>NullBlock\<close> is the null pointer.
\<close>

datatype block_ref =
  PoseBlock IndexT | RigBlock IndexT IndexT | IntrinsicBlock IndexT | NullBlock

datatype LocalParameterization =
    SO3_LocalParameterization
  | Intrinsics_LocalParameterization "real IntrinsicsParameterization"

datatype LossFunction = HuberLoss real

record ParameterBlock =
  block_size :: nat
  block_parameterization :: "LocalParameterization option"
  block_constant :: bool
  block_lower :: "(nat \<times> real) list"
  block_upper :: "(nat \<times> real) list"

record ResidualBlock =
  rb_cost :: "real CostFunction"
  rb_loss :: "LossFunction option"
  rb_parameters :: "block_ref list"

record Problem =
  parameter_blocks :: "block_ref \<rightharpoonup> ParameterBlock"
  residual_blocks :: "ResidualBlock list"

definition empty_Problem :: Problem where
  "empty_Problem = \<lparr> parameter_blocks = Map.empty, residual_blocks = [] \<rparr>"

text \<open>
  The calls on \<^verbatim>\<open>ceres::Problem\<close>. The solver is outside the sources: each call is
  recorded as made, without the checks the solver may add.
\<close>

definition AddParameterBlock ::
  "block_ref \<Rightarrow> nat \<Rightarrow> LocalParameterization option \<Rightarrow> Problem \<Rightarrow> Problem" where
  "AddParameterBlock p n lp pr =
     pr\<lparr>parameter_blocks := (parameter_blocks pr)(p \<mapsto>
        \<lparr> block_size = n, block_parameterization = lp, block_constant = False,
          block_lower = [], block_upper = [] \<rparr>)\<rparr>"

definition update_block :: "block_ref \<Rightarrow> (ParameterBlock \<Rightarrow> ParameterBlock) \<Rightarrow> Problem \<Rightarrow> Problem" where
  "update_block p f pr =
     (case parameter_blocks pr p of
        None \<Rightarrow> pr
      | Some b \<Rightarrow> pr\<lparr>parameter_blocks := (parameter_blocks pr)(p \<mapsto> f b)\<rparr>)"

definition SetParameterBlockConstant :: "block_ref \<Rightarrow> Problem \<Rightarrow> Problem" where
  "SetParameterBlockConstant p = update_block p (\<lambda>b. b\<lparr>block_constant := True\<rparr>)"

definition SetParameterLowerBound :: "block_ref \<Rightarrow> nat \<Rightarrow> real \<Rightarrow> Problem \<Rightarrow> Problem" where
  "SetParameterLowerBound p i v = update_block p (\<lambda>b. b\<lparr>block_lower := (i, v) # block_lower b\<rparr>)"

definition SetParameterUpperBound :: "block_ref \<Rightarrow> nat \<Rightarrow> real \<Rightarrow> Problem \<Rightarrow> Problem" where
  "SetParameterUpperBound p i v = update_block p (\<lambda>b. b\<lparr>block_upper := (i, v) # block_upper b\<rparr>)"

definition SetParameterization :: "block_ref \<Rightarrow> LocalParameterization \<Rightarrow> Problem \<Rightarrow> Problem" where
  "SetParameterization p lp = update_block p (\<lambda>b. b\<lparr>block_parameterization := Some lp\<rparr>)"

definition AddResidualBlock ::
  "real CostFunction \<Rightarrow> LossFunction option \<Rightarrow> block_ref list \<Rightarrow> Problem \<Rightarrow> Problem" where
  "AddResidualBlock cf l ps pr =
     pr\<lparr>residual_blocks := residual_blocks pr @
        [\<lparr> rb_cost = cf, rb_loss = l, rb_parameters = ps \<rparr>]\<rparr>"

subsection \<open>The adjuster\<close>

text \<open>
  The members of \<^verbatim>\<open>BundleAdjustmentPanoramaCeres\<close>: the parameter blocks by pose,
  by rig and sub-pose, and by intrinsic (this last map is iterated), and the
  statistics. \<^verbatim>\<open>getPoseState\<close> and \<^verbatim>\<open>getIntrinsicState\<close> answer for the local
  strategy, which is outside the sources: two functions the adjuster is given.
\<close>

record BundleAdjustmentPanoramaCeres =
  posesBlocks :: "IndexT \<rightharpoonup> real list"
  rigBlocks :: "IndexT \<rightharpoonup> (IndexT \<rightharpoonup> real list)"
  intrinsicsBlocks :: "(IndexT \<times> real list) list"
  statistics :: Statistics
  getPoseState :: "IndexT \<Rightarrow> EParameterState"
  getIntrinsicState :: "IndexT \<Rightarrow> EParameterState"
  opt_verbose :: bool
  opt_summary :: bool

text \<open>
  What the file calls and the sources do not hold. \<^verbatim>\<open>NDEBUG\<close> says whether the
  \<^verbatim>\<open>assert\<close>s are compiled out.
\<close>

record Externals =
  ext_lie :: "real lie_ops"
  ext_camera :: "real camera_ops"
  isPoseAndIntrinsicDefined :: "SfMData \<Rightarrow> View \<Rightarrow> bool"
  isValid :: "camera_type \<Rightarrow> bool"
  poseFromRT :: "real mat \<Rightarrow> real vec \<Rightarrow> real Pose3"
  updateFromParams :: "real Intrinsic \<Rightarrow> real list \<Rightarrow> real Intrinsic"
  NDEBUG :: bool

text \<open>
  A call that does not return normally (an exception of \<^verbatim>\<open>at\<close>, a failed \<^verbatim>\<open>assert\<close>, an
  access outside an array) is the value \<open>None\<close>.
\<close>

definition c_assert :: "Externals \<Rightarrow> bool \<Rightarrow> unit option" where
  "c_assert X b = (if NDEBUG X \<or> b then Some () else None)"

definition at_list :: "('k \<times> 'v) list \<Rightarrow> 'k \<Rightarrow> 'v option" where
  "at_list m k = map_of m k"

text \<open>\<^verbatim>\<open>m[k] = v\<close> on a map kept as the list of its entries.\<close>

fun assign :: "('k \<times> 'v) list \<Rightarrow> 'k \<Rightarrow> 'v \<Rightarrow> ('k \<times> 'v) list" where
  "assign [] k v = [(k, v)]"
| "assign ((k', v') # m) k v = (if k' = k then (k, v) # m else (k', v') # assign m k v)"

text \<open>
  Modelled from the spec: \<^verbatim>\<open>resetProblem\<close> is declared outside the sources. The spec:
  "a fresh call always resets (clears) these maps first", and the statistics record is
  "created at the start of one optimization call".
\<close>

definition empty_Statistics :: Statistics where
  "empty_Statistics =
     \<lparr> stat_time = 0, nbSuccessfullIterations = 0, nbUnsuccessfullIterations = 0,
       nbResidualBlocks = 0, RMSEinitial = 0, RMSEfinal = 0,
       parametersStates = (\<lambda>p s. 0), nbCamerasPerDistance = [] \<rparr>"

definition resetProblem :: "BundleAdjustmentPanoramaCeres \<Rightarrow> BundleAdjustmentPanoramaCeres" where
  "resetProblem ba =
     ba\<lparr>posesBlocks := Map.empty, rigBlocks := Map.empty, intrinsicsBlocks := [],
        statistics := empty_Statistics\<rparr>"

type_synonym assembly = "BundleAdjustmentPanoramaCeres \<times> Problem"

subsection \<open>addExtrinsicsToProblem (lines 713-775)\<close>

text \<open>
  The lambda \<^verbatim>\<open>addPose\<close>. The block is the rotation of the pose, stored row by row;
  \<open>store\<close> puts it into the adjuster's map at the key \<open>p\<close> stands for.
\<close>

definition addPose ::
  "bool \<Rightarrow> real Pose3 \<Rightarrow> bool \<Rightarrow> bool \<Rightarrow> block_ref \<Rightarrow> assembly \<Rightarrow> assembly" where
  "addPose refineRotation cameraPose isLocked isConstant p a =
     (let (ba, pr) = a;
          poseBlock = concat (fst cameraPose);
          ba1 = (case p of
                   PoseBlock i \<Rightarrow> ba\<lparr>posesBlocks := (posesBlocks ba)(i \<mapsto> poseBlock)\<rparr>
                 | RigBlock r s \<Rightarrow>
                     ba\<lparr>rigBlocks := (rigBlocks ba)(r \<mapsto>
                        (case rigBlocks ba r of None \<Rightarrow> Map.empty | Some m \<Rightarrow> m)(s \<mapsto> poseBlock))\<rparr>
                 | _ \<Rightarrow> ba);
          pr1 = AddParameterBlock p 9 (Some SO3_LocalParameterization) pr
      in if isLocked \<or> isConstant \<or> \<not> refineRotation
         then (ba1\<lparr>statistics := addState POSE CONSTANT (statistics ba1)\<rparr>,
               SetParameterBlockConstant p pr1)
         else (ba1\<lparr>statistics := addState POSE REFINED (statistics ba1)\<rparr>, pr1))"

fun add_poses :: "bool \<Rightarrow> (IndexT \<times> CameraPose) list \<Rightarrow> assembly \<Rightarrow> assembly" where
  "add_poses refineRotation [] a = a"
| "add_poses refineRotation ((poseId, pose) # rest) a =
     (let (ba, pr) = a in
      if getPoseState ba poseId = IGNORED
      then add_poses refineRotation rest
             (ba\<lparr>statistics := addState POSE IGNORED (statistics ba)\<rparr>, pr)
      else add_poses refineRotation rest
             (addPose refineRotation (pose_transform pose) (pose_locked pose)
                (getPoseState ba poseId = CONSTANT) (PoseBlock poseId) a))"

fun add_subposes :: "bool \<Rightarrow> IndexT \<Rightarrow> nat \<Rightarrow> RigSubPose list \<Rightarrow> assembly \<Rightarrow> assembly" where
  "add_subposes refineRotation rigId subPoseId [] a = a"
| "add_subposes refineRotation rigId subPoseId (rigSubPose # rest) a =
     (if subpose_status rigSubPose = SUBPOSE_UNINITIALIZED
      then add_subposes refineRotation rigId (Suc subPoseId) rest a
      else add_subposes refineRotation rigId (Suc subPoseId) rest
             (addPose refineRotation (subpose_pose rigSubPose) False
                (subpose_status rigSubPose = SUBPOSE_CONSTANT) (RigBlock rigId subPoseId) a))"

fun add_rigs :: "bool \<Rightarrow> (IndexT \<times> Rig) list \<Rightarrow> assembly \<Rightarrow> assembly" where
  "add_rigs refineRotation [] a = a"
| "add_rigs refineRotation ((rigId, rig) # rest) a =
     add_rigs refineRotation rest (add_subposes refineRotation rigId 0 (subPoses rig) a)"

definition addExtrinsicsToProblem :: "SfMData \<Rightarrow> ERefineOptions \<Rightarrow> assembly \<Rightarrow> assembly" where
  "addExtrinsicsToProblem sfmData refineOptions a =
     (let refineRotation = (REFINE_ROTATION \<in> refineOptions)
      in add_rigs refineRotation (rigs sfmData)
           (add_poses refineRotation (poses sfmData) a))"

subsection \<open>addIntrinsicsToProblem (lines 777-909)\<close>

text \<open>
  The first loop (lines 785-797) counts, for each intrinsic some view refers to, the
  views that are reconstructed. \<^verbatim>\<open>isPoseAndIntrinsicDefined\<close> belongs to the scene.
\<close>

fun count_usage ::
  "Externals \<Rightarrow> SfMData \<Rightarrow> (IndexT \<times> View) list \<Rightarrow> (IndexT \<rightharpoonup> nat) \<Rightarrow> (IndexT \<rightharpoonup> nat)" where
  "count_usage X sfmData [] intrinsicsUsage = intrinsicsUsage"
| "count_usage X sfmData ((viewId, view) # rest) intrinsicsUsage =
     (let u1 = (if intrinsicsUsage (view_intrinsicId view) = None
                then intrinsicsUsage(view_intrinsicId view \<mapsto> 0)
                else intrinsicsUsage);
          u2 = (if isPoseAndIntrinsicDefined X sfmData view
                then (case u1 (view_intrinsicId view) of
                        None \<Rightarrow> u1
                      | Some n \<Rightarrow> u1(view_intrinsicId view \<mapsto> Suc n))
                else u1)
      in count_usage X sfmData rest u2)"

text \<open>
  The body of the second loop from \<^verbatim>\<open>assert(isValid(...))\<close> on (lines 816-907), for an
  intrinsic that is neither skipped nor counted as ignored.
\<close>

definition addIntrinsic ::
  "Externals \<Rightarrow> ERefineOptions \<Rightarrow> nat \<Rightarrow> IndexT \<Rightarrow> real Intrinsic \<Rightarrow> assembly \<Rightarrow> assembly option" where
  "addIntrinsic X refineOptions usageCount intrinsicId intrinsicPtr a =
     (let (ba, pr) = a;
          refineIntrinsicsOpticalCenter =
            (REFINE_INTRINSICS_OPTICALOFFSET_ALWAYS \<in> refineOptions
             \<or> REFINE_INTRINSICS_OPTICALOFFSET_IF_ENOUGH_DATA \<in> refineOptions);
          refineIntrinsicsFocalLength = (REFINE_INTRINSICS_FOCAL \<in> refineOptions);
          refineIntrinsicsDistortion = (REFINE_INTRINSICS_DISTORTION \<in> refineOptions);
          refineIntrinsics = (refineIntrinsicsDistortion \<or> refineIntrinsicsFocalLength
                              \<or> refineIntrinsicsOpticalCenter);
          intrinsicBlock = getParams intrinsicPtr;
          p = IntrinsicBlock intrinsicId;
          ba1 = ba\<lparr>intrinsicsBlocks := assign (intrinsicsBlocks ba) intrinsicId intrinsicBlock\<rparr>;
          pr1 = AddParameterBlock p (length intrinsicBlock) None pr
      in
      do {
        _ \<leftarrow> c_assert X (isValid X (cam_type intrinsicPtr));
        if cam_locked intrinsicPtr \<or> \<not> refineIntrinsics
           \<or> getIntrinsicState ba intrinsicId = CONSTANT
        then Some (ba1\<lparr>statistics := addState INTRINSIC CONSTANT (statistics ba1)\<rparr>,
                   SetParameterBlockConstant p pr1)
        else
          do {
            (lockFocal_v, lockRatio_v, focalRatio_v, pr2) \<leftarrow>
              (if refineIntrinsicsFocalLength then
                 do {
                   pr' \<leftarrow>
                     (if fst (cam_initialScale intrinsicPtr) > 0
                         \<and> snd (cam_initialScale intrinsicPtr) > 0
                      then
                        do {
                          _ \<leftarrow> c_assert X (length intrinsicBlock \<ge> 1);
                          let maxFocalError =
                                real (nat \<lfloor>0.2 * real (max (cam_w intrinsicPtr) (cam_h intrinsicPtr))\<rfloor>)
                          in Some
                            (SetParameterUpperBound p 1
                               (snd (cam_initialScale intrinsicPtr) + maxFocalError)
                            (SetParameterLowerBound p 1
                               (snd (cam_initialScale intrinsicPtr) - maxFocalError)
                            (SetParameterUpperBound p 0
                               (fst (cam_initialScale intrinsicPtr) + maxFocalError)
                            (SetParameterLowerBound p 0
                               (fst (cam_initialScale intrinsicPtr) - maxFocalError) pr1))))
                        }
                      else Some (SetParameterLowerBound p 1 0 (SetParameterLowerBound p 0 0 pr1)));
                   b0 \<leftarrow> rd intrinsicBlock 0;
                   b1 \<leftarrow> rd intrinsicBlock 1;
                   Some (False, cam_ratioLocked intrinsicPtr, b1 / b0, pr')
                 }
               else Some (True, True, 1, pr1));
            (lockCenter_v, pr3) \<leftarrow>
              (let optional_center =
                     (REFINE_INTRINSICS_OPTICALOFFSET_IF_ENOUGH_DATA \<in> refineOptions
                      \<and> usageCount > 3)
               in if REFINE_INTRINSICS_OPTICALOFFSET_ALWAYS \<in> refineOptions \<or> optional_center
                  then
                    do {
                      _ \<leftarrow> c_assert X (length intrinsicBlock \<ge> 4);
                      Some (False,
                        SetParameterUpperBound p 3 (0.05 * real (cam_h intrinsicPtr))
                       (SetParameterLowerBound p 3 (- 0.05 * real (cam_h intrinsicPtr))
                       (SetParameterUpperBound p 2 (0.05 * real (cam_w intrinsicPtr))
                       (SetParameterLowerBound p 2 (- 0.05 * real (cam_w intrinsicPtr)) pr2))))
                    }
                  else Some (True, pr2));
            let lockDistortion_v = (\<not> refineIntrinsicsDistortion);
                subsetParameterization =
                  IntrinsicsParameterization_init (of_nat (length intrinsicBlock)) focalRatio_v
                    lockFocal_v lockRatio_v lockCenter_v lockDistortion_v
            in Some (ba1\<lparr>statistics := addState INTRINSIC REFINED (statistics ba1)\<rparr>,
                     SetParameterization p (Intrinsics_LocalParameterization subsetParameterization)
                       pr3)
          }
      })"

text \<open>The second loop (lines 799-908), over the intrinsics of the scene.\<close>

fun add_intrinsics ::
  "Externals \<Rightarrow> ERefineOptions \<Rightarrow> (IndexT \<rightharpoonup> nat) \<Rightarrow> (IndexT \<times> real Intrinsic) list \<Rightarrow>
   assembly \<Rightarrow> assembly option" where
  "add_intrinsics X refineOptions intrinsicsUsage [] a = Some a"
| "add_intrinsics X refineOptions intrinsicsUsage ((intrinsicId, intrinsicPtr) # rest) a =
     (case intrinsicsUsage intrinsicId of
        None \<Rightarrow> add_intrinsics X refineOptions intrinsicsUsage rest a
      | Some usageCount \<Rightarrow>
          if usageCount \<le> 0 \<or> getIntrinsicState (fst a) intrinsicId = IGNORED
          then add_intrinsics X refineOptions intrinsicsUsage rest
                 ((fst a)\<lparr>statistics := addState INTRINSIC IGNORED (statistics (fst a))\<rparr>, snd a)
          else
            (case addIntrinsic X refineOptions usageCount intrinsicId intrinsicPtr a of
               None \<Rightarrow> None
             | Some a' \<Rightarrow> add_intrinsics X refineOptions intrinsicsUsage rest a'))"

definition addIntrinsicsToProblem ::
  "Externals \<Rightarrow> SfMData \<Rightarrow> ERefineOptions \<Rightarrow> assembly \<Rightarrow> assembly option" where
  "addIntrinsicsToProblem X sfmData refineOptions a =
     add_intrinsics X refineOptions (count_usage X sfmData (views sfmData) Map.empty)
       (intrinsics sfmData) a"

subsection \<open>addConstraints2DToProblem (lines 912-1014)\<close>

text \<open>
  Modelled from the spec: \<^verbatim>\<open>Square\<close> is declared outside the sources. The spec has the
  loss "applied to squared residual"; the name and the argument give \<open>x * x\<close>.
\<close>

definition Square :: "real \<Rightarrow> real" where
  "Square x = x * x"

text \<open>The address of a block of the adjuster: \<^verbatim>\<open>m.at(k).data()\<close>.\<close>

definition poseBlockPtr :: "BundleAdjustmentPanoramaCeres \<Rightarrow> IndexT \<Rightarrow> block_ref option" where
  "poseBlockPtr ba i = (case posesBlocks ba i of None \<Rightarrow> None | Some b \<Rightarrow> Some (PoseBlock i))"

definition intrinsicBlockPtr :: "BundleAdjustmentPanoramaCeres \<Rightarrow> IndexT \<Rightarrow> block_ref option" where
  "intrinsicBlockPtr ba i =
     (case at_list (intrinsicsBlocks ba) i of None \<Rightarrow> None | Some b \<Rightarrow> Some (IntrinsicBlock i))"

definition rigBlockPtr :: "BundleAdjustmentPanoramaCeres \<Rightarrow> IndexT \<Rightarrow> IndexT \<Rightarrow> block_ref option" where
  "rigBlockPtr ba r s =
     (case rigBlocks ba r of
        None \<Rightarrow> None
      | Some m \<Rightarrow> (case m s of None \<Rightarrow> None | Some b \<Rightarrow> Some (RigBlock r s)))"

text \<open>How one pass of a loop body ends: at its end, or by \<^verbatim>\<open>return\<close>.\<close>

datatype 'a loop_step = Continue 'a | Return 'a

text \<open>
  The body of the loop over the 2D constraints (lines 919-1012). The loss function is
  the one object created before the loop.
\<close>

definition addConstraint2D ::
  "Externals \<Rightarrow> SfMData \<Rightarrow> BundleAdjustmentPanoramaCeres \<Rightarrow> LossFunction option \<Rightarrow>
   Constraint2D \<Rightarrow> Problem \<Rightarrow> Problem loop_step option" where
  "addConstraint2D X sfmData ba lossFunction constraint pr =
     do {
       view_1 \<leftarrow> at_list (views sfmData) (ViewFirst constraint);
       view_2 \<leftarrow> at_list (views sfmData) (ViewSecond constraint);
       _ \<leftarrow> c_assert X (getPoseState ba (view_poseId view_1) \<noteq> IGNORED);
       _ \<leftarrow> c_assert X (getIntrinsicState ba (view_intrinsicId view_1) \<noteq> IGNORED);
       _ \<leftarrow> c_assert X (getPoseState ba (view_poseId view_2) \<noteq> IGNORED);
       _ \<leftarrow> c_assert X (getIntrinsicState ba (view_intrinsicId view_2) \<noteq> IGNORED);
       poseBlockPtr_1 \<leftarrow> poseBlockPtr ba (view_poseId view_1);
       poseBlockPtr_2 \<leftarrow> poseBlockPtr ba (view_poseId view_2);
       intrinsicBlockPtr_1 \<leftarrow> intrinsicBlockPtr ba (view_intrinsicId view_1);
       intrinsicBlockPtr_2 \<leftarrow> intrinsicBlockPtr ba (view_intrinsicId view_2);
       _ \<leftarrow> c_assert X (intrinsicBlockPtr_1 = intrinsicBlockPtr_2);
       let withRig_1 = (view_isPartOfRig view_1 \<and> \<not> view_isPoseIndependant view_1) in
       do {
         rigBlockPtr_1 \<leftarrow>
           (if withRig_1 then rigBlockPtr ba (view_rigId view_1) (view_subPoseId view_1)
            else Some NullBlock);
         let withRig_2 = (view_isPartOfRig view_2 \<and> \<not> view_isPoseIndependant view_2) in
         do {
           rigBlockPtr_2 \<leftarrow>
             (if withRig_2 then rigBlockPtr ba (view_rigId view_2) (view_subPoseId view_2)
              else Some NullBlock);
           let withSameRig_v = (withRig_1 \<and> withRig_2 \<and> rigBlockPtr_1 = rigBlockPtr_2);
               intrinsic_v = at_list (intrinsics sfmData) (view_intrinsicId view_1);
               parameters_direct =
                 [poseBlockPtr_1, poseBlockPtr_2]
                 @ (if withRig_1 then [rigBlockPtr_1] else [])
                 @ (if withRig_2 \<and> \<not> withSameRig_v then [rigBlockPtr_2] else [])
                 @ [intrinsicBlockPtr_1];
               parameters_indirect =
                 [poseBlockPtr_2, poseBlockPtr_1]
                 @ (if withRig_1 then [rigBlockPtr_2] else [])
                 @ (if withRig_2 \<and> \<not> withSameRig_v then [rigBlockPtr_1] else [])
                 @ [intrinsicBlockPtr_1]
           in
           (case map_option cam_type intrinsic_v of
              Some EquiDistantCamera \<Rightarrow>
                Some (Continue
                  (AddResidualBlock
                     (CostEquiDistant (ObservationSecond constraint) (ObservationFirst constraint)
                        (view_intrinsicId view_1) withRig_2 withRig_1 withSameRig_v)
                     lossFunction parameters_indirect
                  (AddResidualBlock
                     (CostEquiDistant (ObservationFirst constraint) (ObservationSecond constraint)
                        (view_intrinsicId view_1) withRig_1 withRig_2 withSameRig_v)
                     lossFunction parameters_direct pr)))
            | Some PinholeCamera \<Rightarrow>
                Some (Continue
                  (AddResidualBlock
                     (CostPinHole (ObservationSecond constraint) (ObservationFirst constraint)
                        (view_intrinsicId view_1) withRig_2 withRig_1 withSameRig_v)
                     lossFunction parameters_indirect
                  (AddResidualBlock
                     (CostPinHole (ObservationFirst constraint) (ObservationSecond constraint)
                        (view_intrinsicId view_1) withRig_1 withRig_2 withSameRig_v)
                     lossFunction parameters_direct pr)))
            | _ \<Rightarrow> Some (Return pr))
         }
       }
     }"

fun add_constraints2D ::
  "Externals \<Rightarrow> SfMData \<Rightarrow> BundleAdjustmentPanoramaCeres \<Rightarrow> LossFunction option \<Rightarrow>
   Constraint2D list \<Rightarrow> Problem \<Rightarrow> Problem option" where
  "add_constraints2D X sfmData ba lossFunction [] pr = Some pr"
| "add_constraints2D X sfmData ba lossFunction (constraint # rest) pr =
     (case addConstraint2D X sfmData ba lossFunction constraint pr of
        None \<Rightarrow> None
      | Some (Return pr') \<Rightarrow> Some pr'
      | Some (Continue pr') \<Rightarrow> add_constraints2D X sfmData ba lossFunction rest pr')"

definition addConstraints2DToProblem ::
  "Externals \<Rightarrow> SfMData \<Rightarrow> BundleAdjustmentPanoramaCeres \<Rightarrow> Problem \<Rightarrow> Problem option" where
  "addConstraints2DToProblem X sfmData ba pr =
     (let lossFunction = Some (HuberLoss (Square 8.0))
      in add_constraints2D X sfmData ba lossFunction (constraints2D sfmData) pr)"

subsection \<open>addRotationPriorsToProblem (lines 1016-1078)\<close>

definition addRotationPrior ::
  "Externals \<Rightarrow> SfMData \<Rightarrow> BundleAdjustmentPanoramaCeres \<Rightarrow> LossFunction option \<Rightarrow>
   RotationPrior \<Rightarrow> Problem \<Rightarrow> Problem option" where
  "addRotationPrior X sfmData ba lossFunction prior pr =
     do {
       view_1 \<leftarrow> at_list (views sfmData) (prior_ViewFirst prior);
       view_2 \<leftarrow> at_list (views sfmData) (prior_ViewSecond prior);
       _ \<leftarrow> c_assert X (getPoseState ba (view_poseId view_1) \<noteq> IGNORED);
       _ \<leftarrow> c_assert X (getPoseState ba (view_poseId view_2) \<noteq> IGNORED);
       poseBlockPtr_1 \<leftarrow> poseBlockPtr ba (view_poseId view_1);
       poseBlockPtr_2 \<leftarrow> poseBlockPtr ba (view_poseId view_2);
       let withRig_1 = (view_isPartOfRig view_1 \<and> \<not> view_isPoseIndependant view_1) in
       do {
         rigBlockPtr_1 \<leftarrow>
           (if withRig_1 then rigBlockPtr ba (view_rigId view_1) (view_subPoseId view_1)
            else Some NullBlock);
         let withRig_2 = (view_isPartOfRig view_2 \<and> \<not> view_isPoseIndependant view_2) in
         do {
           rigBlockPtr_2 \<leftarrow>
             (if withRig_2 then rigBlockPtr ba (view_rigId view_2) (view_subPoseId view_2)
              else Some NullBlock);
           let withSameRig_v = (withRig_1 \<and> withRig_2 \<and> rigBlockPtr_1 = rigBlockPtr_2);
               costFunction =
                 CostRotationPrior (second_R_first prior) withRig_1 withRig_2 withSameRig_v;
               parameters =
                 [poseBlockPtr_1, poseBlockPtr_2]
                 @ (if withRig_1 then [rigBlockPtr_1] else [])
                 @ (if withRig_2 \<and> \<not> withSameRig_v then [rigBlockPtr_2] else [])
           in Some (AddResidualBlock costFunction lossFunction parameters pr)
         }
       }
     }"

fun add_rotation_priors ::
  "Externals \<Rightarrow> SfMData \<Rightarrow> BundleAdjustmentPanoramaCeres \<Rightarrow> LossFunction option \<Rightarrow>
   RotationPrior list \<Rightarrow> Problem \<Rightarrow> Problem option" where
  "add_rotation_priors X sfmData ba lossFunction [] pr = Some pr"
| "add_rotation_priors X sfmData ba lossFunction (prior # rest) pr =
     (case addRotationPrior X sfmData ba lossFunction prior pr of
        None \<Rightarrow> None
      | Some pr' \<Rightarrow> add_rotation_priors X sfmData ba lossFunction rest pr')"

definition addRotationPriorsToProblem ::
  "Externals \<Rightarrow> SfMData \<Rightarrow> BundleAdjustmentPanoramaCeres \<Rightarrow> Problem \<Rightarrow> Problem option" where
  "addRotationPriorsToProblem X sfmData ba pr =
     (let lossFunction = None
      in add_rotation_priors X sfmData ba lossFunction (rotationPriors sfmData) pr)"

subsection \<open>createProblem (lines 1080-1096)\<close>

definition createProblem ::
  "Externals \<Rightarrow> BundleAdjustmentPanoramaCeres \<Rightarrow> SfMData \<Rightarrow> ERefineOptions \<Rightarrow> Problem \<Rightarrow>
   assembly option" where
  "createProblem X ba sfmData refineOptions pr =
     do {
       let a1 = addExtrinsicsToProblem sfmData refineOptions (resetProblem ba, pr);
       (ba2, pr2) \<leftarrow> addIntrinsicsToProblem X sfmData refineOptions a1;
       pr3 \<leftarrow> addConstraints2DToProblem X sfmData ba2 pr2;
       pr4 \<leftarrow> addRotationPriorsToProblem X sfmData ba2 pr3;
       Some (ba2, pr4)
     }"

subsection \<open>updateFromSolution (lines 1098-1140)\<close>

text \<open>
  Both loops change the scene in place, and \<^verbatim>\<open>at\<close> may throw in the middle of either:
  the result is the scene as it is left, and whether the function returned.
\<close>

fun update_poses ::
  "Externals \<Rightarrow> BundleAdjustmentPanoramaCeres \<Rightarrow> (IndexT \<times> CameraPose) list \<Rightarrow>
   (IndexT \<times> CameraPose) list \<times> bool" where
  "update_poses X ba [] = ([], True)"
| "update_poses X ba ((poseId, pose) # rest) =
     (if getPoseState ba poseId \<noteq> REFINED
      then (let (rest', ok) = update_poses X ba rest in ((poseId, pose) # rest', ok))
      else
        (case posesBlocks ba poseId of
           None \<Rightarrow> ((poseId, pose) # rest, False)
         | Some poseBlock \<Rightarrow>
             (let (rest', ok) = update_poses X ba rest
              in ((poseId, pose\<lparr>pose_transform := poseFromRT X (rows3 poseBlock) [0, 0, 0]\<rparr>) # rest',
                  ok))))"

text \<open>\<^verbatim>\<open>m.at(k)->updateFromParams(v)\<close> on the intrinsics of the scene.\<close>

fun update_at ::
  "(IndexT \<times> 'v) list \<Rightarrow> IndexT \<Rightarrow> ('v \<Rightarrow> 'v) \<Rightarrow> (IndexT \<times> 'v) list option" where
  "update_at [] k f = None"
| "update_at ((k', v) # m) k f =
     (if k' = k then Some ((k', f v) # m)
      else (case update_at m k f of None \<Rightarrow> None | Some m' \<Rightarrow> Some ((k', v) # m')))"

fun update_intrinsics ::
  "Externals \<Rightarrow> BundleAdjustmentPanoramaCeres \<Rightarrow> (IndexT \<times> real list) list \<Rightarrow>
   (IndexT \<times> real Intrinsic) list \<Rightarrow> (IndexT \<times> real Intrinsic) list \<times> bool" where
  "update_intrinsics X ba [] scene_intrinsics = (scene_intrinsics, True)"
| "update_intrinsics X ba ((intrinsicId, block) # rest) scene_intrinsics =
     (if getIntrinsicState ba intrinsicId \<noteq> REFINED
      then update_intrinsics X ba rest scene_intrinsics
      else
        (case update_at scene_intrinsics intrinsicId (\<lambda>c. updateFromParams X c block) of
           None \<Rightarrow> (scene_intrinsics, False)
         | Some m \<Rightarrow> update_intrinsics X ba rest m))"

definition updateFromSolution ::
  "Externals \<Rightarrow> BundleAdjustmentPanoramaCeres \<Rightarrow> SfMData \<Rightarrow> ERefineOptions \<Rightarrow> SfMData \<times> bool" where
  "updateFromSolution X ba sfmData refineOptions =
     (let refinePoses = (REFINE_ROTATION \<in> refineOptions \<or> REFINE_TRANSLATION \<in> refineOptions);
          refineIntrinsicsOpticalCenter =
            (REFINE_INTRINSICS_OPTICALOFFSET_ALWAYS \<in> refineOptions
             \<or> REFINE_INTRINSICS_OPTICALOFFSET_IF_ENOUGH_DATA \<in> refineOptions);
          refineIntrinsics =
            (REFINE_INTRINSICS_FOCAL \<in> refineOptions \<or> REFINE_INTRINSICS_DISTORTION \<in> refineOptions
             \<or> refineIntrinsicsOpticalCenter);
          (poses1, ok1) =
            (if refinePoses then update_poses X ba (poses sfmData) else (poses sfmData, True));
          sfm1 = sfmData\<lparr>poses := poses1\<rparr>
      in if \<not> ok1 then (sfm1, False)
         else if refineIntrinsics
         then (let (intrinsics1, ok2) =
                     update_intrinsics X ba (intrinsicsBlocks ba) (intrinsics sfm1)
               in (sfm1\<lparr>intrinsics := intrinsics1\<rparr>, ok2))
         else (sfm1, True))"

subsection \<open>The solver\<close>

text \<open>
  \<^verbatim>\<open>ceres::Solve\<close> is outside the sources. What the adjuster can observe of one run: the
  calls of \<^verbatim>\<open>Evaluate\<close> it makes, in order (the residual block, the parameter values
  and the jacobians it asks for); the values it leaves in the parameter blocks; and the
  summary. The solver is a function from the options, the problem and the initial block
  values to such a run.
\<close>

record Summary =
  IsSolutionUsable :: bool
  total_time_in_seconds :: real
  num_successful_steps :: nat
  num_unsuccessful_steps :: nat
  num_residuals :: nat
  initial_cost :: real
  final_cost :: real

record SolverOptions =
  minimizer_progress_to_stdout :: bool
  num_threads :: nat
  max_num_iterations :: nat

record SolverRun =
  run_evaluations :: "(nat \<times> real list list \<times> bool list option) list"
  run_solution :: "block_ref \<rightharpoonup> real list"
  run_summary :: Summary

type_synonym Solver =
  "SolverOptions \<Rightarrow> Problem \<Rightarrow> (block_ref \<rightharpoonup> real list) \<Rightarrow> SolverRun"

text \<open>\<^verbatim>\<open>setSolverOptions\<close> (lines 697-711), the options the model keeps.\<close>

definition setSolverOptions :: "BundleAdjustmentPanoramaCeres \<Rightarrow> SolverOptions" where
  "setSolverOptions ba =
     \<lparr> minimizer_progress_to_stdout = opt_verbose ba, num_threads = 1,
       max_num_iterations = 300 \<rparr>"

text \<open>The value of every block of the adjuster, by its address.\<close>

definition block_values :: "BundleAdjustmentPanoramaCeres \<Rightarrow> (block_ref \<rightharpoonup> real list)" where
  "block_values ba p =
     (case p of
        PoseBlock i \<Rightarrow> posesBlocks ba i
      | RigBlock r s \<Rightarrow> (case rigBlocks ba r of None \<Rightarrow> None | Some m \<Rightarrow> m s)
      | IntrinsicBlock i \<Rightarrow> at_list (intrinsicsBlocks ba) i
      | NullBlock \<Rightarrow> None)"

text \<open>The solver writes its solution into the blocks of the adjuster.\<close>

definition solved :: "(block_ref \<rightharpoonup> real list) \<Rightarrow> block_ref \<Rightarrow> real list \<Rightarrow> real list" where
  "solved sol p v = (case sol p of None \<Rightarrow> v | Some v' \<Rightarrow> v')"

definition store_solution ::
  "(block_ref \<rightharpoonup> real list) \<Rightarrow> BundleAdjustmentPanoramaCeres \<Rightarrow> BundleAdjustmentPanoramaCeres" where
  "store_solution sol ba =
     ba\<lparr>posesBlocks := (\<lambda>i. map_option (solved sol (PoseBlock i)) (posesBlocks ba i)),
        rigBlocks := (\<lambda>r. map_option (\<lambda>m s. map_option (solved sol (RigBlock r s)) (m s))
                            (rigBlocks ba r)),
        intrinsicsBlocks := map (\<lambda>(i, v). (i, solved sol (IntrinsicBlock i) v))
                              (intrinsicsBlocks ba)\<rparr>"

text \<open>
  One call of \<^verbatim>\<open>Evaluate\<close> by the solver, on the scene. A reprojection cost works on the
  camera object its shared pointer refers to, which is the object of the scene
  (\<^verbatim>\<open>getIntrinsicsharedPtr\<close>, line 965): what \<^verbatim>\<open>Evaluate\<close> leaves in it is left in the
  scene.
\<close>

definition evaluate_on_scene ::
  "Externals \<Rightarrow> real CostFunction \<Rightarrow> real list list \<Rightarrow> bool list option \<Rightarrow> SfMData \<Rightarrow>
   SfMData option" where
  "evaluate_on_scene X cf parameters jacobians sfmData =
     (case cf of
        CostRotationPrior R w1 w2 ws \<Rightarrow>
          (case CostRotationPrior_Evaluate (ext_lie X) R w1 w2 ws parameters jacobians of
             None \<Rightarrow> None
           | Some r \<Rightarrow> Some sfmData)
      | CostEquiDistant a b i w1 w2 ws \<Rightarrow>
          (case at_list (intrinsics sfmData) i of
             None \<Rightarrow> None
           | Some c \<Rightarrow>
               (case CostEquiDistant_Evaluate (ext_lie X) (ext_camera X) a b w1 w2 ws c
                       parameters jacobians of
                  None \<Rightarrow> None
                | Some (c', r) \<Rightarrow> Some (sfmData\<lparr>intrinsics := assign (intrinsics sfmData) i c'\<rparr>)))
      | CostPinHole a b i w1 w2 ws \<Rightarrow>
          (case at_list (intrinsics sfmData) i of
             None \<Rightarrow> None
           | Some c \<Rightarrow>
               (case CostPinHole_Evaluate (ext_lie X) (ext_camera X) a b w1 w2 ws c
                       parameters jacobians of
                  None \<Rightarrow> None
                | Some (c', r) \<Rightarrow> Some (sfmData\<lparr>intrinsics := assign (intrinsics sfmData) i c'\<rparr>))))"

fun run_evaluations_on_scene ::
  "Externals \<Rightarrow> Problem \<Rightarrow> (nat \<times> real list list \<times> bool list option) list \<Rightarrow> SfMData \<Rightarrow>
   SfMData option" where
  "run_evaluations_on_scene X pr [] sfmData = Some sfmData"
| "run_evaluations_on_scene X pr ((k, parameters, jacobians) # rest) sfmData =
     (if k < length (residual_blocks pr) then
        (case evaluate_on_scene X (rb_cost (residual_blocks pr ! k)) parameters jacobians sfmData of
           None \<Rightarrow> None
         | Some sfm' \<Rightarrow> run_evaluations_on_scene X pr rest sfm')
      else None)"

subsection \<open>adjust (lines 1142-1181)\<close>

text \<open>
  The result is the returned flag (\<open>None\<close> when the call does not return: an exception
  or an undefined access), the scene and the adjuster as they are left.
\<close>

definition adjust ::
  "Externals \<Rightarrow> Solver \<Rightarrow> BundleAdjustmentPanoramaCeres \<Rightarrow> SfMData \<Rightarrow> ERefineOptions \<Rightarrow>
   bool option \<times> SfMData \<times> BundleAdjustmentPanoramaCeres" where
  "adjust X Solve ba sfmData refineOptions =
     (case createProblem X ba sfmData refineOptions empty_Problem of
        None \<Rightarrow> (None, sfmData, ba)
      | Some (ba1, problem) \<Rightarrow>
          (let options = setSolverOptions ba1;
               run = Solve options problem (block_values ba1);
               summary = run_summary run
           in case run_evaluations_on_scene X problem (run_evaluations run) sfmData of
                None \<Rightarrow> (None, sfmData, ba1)
              | Some sfm1 \<Rightarrow>
                  (let ba2 = store_solution (run_solution run) ba1
                   in if \<not> IsSolutionUsable summary then (Some False, sfm1, ba2)
                      else
                        (let (sfm2, ok) = updateFromSolution X ba2 sfm1 refineOptions
                         in if \<not> ok then (None, sfm2, ba2)
                            else
                              (Some True, sfm2,
                               ba2\<lparr>statistics := (statistics ba2)
                                 \<lparr>stat_time := total_time_in_seconds summary,
                                  nbSuccessfullIterations := num_successful_steps summary,
                                  nbUnsuccessfullIterations := num_unsuccessful_steps summary,
                                  nbResidualBlocks := num_residuals summary,
                                  RMSEinitial :=
                                    sqrt (initial_cost summary / real (num_residuals summary)),
                                  RMSEfinal :=
                                    sqrt (final_cost summary / real (num_residuals summary))\<rparr>\<rparr>)))))"

subsection \<open>Notions for stating the properties of the assembly, and example scenes\<close>

definition shared_camera_type :: "SfMData \<Rightarrow> Constraint2D \<Rightarrow> camera_type option" where
  "shared_camera_type sfmData constraint =
     (case at_list (views sfmData) (ViewFirst constraint) of
        None \<Rightarrow> None
      | Some view_1 \<Rightarrow> map_option cam_type (at_list (intrinsics sfmData) (view_intrinsicId view_1)))"

definition supported_camera :: "SfMData \<Rightarrow> Constraint2D \<Rightarrow> bool" where
  "supported_camera sfmData constraint =
     (shared_camera_type sfmData constraint = Some EquiDistantCamera
      \<or> shared_camera_type sfmData constraint = Some PinholeCamera)"

definition forward_block :: "Constraint2D \<Rightarrow> LossFunction option \<Rightarrow> ResidualBlock \<Rightarrow> bool" where
  "forward_block c l b =
     (rb_loss b = l \<and> fi (rb_cost b) = ObservationFirst c \<and> fj (rb_cost b) = ObservationSecond c
      \<and> (is_CostEquiDistant (rb_cost b) \<or> is_CostPinHole (rb_cost b)))"

definition symmetric_block :: "Constraint2D \<Rightarrow> LossFunction option \<Rightarrow> ResidualBlock \<Rightarrow> bool" where
  "symmetric_block c l b =
     (rb_loss b = l \<and> fi (rb_cost b) = ObservationSecond c \<and> fj (rb_cost b) = ObservationFirst c
      \<and> (is_CostEquiDistant (rb_cost b) \<or> is_CostPinHole (rb_cost b)))"

text \<open>The residual blocks of the constraints, two for each: forward, then symmetric.\<close>

fun constraint_blocks :: "LossFunction option \<Rightarrow> Constraint2D list \<Rightarrow> ResidualBlock list \<Rightarrow> bool" where
  "constraint_blocks l [] bs = (bs = [])"
| "constraint_blocks l (c # cs) bs =
     (case bs of
        b1 # b2 # rest \<Rightarrow> forward_block c l b1 \<and> symmetric_block c l b2 \<and> constraint_blocks l cs rest
      | _ \<Rightarrow> False)"

definition prior_block :: "LossFunction option \<Rightarrow> RotationPrior \<Rightarrow> ResidualBlock \<Rightarrow> bool" where
  "prior_block l p b =
     (rb_loss b = l \<and> is_CostRotationPrior (rb_cost b)
      \<and> two_R_one (rb_cost b) = second_R_first p)"

definition example_externals :: Externals where
  "example_externals =
     \<lparr> ext_lie = example_lie_ops, ext_camera = example_camera_ops,
       isPoseAndIntrinsicDefined = (\<lambda>s v. True), isValid = (\<lambda>t. True),
       poseFromRT = (\<lambda>R t. (R, t)),
       updateFromParams =
         (\<lambda>c p. setDistortionParams (drop 4 p) (setOffset (p ! 2, p ! 3) (setScale (p ! 0, p ! 1) c))),
       NDEBUG = False \<rparr>"

definition example_adjuster :: BundleAdjustmentPanoramaCeres where
  "example_adjuster =
     \<lparr> posesBlocks = Map.empty, rigBlocks = Map.empty, intrinsicsBlocks = [],
       statistics = empty_Statistics, getPoseState = (\<lambda>i. REFINED),
       getIntrinsicState = (\<lambda>i. REFINED), opt_verbose = False, opt_summary = False \<rparr>"

definition example_view :: "IndexT \<Rightarrow> IndexT \<Rightarrow> bool \<Rightarrow> View" where
  "example_view p k rig =
     \<lparr> view_poseId = p, view_intrinsicId = k, view_rigId = 0, view_subPoseId = 0,
       view_isPartOfRig = rig, view_isPoseIndependant = (\<not> rig) \<rparr>"

definition example_pose :: CameraPose where
  "example_pose = \<lparr> pose_transform = (Identity3, [0, 0, 0]), pose_locked = False \<rparr>"

text \<open>
  Four views and two constraints: the first between two views of a camera model that is
  neither equidistant nor pinhole, the second between two views of a pinhole camera.
\<close>

definition mixed_scene :: SfMData where
  "mixed_scene =
     \<lparr> views = [(0, example_view 0 0 False), (1, example_view 1 0 False),
                (2, example_view 2 1 False), (3, example_view 3 1 False)],
       poses = [(0, example_pose), (1, example_pose), (2, example_pose), (3, example_pose)],
       rigs = [],
       intrinsics = [(0, example_camera OtherCamera []), (1, example_camera PinholeCamera [])],
       constraints2D =
         [\<lparr> ViewFirst = 0, ObservationFirst = [1, 2], ViewSecond = 1, ObservationSecond = [3, 4] \<rparr>,
          \<lparr> ViewFirst = 2, ObservationFirst = [5, 6], ViewSecond = 3, ObservationSecond = [7, 8] \<rparr>],
       rotationPriors = [] \<rparr>"

text \<open>
  Two views of one pinhole camera with five distortion parameters, both attached to
  sub-pose 0 of rig 0; one 2D constraint and one rotation prior between them.
\<close>

definition rig_scene :: SfMData where
  "rig_scene =
     \<lparr> views = [(0, example_view 0 0 True), (1, example_view 1 0 True)],
       poses = [(0, example_pose), (1, example_pose)],
       rigs = [(0, \<lparr> subPoses = [\<lparr> subpose_status = SUBPOSE_REFINABLE,
                                        subpose_pose = (Identity3, [0, 0, 0]) \<rparr>] \<rparr>)],
       intrinsics = [(0, example_camera PinholeCamera [0, 0, 0, 0, 0])],
       constraints2D =
         [\<lparr> ViewFirst = 0, ObservationFirst = [1, 2], ViewSecond = 1, ObservationSecond = [3, 4] \<rparr>],
       rotationPriors =
         [\<lparr> prior_ViewFirst = 0, prior_ViewSecond = 1, second_R_first = Identity3 \<rparr>] \<rparr>"

text \<open>The adjuster after the extrinsics and intrinsics of \<open>rig_scene\<close> were added.\<close>

definition rig_adjuster :: BundleAdjustmentPanoramaCeres where
  "rig_adjuster =
     example_adjuster
       \<lparr> posesBlocks := [0 \<mapsto> identity_block, 1 \<mapsto> identity_block],
         rigBlocks := [0 \<mapsto> [0 \<mapsto> identity_block]],
         intrinsicsBlocks := [(0, [100, 100, 0, 0, 0, 0, 0, 0, 0])] \<rparr>"

subsection \<open>Notions for stating the properties of addIntrinsicsToProblem\<close>

text \<open>Some view of the scene refers to the intrinsic.\<close>

definition referenced :: "SfMData \<Rightarrow> IndexT \<Rightarrow> bool" where
  "referenced sfmData k = list_ex (\<lambda>v. view_intrinsicId (snd v) = k) (views sfmData)"

text \<open>The number of reconstructed views of the scene that use the intrinsic.\<close>

definition reconstructed_usage :: "Externals \<Rightarrow> SfMData \<Rightarrow> IndexT \<Rightarrow> nat" where
  "reconstructed_usage X sfmData k =
     length (filter (\<lambda>v. view_intrinsicId (snd v) = k \<and> isPoseAndIntrinsicDefined X sfmData (snd v))
       (views sfmData))"

text \<open>
  The intrinsics the second loop counts as ignored: those some view refers to, with no
  reconstructed view or with the state \<open>IGNORED\<close>.
\<close>

definition counted_ignored ::
  "Externals \<Rightarrow> SfMData \<Rightarrow> BundleAdjustmentPanoramaCeres \<Rightarrow> IndexT \<Rightarrow> bool" where
  "counted_ignored X sfmData ba k =
     (referenced sfmData k \<and>
      (reconstructed_usage X sfmData k = 0 \<or> getIntrinsicState ba k = IGNORED))"

text \<open>A view is reconstructed when the scene has its pose and its intrinsic.\<close>

definition pose_defined_externals :: Externals where
  "pose_defined_externals =
     example_externals
       \<lparr> isPoseAndIntrinsicDefined :=
           (\<lambda>s v. at_list (poses s) (view_poseId v) \<noteq> None
                \<and> at_list (intrinsics s) (view_intrinsicId v) \<noteq> None) \<rparr>"

text \<open>
  Three cameras: the first used by a reconstructed view, the second only by a view whose
  pose the scene does not have, the third by no view.
\<close>

definition three_cameras_scene :: SfMData where
  "three_cameras_scene =
     \<lparr> views = [(0, example_view 0 0 False), (1, example_view 7 1 False)],
       poses = [(0, example_pose)],
       rigs = [],
       intrinsics = [(0, example_camera PinholeCamera []), (1, example_camera PinholeCamera []),
                     (2, example_camera PinholeCamera [])],
       constraints2D = [],
       rotationPriors = [] \<rparr>"

text \<open>One camera and no view.\<close>

definition unreferenced_scene :: SfMData where
  "unreferenced_scene =
     \<lparr> views = [], poses = [], rigs = [],
       intrinsics = [(0, example_camera PinholeCamera [])],
       constraints2D = [], rotationPriors = [] \<rparr>"

subsection \<open>Notions for stating the properties of adjust and updateFromSolution\<close>

text \<open>
  Two camera objects that differ at most in what \<^verbatim>\<open>setScale\<close>, \<^verbatim>\<open>setOffset\<close> and
  \<^verbatim>\<open>setDistortionParams\<close> write.
\<close>

definition same_camera_model :: "real Intrinsic \<Rightarrow> real Intrinsic \<Rightarrow> bool" where
  "same_camera_model c c' =
     (c' = c\<lparr>cam_scale := cam_scale c', cam_offset := cam_offset c',
            cam_distortion := cam_distortion c'\<rparr>)"

text \<open>
  A scene and what calls of \<^verbatim>\<open>Evaluate\<close> can make of it: the same views, poses, rigs,
  constraints and priors, and the same cameras under the same keys, up to their scale,
  offset and distortion parameters.
\<close>

definition evaluated_scene :: "SfMData \<Rightarrow> SfMData \<Rightarrow> bool" where
  "evaluated_scene s s' =
     (views s' = views s \<and> poses s' = poses s \<and> rigs s' = rigs s
      \<and> constraints2D s' = constraints2D s \<and> rotationPriors s' = rotationPriors s
      \<and> list_all2 (\<lambda>x y. fst y = fst x \<and> same_camera_model (snd x) (snd y))
           (intrinsics s) (intrinsics s'))"

text \<open>Two views of one pinhole camera without distortion, no rig, one 2D constraint.\<close>

definition plain_scene :: SfMData where
  "plain_scene =
     \<lparr> views = [(0, example_view 0 0 False), (1, example_view 1 0 False)],
       poses = [(0, example_pose), (1, example_pose)],
       rigs = [],
       intrinsics = [(0, example_camera PinholeCamera [])],
       constraints2D =
         [\<lparr> ViewFirst = 0, ObservationFirst = [1, 2], ViewSecond = 1, ObservationSecond = [3, 4] \<rparr>],
       rotationPriors = [] \<rparr>"

text \<open>
  A run that evaluates the first residual block once, at a trial point with the focal
  \<open>(101, 101)\<close>, and reports a solution that is not usable.
\<close>

definition failing_solver :: Solver where
  "failing_solver options problem initial =
     \<lparr> run_evaluations = [(0, [identity_block, identity_block, [101, 101, 0, 0]], None)],
       run_solution = Map.empty,
       run_summary =
         \<lparr> IsSolutionUsable = False, total_time_in_seconds = 0, num_successful_steps = 0,
           num_unsuccessful_steps = 1, num_residuals = 4, initial_cost = 0, final_cost = 0 \<rparr> \<rparr>"

text \<open>
  Two maps with the same keys in the same order, where every entry whose state is not
  \<open>REFINED\<close> is the same in both.
\<close>

definition kept_unless_refined ::
  "(IndexT \<Rightarrow> EParameterState) \<Rightarrow> (IndexT \<times> 'v) list \<Rightarrow> (IndexT \<times> 'v) list \<Rightarrow> bool" where
  "kept_unless_refined state m m' =
     list_all2 (\<lambda>x y. fst y = fst x \<and> (state (fst x) \<noteq> REFINED \<longrightarrow> y = x)) m m'"

text \<open>
  A run that evaluates the first residual block once, at the initial values of the
  blocks the problem gives it, leaves a given solution and reports it usable.
\<close>

definition one_step_solver :: "(block_ref \<rightharpoonup> real list) \<Rightarrow> Solver" where
  "one_step_solver solution options problem initial =
     \<lparr> run_evaluations =
         (case residual_blocks problem of
            [] \<Rightarrow> []
          | b # rest \<Rightarrow>
              [(0, map (\<lambda>p. case initial p of None \<Rightarrow> [] | Some v \<Rightarrow> v) (rb_parameters b), None)]),
       run_solution = solution,
       run_summary =
         \<lparr> IsSolutionUsable = True, total_time_in_seconds = 0, num_successful_steps = 1,
           num_unsuccessful_steps = 0, num_residuals = 4, initial_cost = 0, final_cost = 0 \<rparr> \<rparr>"

definition quarter_turn :: "real list" where
  "quarter_turn = [0, - 1, 0, 1, 0, 0, 0, 0, 1]"

text \<open>An adjuster for which pose 0 is refined, the other poses and the intrinsics constant.\<close>

definition mixed_states_adjuster :: BundleAdjustmentPanoramaCeres where
  "mixed_states_adjuster =
     example_adjuster
       \<lparr> getPoseState := (\<lambda>i. if i = 0 then REFINED else CONSTANT),
         getIntrinsicState := (\<lambda>i. CONSTANT) \<rparr>"

section \<open>Properties of IntrinsicsParameterization\<close>

lemma sint_of_nat_small: "k < 2^31 \<Longrightarrow> sint (of_nat k :: c_int) = int k"
  by (simp add: signed_of_nat signed_take_bit_int_eq_self)

lemma size_t_to_int_small: "unat n < 2^31 \<Longrightarrow> size_t_to_int n = int (unat n)"
  using sint_of_nat_small[of "unat n"] by (simp add: size_t_to_int_def)

lemma init_sizes:
  assumes "4 \<le> unat g" 
  shows "unat (localSize (IntrinsicsParameterization_init g r lF lR lC lD)) =
     (if lF then 0 else if lR then 1 else 2) + (if lC then 0 else 2) + (if lD then 0 else unat g - 4)"
proof -
  have g4: "4 \<le> g" using assms by (simp add: word_le_nat_alt)
  have d: "unat (g - 4) = unat g - 4" using g4 by (simp add: unat_sub)
  have lt: "unat g < 2^64" using unsigned_less[of g] by simp
  show ?thesis
    using d lt assms
    by (simp add: IntrinsicsParameterization_init_def Let_def unat_word_ariths)
qed

lemma init_fields:
  "globalSize (IntrinsicsParameterization_init g r lF lR lC lD) = g"
  "distortionSize (IntrinsicsParameterization_init g r lF lR lC lD) = g - 4"
  "focalRatio (IntrinsicsParameterization_init g r lF lR lC lD) = r"
  "lockFocal (IntrinsicsParameterization_init g r lF lR lC lD) = lF"
  "lockFocalRatio (IntrinsicsParameterization_init g r lF lR lC lD) = lR"
  "lockCenter (IntrinsicsParameterization_init g r lF lR lC lD) = lC"
  "lockDistortion (IntrinsicsParameterization_init g r lF lR lC lD) = lD"
  by (simp_all add: IntrinsicsParameterization_init_def Let_def)

lemma copy_loop_closed:
  "length x = unat n \<Longrightarrow> length out = unat n \<Longrightarrow> unat n \<le> INT_MAX \<Longrightarrow> i \<le> unat n \<Longrightarrow>
   copy_loop n x out i = Some (take i out @ drop i x)"
proof (induction "unat n - i" arbitrary: i out)
  case 0
  then show ?case by (simp add: copy_loop.simps)
next
  case (Suc k)
  then have lt: "i < unat n" by simp
  have "copy_loop n x out i = copy_loop n x (out[i := x ! i]) (Suc i)"
    using lt Suc.prems by (subst copy_loop.simps) simp
  also have "\<dots> = Some (take (Suc i) (out[i := x ! i]) @ drop (Suc i) x)"
    using Suc.hyps(1)[of "Suc i" "out[i := x ! i]"] Suc.hyps(2) Suc.prems lt by simp
  also have "take (Suc i) (out[i := x ! i]) @ drop (Suc i) x = take i out @ drop i x"
    using lt Suc.prems
    by (simp add: take_Suc_conv_app_nth Cons_nth_drop_Suc)
  finally show ?case .
qed

lemma distortion_loop_closed:
  fixes x :: "'a::plus list"
  assumes "length out = length x" "length x = 4 + unat n" "length x \<le> Suc INT_MAX"
    and "i \<le> unat n" "unat pos + (unat n - i) \<le> length delta" "length delta < 2^64"
  shows "distortion_loop n x delta out pos i =
     Some (take (4 + i) out @ map (\<lambda>j. x ! (4 + j) + delta ! (unat pos + (j - i))) [i..<unat n],
           pos + of_nat (unat n - i))"
  using assms
proof (induction "unat n - i" arbitrary: i out pos)
  case 0
  then show ?case by (simp add: distortion_loop.simps)
next
  case (Suc k)
  then have lt: "i < unat n" by simp
  have pl: "unat pos < length delta"
    using Suc.prems(5) lt by arith
  have p1: "unat (pos + 1) = unat pos + 1"
    using Suc.prems(6) pl by (simp add: unat_word_ariths)
  have rest: "unat (pos + 1) + (unat n - Suc i) \<le> length delta"
    using Suc.prems(5) lt p1 by arith
  have "distortion_loop n x delta out pos i =
        distortion_loop n x delta (out[4 + i := x ! (4 + i) + delta ! unat pos]) (pos + 1) (Suc i)"
    using lt pl Suc.prems(1-3) by (subst distortion_loop.simps) (simp add: INT_MAX_def)
  also have "\<dots> = Some (take (4 + Suc i) (out[4 + i := x ! (4 + i) + delta ! unat pos]) @
        map (\<lambda>j. x ! (4 + j) + delta ! (unat (pos + 1) + (j - Suc i))) [Suc i..<unat n],
        pos + 1 + of_nat (unat n - Suc i))"
    using Suc.hyps(1)[of "Suc i" "out[4 + i := x ! (4 + i) + delta ! unat pos]" "pos + 1"]
      Suc.hyps(2) Suc.prems(1-3,6) lt rest by simp
  also have "take (4 + Suc i) (out[4 + i := x ! (4 + i) + delta ! unat pos]) =
       take (4 + i) out @ [x ! (4 + i) + delta ! unat pos]"
  proof -
    define m where "m = 4 + i"
    have "m < length out" using lt Suc.prems(1,2) by (simp add: m_def)
    then have "take (Suc m) (out[m := x ! m + delta ! unat pos]) =
       take m out @ [x ! m + delta ! unat pos]"
      by (simp add: take_Suc_conv_app_nth)
    moreover have "4 + Suc i = Suc m" by (simp add: m_def)
    ultimately show ?thesis by (simp only: m_def)
  qed
  also have "map (\<lambda>j. x ! (4 + j) + delta ! (unat (pos + 1) + (j - Suc i))) [Suc i..<unat n] =
       map (\<lambda>j. x ! (4 + j) + delta ! (unat pos + (j - i))) [Suc i..<unat n]"
  proof (intro map_cong refl)
    fix j assume "j \<in> set [Suc i..<unat n]"
    then have "Suc i \<le> j" by simp
    then have "unat (pos + 1) + (j - Suc i) = unat pos + (j - i)" using p1 by arith
    then show "x ! (4 + j) + delta ! (unat (pos + 1) + (j - Suc i)) =
               x ! (4 + j) + delta ! (unat pos + (j - i))" by simp
  qed
  also have "pos + 1 + of_nat (unat n - Suc i) = pos + of_nat (unat n - i)"
    using lt by (simp add: Suc_diff_Suc)
  finally show ?case using lt by (simp add: upt_conv_Cons)
qed

lemma Plus_closed:
  fixes x delta buf :: "'a::{plus,times} list"
  assumes G: "4 \<le> unat G" "unat G < 2^31"
    and p: "p = IntrinsicsParameterization_init G r lF lR lC lD"
    and lx: "length x = unat G" and lb: "length buf = unat G"
    and ld: "length delta = fc + cc + (if lD then 0 else unat G - 4)"
    and fc: "fc = (if lF then 0 else if lR then 1 else 2)"
    and cc: "cc = (if lC then 0 else 2)"
  shows "Plus p x delta buf =
     Some (disto_out lD (fc + cc) x delta (center_out lC fc x delta (focal_out r lF lR x delta)))"
proof -
  have c: "copy_loop G x buf 0 = Some x"
    using copy_loop_closed[of x G buf 0] lx lb G by (simp add: INT_MAX_def)
  have g4: "4 \<le> G" using G by (simp add: word_le_nat_alt)
  have d: "unat (G - 4) = unat G - 4" using g4 by (simp add: unat_sub)
  have dl: "distortion_loop (G - 4) x delta out pos 0 =
     Some (take 4 out @ map (\<lambda>j. x ! (4 + j) + delta ! (unat pos + j)) [0..<unat G - 4],
           pos + of_nat (unat G - 4))"
    if "length out = unat G" "unat pos + (unat G - 4) = length delta" for out pos
  proof -
    have "fc \<le> 2" "cc \<le> 2" by (simp_all add: fc cc)
    then have "length delta \<le> 4 + unat G" using ld by (cases lD) simp_all
    then have "length delta < 2^64" using G by simp
    then show ?thesis
      using distortion_loop_closed[of out x "G - 4" 0 pos delta] lx G d that
      by (simp add: INT_MAX_def)
  qed
  have xne: "x \<noteq> []" using lx G by auto
  show ?thesis
    unfolding Plus_def p init_fields
    using c lx ld G xne
    apply (cases lF; cases lR; cases lC; cases lD)
                   apply (simp_all add: rd_def wr_def fc cc focal_out_def center_out_def
        disto_out_def dl)
     apply (simp_all add: numeral_2_eq_2 numeral_3_eq_3)
    done
qed

lemma reported_sizes:
  assumes "4 \<le> unat G" and "unat G < 2^31"
  shows "GlobalSize (IntrinsicsParameterization_init G r lF lR lC lD) = int (unat G) \<and>
         LocalSize (IntrinsicsParameterization_init G r lF lR lC lD) =
           int (focal_dim lF lR + center_dim lC + distortion_dim lD G)"
proof -
  let ?p = "IntrinsicsParameterization_init G r lF lR lC lD"
  have l: "unat (localSize ?p) = focal_dim lF lR + center_dim lC + distortion_dim lD G"
    unfolding focal_dim_def center_dim_def distortion_dim_def
    by (rule init_sizes[OF assms(1)])
  then have "unat (localSize ?p) \<le> unat G"
    using assms(1) by (simp add: focal_dim_def center_dim_def distortion_dim_def)
  then have "unat (localSize ?p) < 2^31" using assms(2) by simp
  then show ?thesis
    using l assms(2) by (simp add: GlobalSize_def LocalSize_def size_t_to_int_small init_fields)
qed

text \<open>
  Claim C4, as amended. For every global size \<open>G\<close> with \<open>4 \<le> G < 2\<^sup>3\<^sup>1\<close>, every focal
  ratio and each of the 16 combinations of the lock flags, the constructed
  parameterization reports \<open>GlobalSize() = G\<close>, and \<open>LocalSize()\<close> is the sum of the
  dimensions of the unlocked groups: 0 for a locked focal, else 1 with the ratio locked
  and 2 without; 2 for an unlocked centre; \<open>G - 4\<close> for an unlocked distortion. The
  upper bound is needed: both sizes are kept as \<^verbatim>\<open>size_t\<close> and returned as \<^verbatim>\<open>int\<close>.
\<close>

theorem IntrinsicsParameterization_sizes:
  assumes "4 \<le> unat G" and "unat G < 2^31"
  shows "GlobalSize (IntrinsicsParameterization_init G r lF lR lC lD) = int (unat G) \<and>
         LocalSize (IntrinsicsParameterization_init G r lF lR lC lD) =
           int (focal_dim lF lR + center_dim lC + distortion_dim lD G)"
  using assms by (rule reported_sizes)

theorem IntrinsicsParameterization_sizes_witness:
  "GlobalSize (IntrinsicsParameterization_init 7 (1::real) False True False False) = 7 \<and>
   LocalSize (IntrinsicsParameterization_init 7 (1::real) False True False False) = 6"
  using IntrinsicsParameterization_sizes[of 7 "1::real" False True False False]
  by (simp add: focal_dim_def center_dim_def distortion_dim_def)

text \<open>
  Claim C4 as stated ("for every \<open>G \<ge> 4\<close>") fails at \<open>G = 2\<^sup>3\<^sup>1\<close>: the \<^verbatim>\<open>size_t\<close>
  member does not fit the \<^verbatim>\<open>int\<close> that \<^verbatim>\<open>GlobalSize()\<close> returns.
\<close>

theorem GlobalSize_overflow_counterexample:
  "(4::nat) \<le> unat (2147483648 :: size_t) \<and>
   GlobalSize (IntrinsicsParameterization_init 2147483648 (1::real) True True True True)
     = - 2147483648"
  by (simp add: GlobalSize_def IntrinsicsParameterization_init_def size_t_to_int_def)

text \<open>
  Claim C5. Let the parameterization be built for a global size \<open>G\<close> in the range where
  its sizes are reported faithfully (\<open>4 \<le> G < 2\<^sup>3\<^sup>1\<close>), \<open>x\<close> have length
  \<^verbatim>\<open>GlobalSize()\<close>, \<open>delta\<close> length \<^verbatim>\<open>LocalSize()\<close>, and the output array as many entries
  as \<open>x\<close>. Then \<^verbatim>\<open>Plus\<close> returns, and in its output every locked slice equals that
  of \<open>x\<close> (components 0-1 for the focal, 2-3 for the centre, \<open>4..G-1\<close> for the
  distortion), every unlocked slice is \<open>x\<close> plus the next entries of \<open>delta\<close>, and with
  the focal unlocked and the ratio locked component 1 is
  \<open>x[1] + focalRatio * delta[0]\<close>.
\<close>

theorem Plus_locked_slices_and_updates:
  fixes x delta x_plus_delta :: "'a::{plus,times} list"
  assumes G: "4 \<le> unat G" "unat G < 2^31"
    and p: "p = IntrinsicsParameterization_init G r lF lR lC lD"
    and lx: "int (length x) = GlobalSize p"
    and ld: "int (length delta) = LocalSize p"
    and lb: "length x_plus_delta = length x"
  shows "\<exists>out. Plus p x delta x_plus_delta = Some out \<and> length out = length x \<and>
     (lF \<longrightarrow> out ! 0 = x ! 0 \<and> out ! 1 = x ! 1) \<and>
     (lC \<longrightarrow> out ! 2 = x ! 2 \<and> out ! 3 = x ! 3) \<and>
     (lD \<longrightarrow> (\<forall>i. 4 \<le> i \<and> i < length x \<longrightarrow> out ! i = x ! i)) \<and>
     (\<not> lF \<and> lR \<longrightarrow> out ! 0 = x ! 0 + delta ! 0 \<and> out ! 1 = x ! 1 + r * delta ! 0) \<and>
     (\<not> lF \<and> \<not> lR \<longrightarrow> out ! 0 = x ! 0 + delta ! 0 \<and> out ! 1 = x ! 1 + delta ! 1) \<and>
     (\<not> lC \<longrightarrow> out ! 2 = x ! 2 + delta ! focal_dim lF lR
                \<and> out ! 3 = x ! 3 + delta ! (focal_dim lF lR + 1)) \<and>
     (\<not> lD \<longrightarrow> (\<forall>i. i < length x - 4 \<longrightarrow>
          out ! (4 + i) = x ! (4 + i) + delta ! (focal_dim lF lR + center_dim lC + i)))"
proof -
  have s: "GlobalSize p = int (unat G)"
     "LocalSize p = int (focal_dim lF lR + center_dim lC + distortion_dim lD G)"
    using reported_sizes[OF G, of r lF lR lC lD] p by simp_all
  have "int (length x) = int (unat G)" using lx s(1) by (rule trans)
  then have lx': "length x = unat G" by (simp only: of_nat_eq_iff)
  have "int (length delta) = int (focal_dim lF lR + center_dim lC + distortion_dim lD G)"
    using ld s(2) by (rule trans)
  then have ld': "length delta = focal_dim lF lR + center_dim lC + (if lD then 0 else unat G - 4)"
    unfolding distortion_dim_def by (simp only: of_nat_eq_iff)
  define out where "out = disto_out lD (focal_dim lF lR + center_dim lC) x delta
       (center_out lC (focal_dim lF lR) x delta (focal_out r lF lR x delta))"
  have P: "Plus p x delta x_plus_delta = Some out"
    unfolding out_def
    by (rule Plus_closed[OF G p lx' _ ld']) (simp_all add: lb lx' focal_dim_def center_dim_def)
  have len: "length out = length x"
    using lx' G by (simp add: out_def disto_out_def center_out_def focal_out_def)
  have f: "lF \<longrightarrow> out ! 0 = x ! 0 \<and> out ! 1 = x ! 1"
    using lx' G by (simp add: out_def disto_out_def center_out_def focal_out_def nth_append)
  have c: "lC \<longrightarrow> out ! 2 = x ! 2 \<and> out ! 3 = x ! 3"
    using lx' G by (simp add: out_def disto_out_def center_out_def focal_out_def nth_append)
  have d: "lD \<longrightarrow> (\<forall>i. 4 \<le> i \<and> i < length x \<longrightarrow> out ! i = x ! i)"
    using lx' G by (simp add: out_def disto_out_def center_out_def focal_out_def)
  have f1: "\<not> lF \<and> lR \<longrightarrow> out ! 0 = x ! 0 + delta ! 0 \<and> out ! 1 = x ! 1 + r * delta ! 0"
    using lx' G by (simp add: out_def disto_out_def center_out_def focal_out_def nth_append)
  have f2: "\<not> lF \<and> \<not> lR \<longrightarrow> out ! 0 = x ! 0 + delta ! 0 \<and> out ! 1 = x ! 1 + delta ! 1"
    using lx' G by (simp add: out_def disto_out_def center_out_def focal_out_def nth_append)
  have c1: "\<not> lC \<longrightarrow> out ! 2 = x ! 2 + delta ! focal_dim lF lR
                \<and> out ! 3 = x ! 3 + delta ! (focal_dim lF lR + 1)"
    using lx' G by (simp add: out_def disto_out_def center_out_def focal_out_def nth_append)
  have d1: "\<not> lD \<longrightarrow> (\<forall>i. i < length x - 4 \<longrightarrow>
          out ! (4 + i) = x ! (4 + i) + delta ! (focal_dim lF lR + center_dim lC + i))"
    using lx' G by (simp add: out_def disto_out_def center_out_def focal_out_def nth_append)
  show ?thesis using P len f c d f1 f2 c1 d1 by blast
qed

theorem Plus_locked_slices_and_updates_witness:
  "\<exists>out. Plus (IntrinsicsParameterization_init 5 (2::real) False True True False)
            [10, 20, 30, 40, 50] [1, 2] [0, 0, 0, 0, 0] = Some out \<and>
     length out = 5 \<and> out ! 0 = 11 \<and> out ! 1 = 22 \<and> out ! 2 = 30 \<and> out ! 3 = 40 \<and>
     out ! 4 = 52"
proof -
  let ?p = "IntrinsicsParameterization_init 5 (2::real) False True True False"
  have g: "(4::nat) \<le> unat (5 :: size_t)" "unat (5 :: size_t) < 2^31" by simp_all
  have lx: "int (length [10, 20, 30, 40, 50 :: real]) = GlobalSize ?p"
    by (simp add: GlobalSize_def IntrinsicsParameterization_init_def size_t_to_int_def)
  have ld: "int (length [1, 2 :: real]) = LocalSize ?p"
    by (simp add: LocalSize_def IntrinsicsParameterization_init_def size_t_to_int_def)
  have lb: "length [0, 0, 0, 0, 0 :: real] = length [10, 20, 30, 40, 50 :: real]" by simp
  from Plus_locked_slices_and_updates[OF g refl lx ld lb]
  obtain out where o: "Plus ?p [10, 20, 30, 40, 50] [1, 2] [0, 0, 0, 0, 0] = Some out"
    "length out = 5" "out ! 0 = 11" "out ! 1 = 22" "out ! 2 = 30" "out ! 3 = 40"
    "\<forall>i. i < 1 \<longrightarrow> out ! (4 + i) = [10, 20, 30, 40, 50] ! (4 + i) + [1, 2] ! (1 + i)"
    by (auto simp: focal_dim_def center_dim_def)
  from o(7) have "out ! 4 = 52" by simp
  with o show ?thesis by blast
qed

section \<open>Properties of the cost functions\<close>

lemma prior_jacobians_shared:
  fixes L :: "'a::{zero,one,plus,times} lie_ops"
  shows "written (CostRotationPrior_jacobians L R True True True A B C C [q0, q1, True]) 2
       = madd_opt
           (written (CostRotationPrior_jacobians L R True True False A B C C [q0, q1, True, True]) 2)
           (written (CostRotationPrior_jacobians L R True True False A B C C [q0, q1, True, True]) 3)"
    and "written (CostRotationPrior_jacobians L R True True True A B C C [q0, q1, True]) 2 \<noteq> None"
  by (simp_all add: CostRotationPrior_jacobians_def set_jac_def Let_def written_def madd_opt_def)

lemma equi_jacobians_shared:
  fixes L :: "'a::{zero,one,plus,minus,times} lie_ops"
  shows "written (CostEquiDistant_jacobians L K c a True True True A B C C [q0, q1, q2, True]) 3
       = madd_opt
           (written (CostEquiDistant_jacobians L K c a True True False A B C C
              [q0, q1, q2, True, True]) 3)
           (written (CostEquiDistant_jacobians L K c a True True False A B C C
              [q0, q1, q2, True, True]) 4)"
    and "written (CostEquiDistant_jacobians L K c a True True True A B C C [q0, q1, q2, True]) 3
         \<noteq> None"
  by (simp_all add: CostEquiDistant_jacobians_def set_jac_def Let_def written_def madd_opt_def)

lemma pinhole_jacobians_shared:
  fixes L :: "'a::{zero,one,plus,minus,times} lie_ops"
  shows "written (CostPinHole_jacobians L K c a True True True A B C C [q0, q1, q2, True]) 3
       = madd_opt
           (written (CostPinHole_jacobians L K c a True True False A B C C
              [q0, q1, q2, True, True]) 3)
           (written (CostPinHole_jacobians L K c a True True False A B C C
              [q0, q1, q2, True, True]) 4)"
    and "written (CostPinHole_jacobians L K c a True True True A B C C [q0, q1, q2, True]) 3
         \<noteq> None"
  by (simp_all add: CostPinHole_jacobians_def set_jac_def Let_def written_def madd_opt_def)

lemma written_bind2: "written (map_option snd (m \<bind> (\<lambda>js. Some (res, js)))) i = written m i"
  by (cases m) simp_all

lemma written_bind3:
  "written (map_option (\<lambda>t. snd (snd t)) (m \<bind> (\<lambda>js. Some (c, res, js)))) i = written m i"
  by (cases m) simp_all

lemma prior_eval_shared:
  fixes L :: "'a::{zero,one,plus,times} lie_ops"
  assumes "length p1 = 9" "length p2 = 9" "length r = 9"
  shows "prior_jacobian (CostRotationPrior_Evaluate L R True True True [p1, p2, r] (Some req)) i
       = written (CostRotationPrior_jacobians L R True True True
                    (rows3 p1) (rows3 p2) (rows3 r) (rows3 r) req) i"
    and "prior_jacobian (CostRotationPrior_Evaluate L R True True False [p1, p2, r, r] (Some req)) i
       = written (CostRotationPrior_jacobians L R True True False
                    (rows3 p1) (rows3 p2) (rows3 r) (rows3 r) req) i"
  using assms
  by (simp_all add: CostRotationPrior_Evaluate_def rd_def Map3_def prior_jacobian_def
      written_bind2 Let_def)

lemma equi_eval_shared:
  fixes L :: "'a::{zero,one,plus,minus,times} lie_ops"
  assumes "length p1 = 9" "length p2 = 9" "length r = 9" "length k = 7"
  shows "\<exists>c'. (\<forall>req i.
       reproj_jacobian (CostEquiDistant_Evaluate L K a b True True True c [p1, p2, k, r] (Some req)) i
       = written (CostEquiDistant_jacobians L K c' a True True True
                    (rows3 p1) (rows3 p2) (rows3 r) (rows3 r) req) i) \<and>
     (\<forall>req i.
       reproj_jacobian (CostEquiDistant_Evaluate L K a b True True False c [p1, p2, k, r, r] (Some req)) i
       = written (CostEquiDistant_jacobians L K c' a True True False
                    (rows3 p1) (rows3 p2) (rows3 r) (rows3 r) req) i)"
  using assms
  by (intro exI[of _ "setDistortionParams [k ! 4, k ! 5, k ! 6]
         (setOffset (k ! 2, k ! 3) (setScale (k ! 0, k ! 1) c))"])
     (simp add: CostEquiDistant_Evaluate_def rd_def Map3_def reproj_jacobian_def
      written_bind3 Let_def del: length_greater_0_conv)

lemma collect_distortion_closed:
  "n \<le> length p \<Longrightarrow> i \<le> n \<Longrightarrow>
   collect_distortion p i n acc = Some (acc @ take (n - i) (drop i p))"
proof (induction "n - i" arbitrary: i acc)
  case 0
  then show ?case by (simp add: collect_distortion.simps)
next
  case (Suc d)
  then have lt: "i < n" by simp
  then have il: "i < length p" using Suc.prems by simp
  have "collect_distortion p i n acc = collect_distortion p (Suc i) n (acc @ [p ! i])"
    using lt il by (subst collect_distortion.simps) (simp add: rd_def)
  also have "\<dots> = Some ((acc @ [p ! i]) @ take (n - Suc i) (drop (Suc i) p))"
    using Suc.hyps(1)[of "Suc i" "acc @ [p ! i]"] Suc.hyps(2) Suc.prems lt by simp
  also have "(acc @ [p ! i]) @ take (n - Suc i) (drop (Suc i) p) = acc @ take (n - i) (drop i p)"
  proof -
    have "drop i p = p ! i # drop (Suc i) p" using il by (simp add: Cons_nth_drop_Suc)
    moreover have "n - i = Suc (n - Suc i)" using lt by simp
    ultimately show ?thesis by simp
  qed
  finally show ?case .
qed

lemma pinhole_eval_shared:
  fixes L :: "'a::{zero,one,plus,minus,times} lie_ops"
  assumes "length p1 = 9" "length p2 = 9" "length r = 9" "length k = length (getParams c)"
  shows "\<exists>c'. (\<forall>req i.
       reproj_jacobian (CostPinHole_Evaluate L K a b True True True c [p1, p2, k, r] (Some req)) i
       = written (CostPinHole_jacobians L K c' a True True True
                    (rows3 p1) (rows3 p2) (rows3 r) (rows3 r) req) i) \<and>
     (\<forall>req i.
       reproj_jacobian (CostPinHole_Evaluate L K a b True True False c [p1, p2, k, r, r] (Some req)) i
       = written (CostPinHole_jacobians L K c' a True True False
                    (rows3 p1) (rows3 p2) (rows3 r) (rows3 r) req) i)"
proof -
  have k: "length k = 4 + length (cam_distortion c)"
    using assms(4) by (simp add: getParams_def)
  have cd: "collect_distortion k 4 (Suc (Suc (Suc (Suc (length (cam_distortion c)))))) []
      = Some (drop 4 k)"
  proof -
    have e: "Suc (Suc (Suc (Suc (length (cam_distortion c))))) = length k" using k by simp
    show ?thesis
      unfolding e using collect_distortion_closed[of "length k" k 4 "[]"] k by simp
  qed
  show ?thesis
    using assms(1-3) k cd
    by (intro exI[of _ "setDistortionParams (drop 4 k)
         (setOffset (k ! 2, k ! 3) (setScale (k ! 0, k ! 1) c))"])
       (simp add: CostPinHole_Evaluate_def rd_def Map3_def reproj_jacobian_def
        written_bind3 Let_def getParams_def getDistortionParams_def setScale_def setOffset_def
        del: length_greater_0_conv)
qed

text \<open>
  Claim C2. A cost function built for two views that share one rig sub-pose block
  (\<^verbatim>\<open>withRig_one\<close>, \<^verbatim>\<open>withRig_two\<close> and \<^verbatim>\<open>withSameRig\<close> all set) declares exactly one
  rig block of size 9, after the two rotations (and the intrinsic block of the
  reprojection costs). For every value of the parameter blocks, the jacobian it writes
  for that block is the sum of the two jacobians that the same cost function without
  \<^verbatim>\<open>withSameRig\<close> writes for its two rig blocks when both hold the shared value: the
  A-side one and the B-side one. This holds for the rotation prior, the equidistant and
  the pinhole cost, for any scalar arithmetic and any helper functions.
\<close>

theorem shared_rig_block_jacobian_is_sum:
  fixes L :: "'a::{zero,one,plus,minus,times} lie_ops"
  assumes "length p1 = 9" and "length p2 = 9" and "length r = 9"
    and "length ke = 7" and "length kp = length (getParams cp)"
  shows
    "parameter_block_sizes (CostRotationPrior R True True True) n = [9, 9, 9] \<and>
     parameter_block_sizes (CostEquiDistant a b ie True True True) n = [9, 9, n, 9] \<and>
     parameter_block_sizes (CostPinHole a b ip True True True) n = [9, 9, n, 9] \<and>
     prior_jacobian
       (CostRotationPrior_Evaluate L R True True True [p1, p2, r] (Some [q0, q1, True])) 2
     = madd_opt
        (prior_jacobian (CostRotationPrior_Evaluate L R True True False [p1, p2, r, r]
           (Some [q0, q1, True, True])) 2)
        (prior_jacobian (CostRotationPrior_Evaluate L R True True False [p1, p2, r, r]
           (Some [q0, q1, True, True])) 3) \<and>
     prior_jacobian
       (CostRotationPrior_Evaluate L R True True True [p1, p2, r] (Some [q0, q1, True])) 2
     \<noteq> None \<and>
     reproj_jacobian
       (CostEquiDistant_Evaluate L K a b True True True ce [p1, p2, ke, r]
          (Some [q0, q1, q2, True])) 3
     = madd_opt
        (reproj_jacobian (CostEquiDistant_Evaluate L K a b True True False ce [p1, p2, ke, r, r]
           (Some [q0, q1, q2, True, True])) 3)
        (reproj_jacobian (CostEquiDistant_Evaluate L K a b True True False ce [p1, p2, ke, r, r]
           (Some [q0, q1, q2, True, True])) 4) \<and>
     reproj_jacobian
       (CostEquiDistant_Evaluate L K a b True True True ce [p1, p2, ke, r]
          (Some [q0, q1, q2, True])) 3
     \<noteq> None \<and>
     reproj_jacobian
       (CostPinHole_Evaluate L K a b True True True cp [p1, p2, kp, r]
          (Some [q0, q1, q2, True])) 3
     = madd_opt
        (reproj_jacobian (CostPinHole_Evaluate L K a b True True False cp [p1, p2, kp, r, r]
           (Some [q0, q1, q2, True, True])) 3)
        (reproj_jacobian (CostPinHole_Evaluate L K a b True True False cp [p1, p2, kp, r, r]
           (Some [q0, q1, q2, True, True])) 4) \<and>
     reproj_jacobian
       (CostPinHole_Evaluate L K a b True True True cp [p1, p2, kp, r]
          (Some [q0, q1, q2, True])) 3
     \<noteq> None"
proof -
  have sizes:
    "parameter_block_sizes (CostRotationPrior R True True True) n = [9, 9, 9]"
    "parameter_block_sizes (CostEquiDistant a b ie True True True) n = [9, 9, n, 9]"
    "parameter_block_sizes (CostPinHole a b ip True True True) n = [9, 9, n, 9]"
    by (simp_all add: rig_block_sizes_def)
  note pr = prior_eval_shared[OF assms(1-3), of L R]
  have prior: "prior_jacobian
       (CostRotationPrior_Evaluate L R True True True [p1, p2, r] (Some [q0, q1, True])) 2
     = madd_opt
        (prior_jacobian (CostRotationPrior_Evaluate L R True True False [p1, p2, r, r]
           (Some [q0, q1, True, True])) 2)
        (prior_jacobian (CostRotationPrior_Evaluate L R True True False [p1, p2, r, r]
           (Some [q0, q1, True, True])) 3)"
    "prior_jacobian
       (CostRotationPrior_Evaluate L R True True True [p1, p2, r] (Some [q0, q1, True])) 2
     \<noteq> None"
    unfolding pr by (rule prior_jacobians_shared)+
  obtain ce' where eq: "\<And>req i.
       reproj_jacobian (CostEquiDistant_Evaluate L K a b True True True ce [p1, p2, ke, r] (Some req)) i
       = written (CostEquiDistant_jacobians L K ce' a True True True
                    (rows3 p1) (rows3 p2) (rows3 r) (rows3 r) req) i"
     "\<And>req i.
       reproj_jacobian (CostEquiDistant_Evaluate L K a b True True False ce [p1, p2, ke, r, r] (Some req)) i
       = written (CostEquiDistant_jacobians L K ce' a True True False
                    (rows3 p1) (rows3 p2) (rows3 r) (rows3 r) req) i"
    using equi_eval_shared[OF assms(1-4), of L K a b ce] by blast
  have equi: "reproj_jacobian
       (CostEquiDistant_Evaluate L K a b True True True ce [p1, p2, ke, r]
          (Some [q0, q1, q2, True])) 3
     = madd_opt
        (reproj_jacobian (CostEquiDistant_Evaluate L K a b True True False ce [p1, p2, ke, r, r]
           (Some [q0, q1, q2, True, True])) 3)
        (reproj_jacobian (CostEquiDistant_Evaluate L K a b True True False ce [p1, p2, ke, r, r]
           (Some [q0, q1, q2, True, True])) 4)"
     "reproj_jacobian
       (CostEquiDistant_Evaluate L K a b True True True ce [p1, p2, ke, r]
          (Some [q0, q1, q2, True])) 3
     \<noteq> None"
    unfolding eq by (rule equi_jacobians_shared)+
  obtain cp' where pq: "\<And>req i.
       reproj_jacobian (CostPinHole_Evaluate L K a b True True True cp [p1, p2, kp, r] (Some req)) i
       = written (CostPinHole_jacobians L K cp' a True True True
                    (rows3 p1) (rows3 p2) (rows3 r) (rows3 r) req) i"
     "\<And>req i.
       reproj_jacobian (CostPinHole_Evaluate L K a b True True False cp [p1, p2, kp, r, r] (Some req)) i
       = written (CostPinHole_jacobians L K cp' a True True False
                    (rows3 p1) (rows3 p2) (rows3 r) (rows3 r) req) i"
    using pinhole_eval_shared[OF assms(1-3,5), of L K a b] by blast
  have pin: "reproj_jacobian
       (CostPinHole_Evaluate L K a b True True True cp [p1, p2, kp, r]
          (Some [q0, q1, q2, True])) 3
     = madd_opt
        (reproj_jacobian (CostPinHole_Evaluate L K a b True True False cp [p1, p2, kp, r, r]
           (Some [q0, q1, q2, True, True])) 3)
        (reproj_jacobian (CostPinHole_Evaluate L K a b True True False cp [p1, p2, kp, r, r]
           (Some [q0, q1, q2, True, True])) 4)"
     "reproj_jacobian
       (CostPinHole_Evaluate L K a b True True True cp [p1, p2, kp, r]
          (Some [q0, q1, q2, True])) 3
     \<noteq> None"
    unfolding pq by (rule pinhole_jacobians_shared)+
  from sizes prior equi pin show ?thesis by (intro conjI)
qed

theorem shared_rig_block_jacobian_is_sum_witness:
  "prior_jacobian
     (CostRotationPrior_Evaluate (example_lie_ops :: int lie_ops) Identity3 True True True
        [identity_block, identity_block, identity_block] (Some [False, False, True])) 2
   = Some [[136]] \<and>
   prior_jacobian
     (CostRotationPrior_Evaluate (example_lie_ops :: int lie_ops) Identity3 True True False
        [identity_block, identity_block, identity_block, identity_block]
        (Some [False, False, True, True])) 2
   = Some [[120]] \<and>
   prior_jacobian
     (CostRotationPrior_Evaluate (example_lie_ops :: int lie_ops) Identity3 True True False
        [identity_block, identity_block, identity_block, identity_block]
        (Some [False, False, True, True])) 3
   = Some [[16]]"
proof -
  let ?I = "identity_block :: int list"
  have l: "length ?I = 9" "length [100, 100, 0, 0, 0, 0, 0 :: int] = 7"
    "length [100, 100, 0, 0 :: int] = length (getParams (example_camera PinholeCamera []))"
    by (simp_all add: identity_block_def getParams_def example_camera_def)
  have i2: "prior_jacobian
     (CostRotationPrior_Evaluate (example_lie_ops :: int lie_ops) Identity3 True True False
        [?I, ?I, ?I, ?I] (Some [False, False, True, True])) 2 = Some [[120]]"
    by (simp add: CostRotationPrior_Evaluate_def CostRotationPrior_jacobians_def rd_def Map3_def
        identity_block_def set_jac_def prior_jacobian_def written_def example_lie_ops_def
        mprod_def mmul_def dot_def)
  have i3: "prior_jacobian
     (CostRotationPrior_Evaluate (example_lie_ops :: int lie_ops) Identity3 True True False
        [?I, ?I, ?I, ?I] (Some [False, False, True, True])) 3 = Some [[16]]"
    by (simp add: CostRotationPrior_Evaluate_def CostRotationPrior_jacobians_def rd_def Map3_def
        identity_block_def set_jac_def prior_jacobian_def written_def example_lie_ops_def
        mprod_def mmul_def dot_def)
  from shared_rig_block_jacobian_is_sum[where L = "example_lie_ops :: int lie_ops" and R = Identity3
      and ?q0.0 = False and ?q1.0 = False and ?q2.0 = False
      and K = "example_camera_ops :: int camera_ops"
      and a = "[0, 0]" and b = "[0, 0]" and ce = "example_camera EquiDistantCamera [0, 0, 0]"
      and ie = 0 and ip = 0 and n = 7,
      OF l(1) l(1) l(1) l(2) l(3)]
  have "prior_jacobian
     (CostRotationPrior_Evaluate (example_lie_ops :: int lie_ops) Identity3 True True True
        [?I, ?I, ?I] (Some [False, False, True])) 2 = madd_opt (Some [[120]]) (Some [[16]])"
    unfolding i2 i3 by blast
  then show ?thesis using i2 i3 by (simp add: madd_opt_def madd_def)
qed

text \<open>
  Claim C3 fails on the code in one of its four rig configurations. With a rig on the
  second view only, the cost function declares three blocks (rotation one, rotation
  two, rig two), and \<^verbatim>\<open>Evaluate\<close> takes the rig rotation of view two from
  \<^verbatim>\<open>parameters[3]\<close>, past the end of the array it is given: no residual is defined.
\<close>

theorem CostRotationPrior_rig_two_only_reads_past_blocks:
  "CostRotationPrior_Evaluate L R False True False [p1, p2, rig2] jacobians = None"
  by (simp add: CostRotationPrior_Evaluate_def rd_def)

section \<open>Properties of the statistics export\<close>

lemma digit_char_neq:
  assumes "d < 10"
  shows "digit_char d \<noteq> newline" "digit_char d \<noteq> semicolon"
proof -
  have "of_char (digit_char d) = (48 + d :: nat)"
    using assms by (simp add: digit_char_def)
  moreover have "of_char newline = (10::nat)" "of_char semicolon = (59::nat)"
    by (simp_all add: newline_def semicolon_def)
  ultimately show "digit_char d \<noteq> newline" "digit_char d \<noteq> semicolon"
    using assms by auto
qed

lemma show_size_t_chars:
  "newline \<notin> set (show_size_t n) \<and> semicolon \<notin> set (show_size_t n)"
proof (induction n rule: show_size_t.induct)
  case (1 n)
  show ?case
  proof (cases "n < 10")
    case True
    then show ?thesis
      using digit_char_neq[of n] by (subst (1 2) show_size_t.simps) auto
  next
    case False
    have "n mod 10 < 10" by simp
    then show ?thesis
      using 1 False digit_char_neq[of "n mod 10"]
      by (subst (1 2) show_size_t.simps) auto
  qed
qed

lemma export_fields_clean:
  assumes "\<And>x. newline \<notin> set (show_double x)" "\<And>x. semicolon \<notin> set (show_double x)"
  shows "list_all (\<lambda>f. newline \<notin> set f \<and> semicolon \<notin> set f) (export_fields show_double st)"
proof -
  have d: "newline \<notin> set (distance_field st i) \<and> semicolon \<notin> set (distance_field st i)" for i
    using show_size_t_chars
    by (auto simp: distance_field_def newline_def semicolon_def split: option.splits)
  show ?thesis
    using assms show_size_t_chars d by (simp add: export_fields_def)
qed

lemma concat_fields_no_newline:
  "list_all (\<lambda>f. newline \<notin> set f \<and> semicolon \<notin> set f) fs \<Longrightarrow>
   newline \<notin> set (concat (map (\<lambda>f. f @ [semicolon]) fs))"
  by (induction fs) (auto simp: newline_def semicolon_def)

lemma export_line_is_line:
  assumes "\<And>x. newline \<notin> set (show_double x)" "\<And>x. semicolon \<notin> set (show_double x)"
  shows "is_line (export_line show_double st)"
  using concat_fields_no_newline[OF export_fields_clean[OF assms, where st = st]]
  by (simp add: is_line_def export_line_def)

lemma export_header_is_line: "is_line export_header"
  by (simp add: is_line_def export_header_def newline_def)

lemma export_line_nonempty: "export_line show_double st \<noteq> []"
  by (simp add: export_line_def)

lemma exportToFile_content:
  "exportToFile show_double True st file =
     (True, Some (file_content file @ (if file_content file = [] then export_header else [])
                  @ export_line show_double st))"
  by (simp add: exportToFile_def file_content_def Let_def)

lemma export_all_nonempty:
  "content \<noteq> [] \<Longrightarrow>
   export_all show_double sts (Some content) =
     Some (content @ concat (map (export_line show_double) sts))"
  by (induction sts arbitrary: content) (simp_all add: exportToFile_content file_content_def)

lemma export_all_fresh:
  assumes "file_content file = []" "sts \<noteq> []"
  shows "export_all show_double sts file =
     Some (export_header @ concat (map (export_line show_double) sts))"
proof -
  obtain st rest where s: "sts = st # rest" using assms(2) by (cases sts) auto
  have "export_header @ export_line show_double st \<noteq> []" by (simp add: export_line_nonempty)
  then show ?thesis
    using assms(1) export_all_nonempty[of "export_header @ export_line show_double st" show_double rest]
    by (simp add: s exportToFile_content)
qed

text \<open>
  Claim C9. Every call of \<^verbatim>\<open>exportToFile\<close> that opens the file writes the header
  first if and only if the file is empty (its length is what \<^verbatim>\<open>tellp\<close> gives after
  seeking to the end), and then appends exactly one data line: the fields, each followed
  by a semicolon, and a line break. So a sequence of such calls on a fresh file leaves
  the header once, followed by one data line per call, and a sequence on a file that is
  not empty appends the data lines only. In particular two calls on a fresh file leave
  the header line and two data lines. The text written for a \<^verbatim>\<open>double\<close> is assumed to
  hold no line break and no semicolon.
\<close>

theorem exportToFile_header_written_once:
  assumes "\<And>x. newline \<notin> set (show_double x)" and "\<And>x. semicolon \<notin> set (show_double x)"
  shows
    "exportToFile show_double True st fl =
       (True, Some (file_content fl @ (if file_content fl = [] then export_header else [])
                    @ export_line show_double st)) \<and>
     is_line export_header \<and>
     is_line (export_line show_double st) \<and>
     export_line show_double st =
       concat (map (\<lambda>f. f @ [semicolon]) (export_fields show_double st)) @ [newline] \<and>
     list_all (\<lambda>f. newline \<notin> set f \<and> semicolon \<notin> set f) (export_fields show_double st) \<and>
     (file_content fl = [] \<and> sts \<noteq> [] \<longrightarrow>
        export_all show_double sts fl =
          Some (export_header @ concat (map (export_line show_double) sts))) \<and>
     (file_content fl \<noteq> [] \<longrightarrow>
        export_all show_double sts fl =
          Some (file_content fl @ concat (map (export_line show_double) sts))) \<and>
     export_all show_double [s1, s2] None =
       Some (export_header @ export_line show_double s1 @ export_line show_double s2)"
proof -
  have a: "file_content fl \<noteq> [] \<longrightarrow>
        export_all show_double sts fl =
          Some (file_content fl @ concat (map (export_line show_double) sts))"
    using export_all_nonempty[of "file_content fl" show_double sts]
    by (cases fl) (simp_all add: file_content_def)
  have b: "export_all show_double [s1, s2] None =
       Some (export_header @ export_line show_double s1 @ export_line show_double s2)"
    using export_all_fresh[of None "[s1, s2]" show_double] by (simp add: file_content_def)
  show ?thesis
    using exportToFile_content[of show_double st fl] export_header_is_line
      export_line_is_line[OF assms, where st = st] export_fields_clean[OF assms, where st = st]
      export_all_fresh[of fl sts show_double] a b
    by (simp add: export_line_def)
qed

lemma digit_char_values:
  "digit_char 0 = CHR ''0''" "digit_char 1 = CHR ''1''" "digit_char 2 = CHR ''2''"
  "digit_char 3 = CHR ''3''" "digit_char 4 = CHR ''4''" "digit_char (Suc 0) = CHR ''1''"
  by code_simp+

theorem exportToFile_header_written_once_witness:
  "export_all example_show_double [example_statistics, example_statistics] None =
     Some (export_header @
           ''2;0;0;0;0;0;0;40;12;1;3;1;0;0;0;0;0;0;0;0;0;0;0;0;'' @ [newline] @
           ''2;0;0;0;0;0;0;40;12;1;3;1;0;0;0;0;0;0;0;0;0;0;0;0;'' @ [newline])"
proof -
  have c: "\<And>x. newline \<notin> set (example_show_double x)"
    "\<And>x. semicolon \<notin> set (example_show_double x)"
    using show_size_t_chars by (simp_all add: example_show_double_def)
  have l: "export_line example_show_double example_statistics =
      ''2;0;0;0;0;0;0;40;12;1;3;1;0;0;0;0;0;0;0;0;0;0;0;0;'' @ [newline]"
    by (simp add: export_line_def export_fields_def example_show_double_def
        example_statistics_def distance_field_def posesWithDistUpperThanTen_def
        show_size_t.simps digit_char_values semicolon_def)
  from exportToFile_header_written_once[where show_double = example_show_double
      and st = example_statistics and fl = None
      and sts = "[]" and ?s1.0 = example_statistics and ?s2.0 = example_statistics, OF c]
  have "export_all example_show_double [example_statistics, example_statistics] None =
       Some (export_header @ export_line example_show_double example_statistics
             @ export_line example_show_double example_statistics)"
    by blast
  then show ?thesis unfolding l by simp
qed

section \<open>Properties of the problem assembly\<close>

lemma addConstraint2D_step:
  assumes "addConstraint2D X sfmData ba l c pr = Some r"
  shows "case r of
           Continue pr' \<Rightarrow> supported_camera sfmData c
              \<and> parameter_blocks pr' = parameter_blocks pr
              \<and> (\<exists>b1 b2. residual_blocks pr' = residual_blocks pr @ [b1, b2]
                     \<and> forward_block c l b1 \<and> symmetric_block c l b2)
         | Return pr' \<Rightarrow> \<not> supported_camera sfmData c \<and> pr' = pr"
  using assms
  unfolding addConstraint2D_def supported_camera_def shared_camera_type_def
  by (auto simp: Let_def AddResidualBlock_def forward_block_def symmetric_block_def
      split: Option.bind_splits option.splits camera_type.splits)

lemma constraint_blocks_length:
  "constraint_blocks l cs bs \<Longrightarrow> length bs = 2 * length cs \<and> list_all (\<lambda>b. rb_loss b = l) bs"
proof (induction cs arbitrary: bs)
  case Nil
  then show ?case by simp
next
  case (Cons c cs)
  then obtain b1 b2 rest where b: "bs = b1 # b2 # rest" "forward_block c l b1"
    "symmetric_block c l b2" "constraint_blocks l cs rest"
    by (auto split: list.splits)
  with Cons.IH[of rest] show ?case by (simp add: forward_block_def symmetric_block_def)
qed

lemma add_constraints2D_blocks:
  assumes "add_constraints2D X sfmData ba l cs pr = Some pr'"
  shows "parameter_blocks pr' = parameter_blocks pr \<and>
         (\<exists>bs. residual_blocks pr' = residual_blocks pr @ bs
            \<and> constraint_blocks l (takeWhile (supported_camera sfmData) cs) bs)"
  using assms
proof (induction cs arbitrary: pr)
  case Nil
  then show ?case by simp
next
  case (Cons c cs)
  from Cons.prems obtain r where r: "addConstraint2D X sfmData ba l c pr = Some r"
    by (auto split: option.splits)
  show ?case
  proof (cases r)
    case (Continue p1)
    with r Cons.prems have rest: "add_constraints2D X sfmData ba l cs p1 = Some pr'" by simp
    from addConstraint2D_step[OF r] Continue obtain b1 b2 where
      s: "supported_camera sfmData c" "parameter_blocks p1 = parameter_blocks pr"
         "residual_blocks p1 = residual_blocks pr @ [b1, b2]"
         "forward_block c l b1" "symmetric_block c l b2"
      by auto
    from Cons.IH[OF rest] obtain bs where
      i: "parameter_blocks pr' = parameter_blocks p1"
         "residual_blocks pr' = residual_blocks p1 @ bs"
         "constraint_blocks l (takeWhile (supported_camera sfmData) cs) bs"
      by auto
    have "residual_blocks pr' = residual_blocks pr @ (b1 # b2 # bs)" using s(3) i(2) by simp
    moreover have "constraint_blocks l (takeWhile (supported_camera sfmData) (c # cs)) (b1 # b2 # bs)"
      using s(1,4,5) i(3) by simp
    ultimately show ?thesis using s(2) i(1) by metis
  next
    case (Return p1)
    with r Cons.prems have "pr' = p1" by simp
    moreover from addConstraint2D_step[OF r] Return
    have "\<not> supported_camera sfmData c" "p1 = pr" by auto
    ultimately show ?thesis by simp
  qed
qed

lemma addRotationPrior_step:
  assumes "addRotationPrior X sfmData ba l p pr = Some pr'"
  shows "parameter_blocks pr' = parameter_blocks pr \<and>
         (\<exists>b. residual_blocks pr' = residual_blocks pr @ [b] \<and> prior_block l p b)"
  using assms
  unfolding addRotationPrior_def
  by (auto simp: Let_def AddResidualBlock_def prior_block_def split: Option.bind_splits)

lemma add_rotation_priors_blocks:
  assumes "add_rotation_priors X sfmData ba l ps pr = Some pr'"
  shows "parameter_blocks pr' = parameter_blocks pr \<and>
         (\<exists>bs. residual_blocks pr' = residual_blocks pr @ bs \<and> list_all2 (prior_block l) ps bs)"
  using assms
proof (induction ps arbitrary: pr)
  case Nil
  then show ?case by simp
next
  case (Cons p ps)
  from Cons.prems obtain p1 where
    s: "addRotationPrior X sfmData ba l p pr = Some p1"
       "add_rotation_priors X sfmData ba l ps p1 = Some pr'"
    by (auto split: option.splits)
  from addRotationPrior_step[OF s(1)] obtain b where
    b: "parameter_blocks p1 = parameter_blocks pr" "residual_blocks p1 = residual_blocks pr @ [b]"
       "prior_block l p b"
    by auto
  from Cons.IH[OF s(2)] obtain bs where
    i: "parameter_blocks pr' = parameter_blocks p1" "residual_blocks pr' = residual_blocks p1 @ bs"
       "list_all2 (prior_block l) ps bs"
    by auto
  have "residual_blocks pr' = residual_blocks pr @ (b # bs)" using b(2) i(2) by simp
  moreover have "list_all2 (prior_block l) (p # ps) (b # bs)" using b(3) i(3) by simp
  ultimately show ?case using b(1) i(1) by metis
qed

lemma Square_8: "Square 8 = 64"
  by (simp add: Square_def)

text \<open>
  Claim C6, as amended. The loop over the 2D constraints adds, for every constraint it
  reaches whose shared intrinsic is an equidistant or a pinhole camera, exactly two
  residual blocks: the forward cost and then the cost with the observations swapped,
  each with the Huber loss built with \<open>Square(8.0) = 64\<close>. It reaches a constraint when
  every earlier one had such a camera: the first constraint with another camera model
  ends the loop (line 1011), and neither it nor any later constraint gets a block. For
  every rotation prior, \<^verbatim>\<open>addRotationPriorsToProblem\<close> adds exactly one residual block,
  with no loss function. Both statements are for calls that return.
\<close>

theorem residual_blocks_per_constraint_and_prior:
  "(addConstraints2DToProblem X sfmData ba pr = Some pr' \<longrightarrow>
      (\<exists>bs. residual_blocks pr' = residual_blocks pr @ bs
         \<and> constraint_blocks (Some (HuberLoss 64))
              (takeWhile (supported_camera sfmData) (constraints2D sfmData)) bs
         \<and> length bs = 2 * length (takeWhile (supported_camera sfmData) (constraints2D sfmData))
         \<and> list_all (\<lambda>b. rb_loss b = Some (HuberLoss (8 * 8))) bs)) \<and>
   (addRotationPriorsToProblem X sfmData ba pr = Some pr'' \<longrightarrow>
      (\<exists>bs. residual_blocks pr'' = residual_blocks pr @ bs
         \<and> list_all2 (prior_block None) (rotationPriors sfmData) bs
         \<and> length bs = length (rotationPriors sfmData)
         \<and> list_all (\<lambda>b. rb_loss b = None) bs))"
proof (intro conjI impI)
  assume "addConstraints2DToProblem X sfmData ba pr = Some pr'"
  then have "add_constraints2D X sfmData ba (Some (HuberLoss 64)) (constraints2D sfmData) pr = Some pr'"
    by (simp add: addConstraints2DToProblem_def Square_8)
  from add_constraints2D_blocks[OF this] obtain bs where
    b: "residual_blocks pr' = residual_blocks pr @ bs"
       "constraint_blocks (Some (HuberLoss 64))
          (takeWhile (supported_camera sfmData) (constraints2D sfmData)) bs"
    by auto
  from constraint_blocks_length[OF b(2)] b
  show "\<exists>bs. residual_blocks pr' = residual_blocks pr @ bs
         \<and> constraint_blocks (Some (HuberLoss 64))
              (takeWhile (supported_camera sfmData) (constraints2D sfmData)) bs
         \<and> length bs = 2 * length (takeWhile (supported_camera sfmData) (constraints2D sfmData))
         \<and> list_all (\<lambda>b. rb_loss b = Some (HuberLoss (8 * 8))) bs"
    by auto
next
  assume "addRotationPriorsToProblem X sfmData ba pr = Some pr''"
  then have "add_rotation_priors X sfmData ba None (rotationPriors sfmData) pr = Some pr''"
    by (simp add: addRotationPriorsToProblem_def)
  from add_rotation_priors_blocks[OF this] obtain bs where
    b: "residual_blocks pr'' = residual_blocks pr @ bs"
       "list_all2 (prior_block None) (rotationPriors sfmData) bs"
    by auto
  have "length bs = length (rotationPriors sfmData)" using b(2) by (simp add: list_all2_lengthD)
  moreover have "list_all (\<lambda>b. rb_loss b = None) bs"
    using b(2) by (induction rule: list_all2_induct) (simp_all add: prior_block_def)
  ultimately show "\<exists>bs. residual_blocks pr'' = residual_blocks pr @ bs
         \<and> list_all2 (prior_block None) (rotationPriors sfmData) bs
         \<and> length bs = length (rotationPriors sfmData)
         \<and> list_all (\<lambda>b. rb_loss b = None) bs"
    using b by auto
qed

lemmas example_defs =
  example_externals_def example_adjuster_def example_view_def example_pose_def
  example_camera_def

lemmas assembly_defs =
  createProblem_def resetProblem_def addExtrinsicsToProblem_def addPose_def
  addIntrinsicsToProblem_def addIntrinsic_def addConstraints2DToProblem_def
  addConstraint2D_def addRotationPriorsToProblem_def addRotationPrior_def
  AddParameterBlock_def AddResidualBlock_def SetParameterBlockConstant_def
  SetParameterLowerBound_def SetParameterUpperBound_def SetParameterization_def
  update_block_def c_assert_def at_list_def poseBlockPtr_def intrinsicBlockPtr_def
  rigBlockPtr_def empty_Problem_def getParams_def Let_def

text \<open>
  Claim C6 as stated fails: in \<open>mixed_scene\<close> the second constraint is between two
  views of a pinhole camera, and no residual block is added for it, because the first
  constraint has an unsupported camera and ends the loop.
\<close>

theorem later_pinhole_constraint_gets_no_block:
  "supported_camera mixed_scene (constraints2D mixed_scene ! 1) \<and>
   map_option (\<lambda>a. residual_blocks (snd a))
     (createProblem example_externals example_adjuster mixed_scene {} empty_Problem) = Some []"
  by (simp add: mixed_scene_def supported_camera_def shared_camera_type_def
      example_defs assembly_defs)

lemma rig_scene_constraints:
  "addConstraints2DToProblem example_externals rig_scene rig_adjuster empty_Problem =
     Some \<lparr> parameter_blocks = Map.empty,
            residual_blocks =
              [\<lparr> rb_cost = CostPinHole [1, 2] [3, 4] 0 True True True,
                 rb_loss = Some (HuberLoss 64),
                 rb_parameters = [PoseBlock 0, PoseBlock 1, RigBlock 0 0, IntrinsicBlock 0] \<rparr>,
               \<lparr> rb_cost = CostPinHole [3, 4] [1, 2] 0 True True True,
                 rb_loss = Some (HuberLoss 64),
                 rb_parameters = [PoseBlock 1, PoseBlock 0, RigBlock 0 0, IntrinsicBlock 0] \<rparr>] \<rparr>"
  by (simp add: rig_scene_def rig_adjuster_def example_defs assembly_defs Square_def)

lemma rig_scene_priors:
  "addRotationPriorsToProblem example_externals rig_scene rig_adjuster empty_Problem =
     Some \<lparr> parameter_blocks = Map.empty,
            residual_blocks =
              [\<lparr> rb_cost = CostRotationPrior Identity3 True True True,
                 rb_loss = None,
                 rb_parameters = [PoseBlock 0, PoseBlock 1, RigBlock 0 0] \<rparr>] \<rparr>"
  by (simp add: rig_scene_def rig_adjuster_def example_defs assembly_defs)

theorem residual_blocks_per_constraint_and_prior_witness:
  "map_option (\<lambda>p. map rb_loss (residual_blocks p))
     (addConstraints2DToProblem example_externals rig_scene rig_adjuster empty_Problem)
     = Some [Some (HuberLoss 64), Some (HuberLoss 64)] \<and>
   map_option (\<lambda>p. map rb_loss (residual_blocks p))
     (addRotationPriorsToProblem example_externals rig_scene rig_adjuster empty_Problem)
     = Some [None]"
proof -
  obtain p1 where p1: "addConstraints2DToProblem example_externals rig_scene rig_adjuster
      empty_Problem = Some p1"
    using rig_scene_constraints by blast
  obtain p2 where p2: "addRotationPriorsToProblem example_externals rig_scene rig_adjuster
      empty_Problem = Some p2"
    using rig_scene_priors by blast
  have sup: "takeWhile (supported_camera rig_scene) (constraints2D rig_scene)
      = constraints2D rig_scene"
    by (simp add: rig_scene_def supported_camera_def shared_camera_type_def example_defs
        at_list_def)
  from residual_blocks_per_constraint_and_prior[of example_externals rig_scene rig_adjuster
      empty_Problem p1 p2] p1 p2
  obtain bs bs' where
    b: "residual_blocks p1 = residual_blocks empty_Problem @ bs"
       "length bs = 2 * length (takeWhile (supported_camera rig_scene) (constraints2D rig_scene))"
       "list_all (\<lambda>b. rb_loss b = Some (HuberLoss (8 * 8))) bs"
       "residual_blocks p2 = residual_blocks empty_Problem @ bs'"
       "length bs' = length (rotationPriors rig_scene)"
       "list_all (\<lambda>b. rb_loss b = None) bs'"
    by blast
  have "length bs = 2" using b(2) sup by (simp add: rig_scene_def)
  then obtain x y where "bs = [x, y]"
    by (cases bs; cases "tl bs"; auto)
  then have 1: "map rb_loss (residual_blocks p1) = [Some (HuberLoss 64), Some (HuberLoss 64)]"
    using b(1,3) by (simp add: empty_Problem_def)
  have "length bs' = 1" using b(5) by (simp add: rig_scene_def)
  then obtain z where "bs' = [z]" by (cases bs'; auto)
  then have 2: "map rb_loss (residual_blocks p2) = [None]"
    using b(4,6) by (simp add: empty_Problem_def)
  show ?thesis using p1 p2 1 2 by simp
qed

text \<open>
  Claim C1 fails on the code whenever a view of the constraint is rig-attached. For the
  constraint of \<open>rig_scene\<close>, \<^verbatim>\<open>createProblem\<close> gives the forward residual block the
  blocks rotation A, rotation B, rig, intrinsic, in this order: the rig block stands in
  the third place and the intrinsic block in the fourth, while the cost function declares
  four blocks of nine values and \<^verbatim>\<open>CostPinHole::Evaluate\<close> reads its intrinsic
  parameters from the third. Evaluated on the values of these four blocks, it writes the
  first entries of the rig rotation, \<open>(1, 0)\<close>, into the scale of the camera, which was
  \<open>(100, 100)\<close>.
\<close>

theorem rig_block_passed_where_intrinsic_is_read:
  "map_option
     (\<lambda>a. (rb_cost (residual_blocks (snd a) ! 0),
           rb_parameters (residual_blocks (snd a) ! 0),
           map (block_values (fst a)) (rb_parameters (residual_blocks (snd a) ! 0))))
     (createProblem example_externals example_adjuster rig_scene {REFINE_ROTATION} empty_Problem)
     = Some (CostPinHole [1, 2] [3, 4] 0 True True True,
             [PoseBlock 0, PoseBlock 1, RigBlock 0 0, IntrinsicBlock 0],
             [Some identity_block, Some identity_block, Some identity_block,
              Some [100, 100, 0, 0, 0, 0, 0, 0, 0]]) \<and>
   parameter_block_sizes (CostPinHole [1, 2] [3, 4] 0 True True True :: real CostFunction) 9
     = [9, 9, 9, 9] \<and>
   map_option (\<lambda>s. map_option cam_scale (at_list (intrinsics s) 0))
     (evaluate_on_scene example_externals (CostPinHole [1, 2] [3, 4] 0 True True True)
        [identity_block, identity_block, identity_block, [100, 100, 0, 0, 0, 0, 0, 0, 0]]
        None rig_scene)
     = Some (Some (1, 0)) \<and>
   map_option cam_scale (at_list (intrinsics rig_scene) 0) = Some (100, 100)"
proof -
  have e: "Suc (Suc (Suc (Suc (Suc (Suc (Suc (Suc (Suc 0)))))))) = 9" by simp
  have cd: "collect_distortion [1, 0, 0, 0, 1, 0, 0, 0, 1 :: real] 4
      (Suc (Suc (Suc (Suc (Suc (Suc (Suc (Suc (Suc 0))))))))) [] = Some [1, 0, 0, 0, 1]"
    unfolding e
    using collect_distortion_closed[of 9 "[1, 0, 0, 0, 1, 0, 0, 0, 1 :: real]" 4 "[]"] by simp
  have cp: "map_option
     (\<lambda>a. (rb_cost (residual_blocks (snd a) ! 0),
           rb_parameters (residual_blocks (snd a) ! 0),
           map (block_values (fst a)) (rb_parameters (residual_blocks (snd a) ! 0))))
     (createProblem example_externals example_adjuster rig_scene {REFINE_ROTATION} empty_Problem)
     = Some (CostPinHole [1, 2] [3, 4] 0 True True True,
             [PoseBlock 0, PoseBlock 1, RigBlock 0 0, IntrinsicBlock 0],
             [Some identity_block, Some identity_block, Some identity_block,
              Some [100, 100, 0, 0, 0, 0, 0, 0, 0]])"
    by (simp add: rig_scene_def example_defs assembly_defs block_values_def identity_block_def
        Identity3_def)
  have ev: "map_option (\<lambda>s. map_option cam_scale (at_list (intrinsics s) 0))
     (evaluate_on_scene example_externals (CostPinHole [1, 2] [3, 4] 0 True True True)
        [identity_block, identity_block, identity_block, [100, 100, 0, 0, 0, 0, 0, 0, 0]]
        None rig_scene)
     = Some (Some (1, 0))"
    by (simp add: evaluate_on_scene_def CostPinHole_Evaluate_def
        rig_scene_def example_defs at_list_def rd_def Map3_def
        identity_block_def getParams_def getDistortionParams_def setScale_def setOffset_def
        setDistortionParams_def cd Let_def)
  show ?thesis
    using ev cp
    by (simp add: rig_block_sizes_def rig_scene_def example_defs at_list_def)
qed

section \<open>Properties of addIntrinsicsToProblem\<close>

lemma count_usage_closed:
  "count_usage X sfmData vs u k =
     (if list_ex (\<lambda>v. view_intrinsicId (snd v) = k) vs \<or> u k \<noteq> None
      then Some ((case u k of None \<Rightarrow> 0 | Some n \<Rightarrow> n)
             + length (filter (\<lambda>v. view_intrinsicId (snd v) = k
                                  \<and> isPoseAndIntrinsicDefined X sfmData (snd v)) vs))
      else None)"
proof (induction vs arbitrary: u)
  case Nil
  show ?case by (cases "u k") simp_all
next
  case (Cons v vs)
  obtain viewId view where v: "v = (viewId, view)" by (cases v)
  show ?case
    unfolding v
    by (simp add: Cons.IH Let_def split: option.splits)
qed

lemma usage_of_scene:
  "count_usage X sfmData (views sfmData) Map.empty k =
     (if referenced sfmData k then Some (reconstructed_usage X sfmData k) else None)"
  by (simp add: count_usage_closed referenced_def reconstructed_usage_def)

lemma update_block_other:
  "q \<noteq> p \<Longrightarrow> parameter_blocks (update_block p f pr) q = parameter_blocks pr q"
  by (simp add: update_block_def split: option.splits)

lemma AddParameterBlock_other:
  "q \<noteq> p \<Longrightarrow> parameter_blocks (AddParameterBlock p n lp pr) q = parameter_blocks pr q"
  by (simp add: AddParameterBlock_def)

lemma at_list_assign:
  "at_list (assign m k v) k' = (if k' = k then Some v else at_list m k')"
  unfolding at_list_def by (induction m) auto

lemma addState_other:
  "s \<noteq> s' \<Longrightarrow> parametersStates (addState p s st) p' s' = parametersStates st p' s'"
  by (simp add: addState_def)

lemma addState_same:
  "parametersStates (addState p s st) p s = Suc (parametersStates st p s)"
  by (simp add: addState_def)

lemmas block_frame = update_block_other AddParameterBlock_other
  SetParameterBlockConstant_def SetParameterLowerBound_def SetParameterUpperBound_def
  SetParameterization_def

lemma addIntrinsic_frame:
  assumes "addIntrinsic X refineOptions usageCount k c a = Some a'"
  shows "getIntrinsicState (fst a') = getIntrinsicState (fst a)
    \<and> parametersStates (statistics (fst a')) INTRINSIC IGNORED
           = parametersStates (statistics (fst a)) INTRINSIC IGNORED
    \<and> (\<forall>k'. k' \<noteq> k \<longrightarrow>
          parameter_blocks (snd a') (IntrinsicBlock k') = parameter_blocks (snd a) (IntrinsicBlock k')
          \<and> at_list (intrinsicsBlocks (fst a')) k' = at_list (intrinsicsBlocks (fst a)) k')"
  using assms
  apply (cases a)
  apply (simp add: addIntrinsic_def c_assert_def Let_def
           split: if_splits Option.bind_splits prod.splits)
  apply (clarsimp simp add: block_frame at_list_assign addState_other)+
  done

lemma add_intrinsics_frame:
  assumes "add_intrinsics X refineOptions u xs a = Some a'"
  shows "getIntrinsicState (fst a') = getIntrinsicState (fst a)
    \<and> parametersStates (statistics (fst a')) INTRINSIC IGNORED
        = parametersStates (statistics (fst a)) INTRINSIC IGNORED
          + length (filter (\<lambda>x. u (fst x) \<noteq> None \<and>
                  (u (fst x) = Some 0 \<or> getIntrinsicState (fst a) (fst x) = IGNORED)) xs)
    \<and> (\<forall>k. (u k = None \<or> u k = Some 0 \<or> getIntrinsicState (fst a) k = IGNORED) \<longrightarrow>
          parameter_blocks (snd a') (IntrinsicBlock k) = parameter_blocks (snd a) (IntrinsicBlock k)
          \<and> at_list (intrinsicsBlocks (fst a')) k = at_list (intrinsicsBlocks (fst a)) k)"
  using assms
proof (induction xs arbitrary: a)
  case Nil
  then show ?case by simp
next
  case (Cons x xs)
  obtain k c where x: "x = (k, c)" by (cases x)
  show ?case
  proof (cases "u k")
    case None
    then show ?thesis using Cons.prems Cons.IH[of a] by (simp add: x)
  next
    case (Some n)
    show ?thesis
    proof (cases "n \<le> 0 \<or> getIntrinsicState (fst a) k = IGNORED")
      case True
      let ?a1 = "((fst a)\<lparr>statistics := addState INTRINSIC IGNORED (statistics (fst a))\<rparr>, snd a)"
      have r: "add_intrinsics X refineOptions u xs ?a1 = Some a'"
        using Cons.prems Some True by (simp add: x)
      show ?thesis
        using Cons.IH[OF r] Some True by (simp add: x addState_same)
    next
      case False
      then obtain a1 where a1: "addIntrinsic X refineOptions n k c a = Some a1"
        and r: "add_intrinsics X refineOptions u xs a1 = Some a'"
        using Cons.prems Some by (auto simp add: x split: option.splits)
      have ne: "\<And>k'. u k' = None \<or> u k' = Some 0 \<or> getIntrinsicState (fst a) k' = IGNORED
                  \<Longrightarrow> k' \<noteq> k"
        using Some False by auto
      show ?thesis
        using Cons.IH[OF r] addIntrinsic_frame[OF a1] Some False ne
        by (simp add: x)
    qed
  qed
qed

text \<open>
  Claim C7, as amended. For a call of \<^verbatim>\<open>addIntrinsicsToProblem\<close> that returns: every
  intrinsic that no view refers to, or that is used by zero reconstructed views, or whose
  state is \<open>IGNORED\<close>, is skipped: its parameter block in the problem and its entry in
  the blocks of the adjuster are what they were before the call (none, after a reset).
  The count of \<open>(INTRINSIC, IGNORED)\<close> in the statistics grows by the number of intrinsics
  of the scene that some view refers to and that have no reconstructed view or the state
  \<open>IGNORED\<close>: an intrinsic that no view refers to is skipped without being counted
  (lines 803-806).
\<close>

theorem skipped_intrinsics_block_and_count:
  assumes "addIntrinsicsToProblem X sfmData refineOptions (ba, pr) = Some (ba', pr')"
  shows "(\<forall>k. \<not> referenced sfmData k \<or> reconstructed_usage X sfmData k = 0
              \<or> getIntrinsicState ba k = IGNORED \<longrightarrow>
            parameter_blocks pr' (IntrinsicBlock k) = parameter_blocks pr (IntrinsicBlock k)
            \<and> at_list (intrinsicsBlocks ba') k = at_list (intrinsicsBlocks ba) k)
       \<and> parametersStates (statistics ba') INTRINSIC IGNORED
           = parametersStates (statistics ba) INTRINSIC IGNORED
             + length (filter (\<lambda>x. counted_ignored X sfmData ba (fst x)) (intrinsics sfmData))"
proof -
  let ?u = "count_usage X sfmData (views sfmData) Map.empty"
  have r: "add_intrinsics X refineOptions ?u (intrinsics sfmData) (ba, pr) = Some (ba', pr')"
    using assms by (simp add: addIntrinsicsToProblem_def)
  have p: "(\<lambda>x. ?u (fst x) \<noteq> None \<and> (?u (fst x) = Some 0 \<or> getIntrinsicState ba (fst x) = IGNORED))
         = (\<lambda>x. counted_ignored X sfmData ba (fst x))"
    by (auto simp add: usage_of_scene counted_ignored_def)
  have f: "\<And>k. \<not> referenced sfmData k \<or> reconstructed_usage X sfmData k = 0
              \<or> getIntrinsicState ba k = IGNORED
            \<Longrightarrow> ?u k = None \<or> ?u k = Some 0 \<or> getIntrinsicState ba k = IGNORED"
    by (auto simp add: usage_of_scene)
  note fr = add_intrinsics_frame[OF r, unfolded fst_conv snd_conv p]
  have c: "parametersStates (statistics ba') INTRINSIC IGNORED
           = parametersStates (statistics ba) INTRINSIC IGNORED
             + length (filter (\<lambda>x. counted_ignored X sfmData ba (fst x)) (intrinsics sfmData))"
    using fr by blast
  have b: "\<And>k. ?u k = None \<or> ?u k = Some 0 \<or> getIntrinsicState ba k = IGNORED \<Longrightarrow>
          parameter_blocks pr' (IntrinsicBlock k) = parameter_blocks pr (IntrinsicBlock k)
          \<and> at_list (intrinsicsBlocks ba') k = at_list (intrinsicsBlocks ba) k"
    using fr by blast
  show ?thesis
    using c b f by blast
qed

lemma three_cameras_assembly:
  "\<exists>a. addIntrinsicsToProblem pose_defined_externals three_cameras_scene {}
         (example_adjuster, empty_Problem) = Some a
       \<and> parameter_blocks (snd a) (IntrinsicBlock 0) \<noteq> None"
  by (simp add: addIntrinsicsToProblem_def three_cameras_scene_def pose_defined_externals_def
      example_defs at_list_def addIntrinsic_def c_assert_def AddParameterBlock_def
      SetParameterBlockConstant_def update_block_def empty_Problem_def getParams_def Let_def)

theorem skipped_intrinsics_block_and_count_witness:
  "\<exists>ba' pr'. addIntrinsicsToProblem pose_defined_externals three_cameras_scene {}
         (example_adjuster, empty_Problem) = Some (ba', pr')
     \<and> parameter_blocks pr' (IntrinsicBlock 0) \<noteq> None
     \<and> parameter_blocks pr' (IntrinsicBlock 1) = None
     \<and> parameter_blocks pr' (IntrinsicBlock 2) = None
     \<and> at_list (intrinsicsBlocks ba') 1 = None
     \<and> at_list (intrinsicsBlocks ba') 2 = None
     \<and> parametersStates (statistics ba') INTRINSIC IGNORED = 1"
proof -
  obtain ba' pr' where a: "addIntrinsicsToProblem pose_defined_externals three_cameras_scene {}
         (example_adjuster, empty_Problem) = Some (ba', pr')"
    and b: "parameter_blocks pr' (IntrinsicBlock 0) \<noteq> None"
    using three_cameras_assembly by auto
  have r: "\<not> referenced three_cameras_scene 2" "referenced three_cameras_scene 1"
    "referenced three_cameras_scene 0"
    by (simp_all add: referenced_def three_cameras_scene_def example_defs)
  have u: "reconstructed_usage pose_defined_externals three_cameras_scene 1 = 0"
    "reconstructed_usage pose_defined_externals three_cameras_scene 0 = 1"
    by (simp_all add: reconstructed_usage_def three_cameras_scene_def pose_defined_externals_def
        example_defs at_list_def)
  have n: "length (filter (\<lambda>x. counted_ignored pose_defined_externals three_cameras_scene
             example_adjuster (fst x)) (intrinsics three_cameras_scene)) = 1"
    using r u by (simp add: counted_ignored_def three_cameras_scene_def example_adjuster_def)
  show ?thesis
    using skipped_intrinsics_block_and_count[OF a] a b r u n
    by (simp add: example_adjuster_def empty_Problem_def empty_Statistics_def at_list_def)
qed

text \<open>
  Claim C7 as stated fails for an intrinsic referenced by no view: in
  \<open>unreferenced_scene\<close> the one intrinsic gets no block, and the count of
  \<open>(INTRINSIC, IGNORED)\<close> is still 0 after the call.
\<close>

theorem unreferenced_intrinsic_is_not_counted:
  "\<not> referenced unreferenced_scene 0 \<and>
   map_option (\<lambda>a. (parameter_blocks (snd a) (IntrinsicBlock 0),
                      parametersStates (statistics (fst a)) INTRINSIC IGNORED))
     (addIntrinsicsToProblem example_externals unreferenced_scene {}
        (example_adjuster, empty_Problem)) = Some (None, 0)"
  by (simp add: referenced_def unreferenced_scene_def addIntrinsicsToProblem_def
      example_adjuster_def empty_Problem_def empty_Statistics_def)

section \<open>Properties of adjust and updateFromSolution\<close>

lemma same_camera_model_refl: "same_camera_model c c"
  by (simp add: same_camera_model_def)

lemma same_camera_model_trans:
  "same_camera_model c c' \<Longrightarrow> same_camera_model c' c'' \<Longrightarrow> same_camera_model c c''"
  unfolding same_camera_model_def
  by (cases c, cases c', cases c'') simp

lemma same_camera_model_set:
  "same_camera_model c (setDistortionParams d (setOffset t (setScale s c)))"
  by (simp add: same_camera_model_def setDistortionParams_def setOffset_def setScale_def)

lemma CostEquiDistant_Evaluate_camera:
  assumes "CostEquiDistant_Evaluate L K a b w1 w2 ws c ps js = Some (c', r)"
  shows "same_camera_model c c'"
  using assms unfolding CostEquiDistant_Evaluate_def
  by (auto simp add: same_camera_model_set Let_def split: Option.bind_splits option.splits)

lemma CostPinHole_Evaluate_camera:
  assumes "CostPinHole_Evaluate L K a b w1 w2 ws c ps js = Some (c', r)"
  shows "same_camera_model c c'"
  using assms unfolding CostPinHole_Evaluate_def
  by (auto simp add: same_camera_model_set Let_def split: Option.bind_splits option.splits)

lemma evaluated_scene_refl: "evaluated_scene s s"
  by (simp add: evaluated_scene_def list_all2_same same_camera_model_refl)

lemma evaluated_scene_trans:
  assumes "evaluated_scene s s'" "evaluated_scene s' s''"
  shows "evaluated_scene s s''"
proof -
  have "list_all2 (\<lambda>x y. fst y = fst x \<and> same_camera_model (snd x) (snd y))
          (intrinsics s) (intrinsics s'')"
  proof (rule list_all2_trans)
    show "list_all2 (\<lambda>x y. fst y = fst x \<and> same_camera_model (snd x) (snd y))
            (intrinsics s) (intrinsics s')"
      using assms(1) by (simp add: evaluated_scene_def)
    show "list_all2 (\<lambda>x y. fst y = fst x \<and> same_camera_model (snd x) (snd y))
            (intrinsics s') (intrinsics s'')"
      using assms(2) by (simp add: evaluated_scene_def)
  qed (auto intro: same_camera_model_trans)
  then show ?thesis using assms by (simp add: evaluated_scene_def)
qed

lemma assign_same_model:
  "at_list m i = Some c \<Longrightarrow> same_camera_model c c' \<Longrightarrow>
   list_all2 (\<lambda>x y. fst y = fst x \<and> same_camera_model (snd x) (snd y)) m (assign m i c')"
proof (induction m)
  case Nil
  then show ?case by (simp add: at_list_def)
next
  case (Cons x m)
  obtain k v where x: "x = (k, v)" by (cases x)
  show ?case
  proof (cases "k = i")
    case True
    then show ?thesis using Cons.prems
      by (simp add: x at_list_def list_all2_same same_camera_model_refl)
  next
    case False
    then show ?thesis using Cons
      by (simp add: x at_list_def same_camera_model_refl)
  qed
qed

lemma evaluate_on_scene_frame:
  assumes "evaluate_on_scene X cf ps js s = Some s'"
  shows "evaluated_scene s s'" and "is_CostRotationPrior cf \<Longrightarrow> s' = s"
  using assms
  by (auto simp add: evaluate_on_scene_def evaluated_scene_def list_all2_same
      same_camera_model_refl assign_same_model
      CostEquiDistant_Evaluate_camera CostPinHole_Evaluate_camera
      split: CostFunction.splits option.splits)

lemma run_evaluations_frame:
  assumes "run_evaluations_on_scene X pr es s = Some s'"
  shows "evaluated_scene s s'
    \<and> (list_all (\<lambda>e. is_CostRotationPrior (rb_cost (residual_blocks pr ! fst e))) es \<longrightarrow> s' = s)"
  using assms
proof (induction es arbitrary: s)
  case Nil
  then show ?case by (simp add: evaluated_scene_refl)
next
  case (Cons e es)
  obtain k ps js where e: "e = (k, ps, js)" by (cases e)
  from Cons.prems obtain s1 where
    s1: "evaluate_on_scene X (rb_cost (residual_blocks pr ! k)) ps js s = Some s1"
    and r: "run_evaluations_on_scene X pr es s1 = Some s'"
    by (auto simp add: e split: if_splits option.splits)
  show ?case
    using Cons.IH[OF r] evaluate_on_scene_frame[OF s1] evaluated_scene_trans[of s s1 s']
    by (auto simp add: e)
qed

text \<open>
  Claim C8, as amended. If the solver reports the solution not usable, \<^verbatim>\<open>adjust\<close>
  returns false and the write-back is not reached: the scene is left as the calls of
  \<^verbatim>\<open>Evaluate\<close> made by the solver left it. Its views, poses, rigs, constraints and
  priors are those before the call, and so are its cameras up to their scale, offset and
  distortion parameters, which a reprojection cost sets, in the camera object of the
  scene, to the values it is evaluated at (lines 433-449). When the solver evaluated
  rotation-prior costs only (or nothing), the scene is exactly as before the call.
\<close>

theorem unusable_solution_skips_write_back:
  assumes "createProblem X ba sfmData refineOptions empty_Problem = Some (ba1, problem)"
    and "run_evaluations_on_scene X problem
           (run_evaluations (Solve (setSolverOptions ba1) problem (block_values ba1))) sfmData
         = Some sfm1"
    and "\<not> IsSolutionUsable (run_summary (Solve (setSolverOptions ba1) problem (block_values ba1)))"
  shows "fst (adjust X Solve ba sfmData refineOptions) = Some False
    \<and> fst (snd (adjust X Solve ba sfmData refineOptions)) = sfm1
    \<and> evaluated_scene sfmData sfm1
    \<and> (list_all (\<lambda>e. is_CostRotationPrior (rb_cost (residual_blocks problem ! fst e)))
          (run_evaluations (Solve (setSolverOptions ba1) problem (block_values ba1)))
        \<longrightarrow> sfm1 = sfmData)"
  using assms run_evaluations_frame[OF assms(2)]
  by (simp add: adjust_def Let_def)

lemma plain_scene_problem:
  "\<exists>ba1 problem.
     createProblem example_externals example_adjuster plain_scene
       {REFINE_ROTATION, REFINE_INTRINSICS_FOCAL} empty_Problem = Some (ba1, problem)
     \<and> map rb_cost (residual_blocks problem)
         = [CostPinHole [1, 2] [3, 4] 0 False False False,
            CostPinHole [3, 4] [1, 2] 0 False False False]"
  by (simp add: plain_scene_def example_defs assembly_defs rd_def)

lemma plain_scene_evaluation:
  assumes "map rb_cost (residual_blocks problem)
         = [CostPinHole [1, 2] [3, 4] 0 False False False,
            CostPinHole [3, 4] [1, 2] 0 False False False]"
  shows "run_evaluations_on_scene example_externals problem
           (run_evaluations (failing_solver options problem initial)) plain_scene
         = Some (plain_scene\<lparr>intrinsics :=
                   [(0, (example_camera PinholeCamera [])\<lparr>cam_scale := (101, 101)\<rparr>)]\<rparr>)"
proof -
  have l: "length (residual_blocks problem) = 2"
    using arg_cong[OF assms, of length] by simp
  have c: "rb_cost (residual_blocks problem ! 0) = CostPinHole [1, 2] [3, 4] 0 False False False"
    using arg_cong[OF assms, of "\<lambda>xs. xs ! 0"] l by simp
  have cd: "collect_distortion [101, 101, 0, 0 :: real] 4 4 [] = Some []"
    using collect_distortion_closed[of 4 "[101, 101, 0, 0 :: real]" 4 "[]"] by simp
  have e4: "Suc (Suc (Suc (Suc 0))) = 4" by simp
  show ?thesis
    by (simp add: failing_solver_def l c evaluate_on_scene_def CostPinHole_Evaluate_def
        plain_scene_def example_defs at_list_def rd_def Map3_def identity_block_def
        getParams_def getDistortionParams_def setScale_def setOffset_def
        setDistortionParams_def e4 cd Let_def)
qed

theorem unusable_solution_skips_write_back_witness:
  "fst (adjust example_externals failing_solver example_adjuster plain_scene
          {REFINE_ROTATION, REFINE_INTRINSICS_FOCAL}) = Some False
   \<and> evaluated_scene plain_scene
       (fst (snd (adjust example_externals failing_solver example_adjuster plain_scene
          {REFINE_ROTATION, REFINE_INTRINSICS_FOCAL})))
   \<and> poses (fst (snd (adjust example_externals failing_solver example_adjuster plain_scene
          {REFINE_ROTATION, REFINE_INTRINSICS_FOCAL}))) = poses plain_scene"
proof -
  obtain ba1 problem where
    cp: "createProblem example_externals example_adjuster plain_scene
           {REFINE_ROTATION, REFINE_INTRINSICS_FOCAL} empty_Problem = Some (ba1, problem)"
    and rb: "map rb_cost (residual_blocks problem)
         = [CostPinHole [1, 2] [3, 4] 0 False False False,
            CostPinHole [3, 4] [1, 2] 0 False False False]"
    using plain_scene_problem by (elim exE conjE) simp
  have nu: "\<not> IsSolutionUsable
      (run_summary (failing_solver (setSolverOptions ba1) problem (block_values ba1)))"
    by (simp add: failing_solver_def)
  show ?thesis
    using unusable_solution_skips_write_back[where Solve = failing_solver, OF cp
        plain_scene_evaluation[OF rb, of "setSolverOptions ba1" "block_values ba1"] nu]
    by (simp add: evaluated_scene_def)
qed

text \<open>
  Claim C8 as stated fails: on \<open>plain_scene\<close>, with a solver that evaluates the first
  residual block at the focal \<open>(101, 101)\<close> and reports failure, \<^verbatim>\<open>adjust\<close> returns false
  and leaves the camera of the scene with the scale \<open>(101, 101)\<close>; it was \<open>(100, 100)\<close>.
\<close>

theorem unusable_solution_leaves_evaluated_intrinsics:
  "fst (adjust example_externals failing_solver example_adjuster plain_scene
          {REFINE_ROTATION, REFINE_INTRINSICS_FOCAL}) = Some False
   \<and> map_option cam_scale (at_list (intrinsics (fst (snd
        (adjust example_externals failing_solver example_adjuster plain_scene
          {REFINE_ROTATION, REFINE_INTRINSICS_FOCAL})))) 0) = Some (101, 101)
   \<and> map_option cam_scale (at_list (intrinsics plain_scene) 0) = Some (100, 100)"
proof -
  obtain ba1 problem where
    cp: "createProblem example_externals example_adjuster plain_scene
           {REFINE_ROTATION, REFINE_INTRINSICS_FOCAL} empty_Problem = Some (ba1, problem)"
    and rb: "map rb_cost (residual_blocks problem)
         = [CostPinHole [1, 2] [3, 4] 0 False False False,
            CostPinHole [3, 4] [1, 2] 0 False False False]"
    using plain_scene_problem by (elim exE conjE) simp
  have nu: "\<not> IsSolutionUsable
      (run_summary (failing_solver (setSolverOptions ba1) problem (block_values ba1)))"
    by (simp add: failing_solver_def)
  have o: "map_option cam_scale (at_list (intrinsics plain_scene) 0) = Some (100, 100)"
    by (simp add: plain_scene_def at_list_def example_defs)
  show ?thesis
    using cp plain_scene_evaluation[OF rb] nu o
    by (simp add: adjust_def Let_def at_list_def)
qed

lemma kept_refl: "kept_unless_refined state m m"
  by (simp add: kept_unless_refined_def list_all2_same)

lemma kept_trans:
  assumes "kept_unless_refined state m m'" "kept_unless_refined state m' m''"
  shows "kept_unless_refined state m m''"
  unfolding kept_unless_refined_def
proof (rule list_all2_trans)
  show "list_all2 (\<lambda>x y. fst y = fst x \<and> (state (fst x) \<noteq> REFINED \<longrightarrow> y = x)) m m'"
    using assms(1) by (simp add: kept_unless_refined_def)
  show "list_all2 (\<lambda>x y. fst y = fst x \<and> (state (fst x) \<noteq> REFINED \<longrightarrow> y = x)) m' m''"
    using assms(2) by (simp add: kept_unless_refined_def)
qed auto

lemma kept_Cons:
  "kept_unless_refined state (x # m) (y # m')
   = (fst y = fst x \<and> (state (fst x) \<noteq> REFINED \<longrightarrow> y = x) \<and> kept_unless_refined state m m')"
  by (simp add: kept_unless_refined_def)

lemma update_poses_kept:
  "kept_unless_refined (getPoseState ba) ps (fst (update_poses X ba ps))"
proof (induction ps)
  case Nil
  then show ?case by (simp add: kept_refl)
next
  case (Cons p ps)
  obtain k v where p: "p = (k, v)" by (cases p)
  show ?case
    using Cons.IH
    by (cases "update_poses X ba ps")
       (auto simp add: p kept_Cons kept_refl split: option.splits)
qed

lemma update_at_kept:
  "update_at m k f = Some m' \<Longrightarrow> state k = REFINED \<Longrightarrow> kept_unless_refined state m m'"
proof (induction m arbitrary: m')
  case Nil
  then show ?case by simp
next
  case (Cons x m)
  obtain k' v where x: "x = (k', v)" by (cases x)
  show ?case
    using Cons
    by (auto simp add: x kept_Cons kept_refl split: if_splits option.splits)
qed

lemma update_intrinsics_kept:
  "kept_unless_refined (getIntrinsicState ba) m (fst (update_intrinsics X ba bs m))"
proof (induction bs arbitrary: m)
  case Nil
  then show ?case by (simp add: kept_refl)
next
  case (Cons b bs)
  obtain k v where b: "b = (k, v)" by (cases b)
  show ?case
  proof (cases "getIntrinsicState ba k \<noteq> REFINED")
    case True
    then show ?thesis using Cons.IH by (simp add: b)
  next
    case False
    show ?thesis
    proof (cases "update_at m k (\<lambda>c. updateFromParams X c v)")
      case None
      then show ?thesis using False by (simp add: b kept_refl)
    next
      case (Some m1)
      have "kept_unless_refined (getIntrinsicState ba) m m1"
        using update_at_kept[OF Some] False by simp
      then show ?thesis
        using Cons.IH[of m1] Some False kept_trans by (simp add: b) blast
    qed
  qed
qed

lemma updateFromSolution_frame:
  "kept_unless_refined (getPoseState ba) (poses sfmData)
     (poses (fst (updateFromSolution X ba sfmData refineOptions)))
   \<and> kept_unless_refined (getIntrinsicState ba) (intrinsics sfmData)
       (intrinsics (fst (updateFromSolution X ba sfmData refineOptions)))
   \<and> (REFINE_ROTATION \<notin> refineOptions \<and> REFINE_TRANSLATION \<notin> refineOptions \<longrightarrow>
        poses (fst (updateFromSolution X ba sfmData refineOptions)) = poses sfmData)
   \<and> (REFINE_INTRINSICS_FOCAL \<notin> refineOptions \<and> REFINE_INTRINSICS_DISTORTION \<notin> refineOptions
        \<and> REFINE_INTRINSICS_OPTICALOFFSET_ALWAYS \<notin> refineOptions
        \<and> REFINE_INTRINSICS_OPTICALOFFSET_IF_ENOUGH_DATA \<notin> refineOptions \<longrightarrow>
        intrinsics (fst (updateFromSolution X ba sfmData refineOptions)) = intrinsics sfmData)
   \<and> views (fst (updateFromSolution X ba sfmData refineOptions)) = views sfmData
   \<and> rigs (fst (updateFromSolution X ba sfmData refineOptions)) = rigs sfmData
   \<and> constraints2D (fst (updateFromSolution X ba sfmData refineOptions)) = constraints2D sfmData
   \<and> rotationPriors (fst (updateFromSolution X ba sfmData refineOptions)) = rotationPriors sfmData"
  using update_poses_kept[of ba "poses sfmData" X]
    update_intrinsics_kept[of ba "intrinsics sfmData" X "intrinsicsBlocks ba"]
  by (auto simp add: updateFromSolution_def Let_def kept_refl split: prod.splits)

lemma addPose_states:
  "getPoseState (fst (addPose r P l c p a)) = getPoseState (fst a)
   \<and> getIntrinsicState (fst (addPose r P l c p a)) = getIntrinsicState (fst a)"
  by (cases a) (simp add: addPose_def Let_def split: block_ref.splits)

lemma add_poses_states:
  "getPoseState (fst (add_poses r ps a)) = getPoseState (fst a)
   \<and> getIntrinsicState (fst (add_poses r ps a)) = getIntrinsicState (fst a)"
proof (induction ps arbitrary: a)
  case Nil
  then show ?case by simp
next
  case (Cons p ps)
  obtain k v where p: "p = (k, v)" by (cases p)
  obtain ba pr where a: "a = (ba, pr)" by (cases a)
  show ?case
    using Cons.IH[of "(ba\<lparr>statistics := addState POSE IGNORED (statistics ba)\<rparr>, pr)"]
      Cons.IH[of "addPose r (pose_transform v) (pose_locked v)
                    (getPoseState ba k = CONSTANT) (PoseBlock k) (ba, pr)"]
      addPose_states[of r "pose_transform v" "pose_locked v" "getPoseState ba k = CONSTANT"
                        "PoseBlock k" "(ba, pr)"]
    by (simp add: p a)
qed

lemma add_subposes_states:
  "getPoseState (fst (add_subposes r rigId n sps a)) = getPoseState (fst a)
   \<and> getIntrinsicState (fst (add_subposes r rigId n sps a)) = getIntrinsicState (fst a)"
proof (induction sps arbitrary: a n)
  case Nil
  then show ?case by simp
next
  case (Cons sp sps)
  show ?case
    using Cons.IH[of "Suc n" a]
      Cons.IH[of "Suc n" "addPose r (subpose_pose sp) False
                    (subpose_status sp = SUBPOSE_CONSTANT) (RigBlock rigId n) a"]
      addPose_states[of r "subpose_pose sp" False "subpose_status sp = SUBPOSE_CONSTANT"
                        "RigBlock rigId n" a]
    by simp
qed

lemma add_rigs_states:
  "getPoseState (fst (add_rigs r rs a)) = getPoseState (fst a)
   \<and> getIntrinsicState (fst (add_rigs r rs a)) = getIntrinsicState (fst a)"
proof (induction rs arbitrary: a)
  case Nil
  then show ?case by simp
next
  case (Cons x rs)
  obtain k v where x: "x = (k, v)" by (cases x)
  show ?case
    using Cons.IH[of "add_subposes r k 0 (subPoses v) a"]
      add_subposes_states[of r k 0 "subPoses v" a]
    by (simp add: x)
qed

lemma addIntrinsic_pose_state:
  assumes "addIntrinsic X refineOptions usageCount k c a = Some a'"
  shows "getPoseState (fst a') = getPoseState (fst a)"
  using assms
  apply (cases a)
  apply (simp add: addIntrinsic_def c_assert_def Let_def
           split: if_splits Option.bind_splits prod.splits)
  apply clarsimp+
  done

lemma add_intrinsics_pose_state:
  assumes "add_intrinsics X refineOptions u xs a = Some a'"
  shows "getPoseState (fst a') = getPoseState (fst a)"
  using assms
proof (induction xs arbitrary: a)
  case Nil
  then show ?case by simp
next
  case (Cons x xs)
  obtain k c where x: "x = (k, c)" by (cases x)
  show ?case
  proof (cases "u k")
    case None
    then show ?thesis using Cons.prems Cons.IH[of a] by (simp add: x)
  next
    case (Some n)
    show ?thesis
    proof (cases "n \<le> 0 \<or> getIntrinsicState (fst a) k = IGNORED")
      case True
      let ?a1 = "((fst a)\<lparr>statistics := addState INTRINSIC IGNORED (statistics (fst a))\<rparr>, snd a)"
      have r: "add_intrinsics X refineOptions u xs ?a1 = Some a'"
        using Cons.prems Some True by (simp add: x)
      show ?thesis using Cons.IH[OF r] by simp
    next
      case False
      then obtain a1 where a1: "addIntrinsic X refineOptions n k c a = Some a1"
        and r: "add_intrinsics X refineOptions u xs a1 = Some a'"
        using Cons.prems Some by (auto simp add: x split: option.splits)
      show ?thesis
        using Cons.IH[OF r] addIntrinsic_pose_state[OF a1] by simp
    qed
  qed
qed

lemma createProblem_states:
  assumes "createProblem X ba sfmData refineOptions pr = Some (ba1, pr1)"
  shows "getPoseState ba1 = getPoseState ba \<and> getIntrinsicState ba1 = getIntrinsicState ba"
proof -
  let ?a1 = "addExtrinsicsToProblem sfmData refineOptions (resetProblem ba, pr)"
  obtain pr2 where i: "addIntrinsicsToProblem X sfmData refineOptions ?a1 = Some (ba1, pr2)"
    using assms
    by (auto simp add: createProblem_def Let_def split: Option.bind_splits prod.splits)
  have e: "getPoseState (fst ?a1) = getPoseState ba
           \<and> getIntrinsicState (fst ?a1) = getIntrinsicState ba"
    using add_rigs_states[of "REFINE_ROTATION \<in> refineOptions" "rigs sfmData"
            "add_poses (REFINE_ROTATION \<in> refineOptions) (poses sfmData) (resetProblem ba, pr)"]
      add_poses_states[of "REFINE_ROTATION \<in> refineOptions" "poses sfmData" "(resetProblem ba, pr)"]
    by (simp add: addExtrinsicsToProblem_def resetProblem_def Let_def)
  show ?thesis
    using add_intrinsics_frame[OF i[unfolded addIntrinsicsToProblem_def]]
      add_intrinsics_pose_state[OF i[unfolded addIntrinsicsToProblem_def]] e
    by simp
qed

lemma store_solution_states:
  "getPoseState (store_solution sol ba) = getPoseState ba
   \<and> getIntrinsicState (store_solution sol ba) = getIntrinsicState ba"
  by (simp add: store_solution_def)

lemma adjust_success:
  assumes "fst (adjust X Solve ba sfmData refineOptions) = Some True"
  shows "\<exists>sfm1 ba2. evaluated_scene sfmData sfm1
      \<and> getPoseState ba2 = getPoseState ba \<and> getIntrinsicState ba2 = getIntrinsicState ba
      \<and> fst (snd (adjust X Solve ba sfmData refineOptions))
          = fst (updateFromSolution X ba2 sfm1 refineOptions)"
proof -
  obtain ba1 problem where
    cp: "createProblem X ba sfmData refineOptions empty_Problem = Some (ba1, problem)"
    using assms by (cases "createProblem X ba sfmData refineOptions empty_Problem")
      (auto simp add: adjust_def)
  let ?run = "Solve (setSolverOptions ba1) problem (block_values ba1)"
  obtain sfm1 where
    ev: "run_evaluations_on_scene X problem (run_evaluations ?run) sfmData = Some sfm1"
    using assms cp
    by (cases "run_evaluations_on_scene X problem (run_evaluations ?run) sfmData")
      (auto simp add: adjust_def Let_def)
  let ?ba2 = "store_solution (run_solution ?run) ba1"
  have r: "fst (snd (adjust X Solve ba sfmData refineOptions))
             = fst (updateFromSolution X ?ba2 sfm1 refineOptions)"
    using assms cp ev
    by (auto simp add: adjust_def Let_def split: if_splits prod.splits)
  show ?thesis
    using r run_evaluations_frame[OF ev] createProblem_states[OF cp]
      store_solution_states[of "run_solution ?run" ba1]
    by metis
qed

text \<open>
  \<^verbatim>\<open>updateFromSolution\<close> itself modifies only scene entities whose state is \<open>REFINED\<close>:
  every pose and every intrinsic whose state is \<open>CONSTANT\<close> or \<open>IGNORED\<close> is left
  unchanged, no pose is touched unless rotation or translation refinement was requested,
  and no intrinsic is touched unless some intrinsic refinement was requested (also when
  \<^verbatim>\<open>at\<close> throws in the middle). A successful \<^verbatim>\<open>adjust\<close> returns what
  \<^verbatim>\<open>updateFromSolution\<close> makes of the scene as the run of the solver left it, for the
  same states: so every pose whose state is not \<open>REFINED\<close> has the transform it had before
  the call, and no pose is touched unless rotation or translation refinement was
  requested.
\<close>

theorem updateFromSolution_modifies_refined_only:
  "kept_unless_refined (getPoseState ba) (poses sfmData)
     (poses (fst (updateFromSolution X ba sfmData refineOptions)))
   \<and> kept_unless_refined (getIntrinsicState ba) (intrinsics sfmData)
       (intrinsics (fst (updateFromSolution X ba sfmData refineOptions)))
   \<and> (REFINE_ROTATION \<notin> refineOptions \<and> REFINE_TRANSLATION \<notin> refineOptions \<longrightarrow>
        poses (fst (updateFromSolution X ba sfmData refineOptions)) = poses sfmData)
   \<and> (REFINE_INTRINSICS_FOCAL \<notin> refineOptions \<and> REFINE_INTRINSICS_DISTORTION \<notin> refineOptions
        \<and> REFINE_INTRINSICS_OPTICALOFFSET_ALWAYS \<notin> refineOptions
        \<and> REFINE_INTRINSICS_OPTICALOFFSET_IF_ENOUGH_DATA \<notin> refineOptions \<longrightarrow>
        intrinsics (fst (updateFromSolution X ba sfmData refineOptions)) = intrinsics sfmData)
   \<and> (fst (adjust X Solve ba sfmData refineOptions) = Some True \<longrightarrow>
        kept_unless_refined (getPoseState ba) (poses sfmData)
          (poses (fst (snd (adjust X Solve ba sfmData refineOptions))))
        \<and> (REFINE_ROTATION \<notin> refineOptions \<and> REFINE_TRANSLATION \<notin> refineOptions \<longrightarrow>
             poses (fst (snd (adjust X Solve ba sfmData refineOptions))) = poses sfmData)
        \<and> (\<exists>sfm1 ba2. evaluated_scene sfmData sfm1
              \<and> getPoseState ba2 = getPoseState ba
              \<and> getIntrinsicState ba2 = getIntrinsicState ba
              \<and> fst (snd (adjust X Solve ba sfmData refineOptions))
                  = fst (updateFromSolution X ba2 sfm1 refineOptions)))"
proof -
  have b: "kept_unless_refined (getPoseState ba) (poses sfmData)
          (poses (fst (snd (adjust X Solve ba sfmData refineOptions))))
        \<and> (REFINE_ROTATION \<notin> refineOptions \<and> REFINE_TRANSLATION \<notin> refineOptions \<longrightarrow>
             poses (fst (snd (adjust X Solve ba sfmData refineOptions))) = poses sfmData)
        \<and> (\<exists>sfm1 ba2. evaluated_scene sfmData sfm1
              \<and> getPoseState ba2 = getPoseState ba
              \<and> getIntrinsicState ba2 = getIntrinsicState ba
              \<and> fst (snd (adjust X Solve ba sfmData refineOptions))
                  = fst (updateFromSolution X ba2 sfm1 refineOptions))"
    if s: "fst (adjust X Solve ba sfmData refineOptions) = Some True"
  proof -
    obtain sfm1 ba2 where e: "evaluated_scene sfmData sfm1"
      and p: "getPoseState ba2 = getPoseState ba"
      and i: "getIntrinsicState ba2 = getIntrinsicState ba"
      and r: "fst (snd (adjust X Solve ba sfmData refineOptions))
                = fst (updateFromSolution X ba2 sfm1 refineOptions)"
      using adjust_success[OF s] by blast
    have ps: "poses sfm1 = poses sfmData" using e by (simp add: evaluated_scene_def)
    show ?thesis
      using updateFromSolution_frame[of ba2 sfm1 X refineOptions] e p i r ps by metis
  qed
  show ?thesis
    using updateFromSolution_frame[of ba sfmData X refineOptions] b by blast
qed

lemmas evaluation_defs = adjust_def setSolverOptions_def block_values_def store_solution_def
  solved_def evaluate_on_scene_def CostPinHole_Evaluate_def updateFromSolution_def
  rd_def Map3_def identity_block_def getDistortionParams_def setScale_def setOffset_def
  setDistortionParams_def rows3_def Identity3_def

lemma collect_distortion_examples:
  "collect_distortion [100, 100, 0, 0 :: real] 4 (Suc (Suc (Suc (Suc 0)))) [] = Some []"
  "collect_distortion [1, 0, 0, 0, 1, 0, 0, 0, 1 :: real] 4
     (Suc (Suc (Suc (Suc (Suc (Suc (Suc (Suc (Suc 0))))))))) [] = Some [1, 0, 0, 0, 1]"
proof -
  have e4: "Suc (Suc (Suc (Suc 0))) = 4" by simp
  have e9: "Suc (Suc (Suc (Suc (Suc (Suc (Suc (Suc (Suc 0)))))))) = 9" by simp
  show "collect_distortion [100, 100, 0, 0 :: real] 4 (Suc (Suc (Suc (Suc 0)))) [] = Some []"
    unfolding e4 using collect_distortion_closed[of 4 "[100, 100, 0, 0 :: real]" 4 "[]"] by simp
  show "collect_distortion [1, 0, 0, 0, 1, 0, 0, 0, 1 :: real] 4
     (Suc (Suc (Suc (Suc (Suc (Suc (Suc (Suc (Suc 0))))))))) [] = Some [1, 0, 0, 0, 1]"
    unfolding e9
    using collect_distortion_closed[of 9 "[1, 0, 0, 0, 1, 0, 0, 0, 1 :: real]" 4 "[]"] by simp
qed

lemma plain_scene_adjusted:
  "fst (adjust example_externals (one_step_solver [PoseBlock 0 \<mapsto> quarter_turn])
     mixed_states_adjuster plain_scene {REFINE_ROTATION, REFINE_INTRINSICS_FOCAL}) = Some True
   \<and> poses (fst (snd (adjust example_externals (one_step_solver [PoseBlock 0 \<mapsto> quarter_turn])
     mixed_states_adjuster plain_scene {REFINE_ROTATION, REFINE_INTRINSICS_FOCAL})))
     = [(0, example_pose\<lparr>pose_transform := ([[0, - 1, 0], [1, 0, 0], [0, 0, 1]], [0, 0, 0])\<rparr>),
        (1, example_pose)]"
  by (simp add: mixed_states_adjuster_def plain_scene_def one_step_solver_def quarter_turn_def
      example_defs assembly_defs evaluation_defs collect_distortion_examples)

theorem updateFromSolution_modifies_refined_only_witness:
  "fst (adjust example_externals (one_step_solver [PoseBlock 0 \<mapsto> quarter_turn])
     mixed_states_adjuster plain_scene {REFINE_ROTATION, REFINE_INTRINSICS_FOCAL}) = Some True
   \<and> kept_unless_refined (getPoseState mixed_states_adjuster) (poses plain_scene)
       (poses (fst (snd (adjust example_externals (one_step_solver [PoseBlock 0 \<mapsto> quarter_turn])
          mixed_states_adjuster plain_scene {REFINE_ROTATION, REFINE_INTRINSICS_FOCAL}))))
   \<and> getPoseState mixed_states_adjuster 1 = CONSTANT
   \<and> poses (fst (snd (adjust example_externals (one_step_solver [PoseBlock 0 \<mapsto> quarter_turn])
          mixed_states_adjuster plain_scene {REFINE_ROTATION, REFINE_INTRINSICS_FOCAL}))) ! 1
       = poses plain_scene ! 1
   \<and> kept_unless_refined (getIntrinsicState mixed_states_adjuster) (intrinsics plain_scene)
       (intrinsics (fst (updateFromSolution example_externals mixed_states_adjuster plain_scene
          {REFINE_ROTATION, REFINE_INTRINSICS_FOCAL})))"
proof -
  note t = updateFromSolution_modifies_refined_only[of mixed_states_adjuster plain_scene
    example_externals "{REFINE_ROTATION, REFINE_INTRINSICS_FOCAL}"
    "one_step_solver [PoseBlock 0 \<mapsto> quarter_turn]"]
  have s: "fst (adjust example_externals (one_step_solver [PoseBlock 0 \<mapsto> quarter_turn])
     mixed_states_adjuster plain_scene {REFINE_ROTATION, REFINE_INTRINSICS_FOCAL}) = Some True"
    using plain_scene_adjusted by simp
  have k: "kept_unless_refined (getPoseState mixed_states_adjuster) (poses plain_scene)
       (poses (fst (snd (adjust example_externals (one_step_solver [PoseBlock 0 \<mapsto> quarter_turn])
          mixed_states_adjuster plain_scene {REFINE_ROTATION, REFINE_INTRINSICS_FOCAL}))))"
    using t s by blast
  have i: "kept_unless_refined (getIntrinsicState mixed_states_adjuster) (intrinsics plain_scene)
       (intrinsics (fst (updateFromSolution example_externals mixed_states_adjuster plain_scene
          {REFINE_ROTATION, REFINE_INTRINSICS_FOCAL})))"
    using t by blast
  have c: "getPoseState mixed_states_adjuster 1 = CONSTANT"
    by (simp add: mixed_states_adjuster_def)
  have n: "poses (fst (snd (adjust example_externals (one_step_solver [PoseBlock 0 \<mapsto> quarter_turn])
          mixed_states_adjuster plain_scene {REFINE_ROTATION, REFINE_INTRINSICS_FOCAL}))) ! 1
       = poses plain_scene ! 1"
    using list_all2_nthD[OF k[unfolded kept_unless_refined_def], of 1] c
    by (simp add: plain_scene_def)
  show ?thesis using s k c n i by blast
qed

text \<open>
  Claim C10 fails on the code for the intrinsics of a successful \<^verbatim>\<open>adjust\<close> when a
  view of a 2D constraint is rig-attached. On \<open>rig_scene\<close>, with no intrinsic refinement
  requested and a solver that evaluates the first residual block at the initial values
  of its blocks and changes nothing, \<^verbatim>\<open>adjust\<close> returns true and the camera of the scene
  is left with the scale \<open>(1, 0)\<close>; it was \<open>(100, 100)\<close>. \<^verbatim>\<open>updateFromSolution\<close> does not
  touch the camera: the values are those of the rig block, which the assembly passes
  where \<^verbatim>\<open>Evaluate\<close> reads the intrinsic, the defect shown for claim C1.
\<close>

theorem constant_intrinsic_changed_by_successful_adjust:
  "fst (adjust example_externals (one_step_solver Map.empty) example_adjuster rig_scene
          {REFINE_ROTATION}) = Some True
   \<and> map_option cam_scale (at_list (intrinsics (fst (snd
        (adjust example_externals (one_step_solver Map.empty) example_adjuster rig_scene
           {REFINE_ROTATION})))) 0) = Some (1, 0)
   \<and> map_option cam_scale (at_list (intrinsics rig_scene) 0) = Some (100, 100)"
  by (simp add: rig_scene_def one_step_solver_def
      example_defs assembly_defs evaluation_defs collect_distortion_examples)

text \<open>
  Without a rig the blocks are in the order \<^verbatim>\<open>Evaluate\<close> reads them: the same run on
  \<open>plain_scene\<close> evaluates the cost at the parameters of the camera and leaves the
  intrinsics of the scene as they were.
\<close>

lemma plain_scene_intrinsics_kept_by_successful_adjust:
  "fst (adjust example_externals (one_step_solver Map.empty) example_adjuster plain_scene
          {REFINE_ROTATION}) = Some True
   \<and> intrinsics (fst (snd
        (adjust example_externals (one_step_solver Map.empty) example_adjuster plain_scene
           {REFINE_ROTATION}))) = intrinsics plain_scene"
  by (simp add: plain_scene_def one_step_solver_def
      example_defs assembly_defs evaluation_defs collect_distortion_examples)

end
